theory Spec2Isabelle
  imports Complex_Main "HOL-Library.Word"
begin

chapter \<open>The simulated-annealing placer of VPR (vpr/src/place/place.cpp)\<close>

text \<open>
  A shallow embedding of the cost engine, the move trial and the annealing helpers of
  \<^verbatim>\<open>place.cpp\<close>, followed by theorems about them.

  Conventions of the embedding.
  \<^item> A \<^verbatim>\<open>float\<close> or \<^verbatim>\<open>double\<close> is a value of type \<open>fp\<close>: either a real number or
    \<open>NaN\<close>. Arithmetic is exact on numbers (rounding, overflow and the infinities are
    not modelled) and propagates \<open>NaN\<close>; every comparison with \<open>NaN\<close> is false, as
    in C++. \<^verbatim>\<open>INVALID_DELAY\<close> is \<open>NaN\<close>.
  \<^item> The file-scope arrays of \<^verbatim>\<open>place.cpp\<close> are functions from net ids (and pin
    indices) to values, collected in the record \<open>placer_state\<close> together with the
    block locations, the cost totals and the \<^verbatim>\<open>blocks_affected\<close> transaction.
  \<^item> The netlist, the device grid, the tile pin offsets, the delay model and the
    criticalities are inputs of the placer; they are fields of \<open>placer_ctx\<close>.
  \<^item> The random number generator and the move generator are external and stateful; their
    state is a value of an arbitrary type \<open>'e\<close>, threaded through the calls.
  \<^item> \<^verbatim>\<open>VPR_ERROR\<close> and a failed \<^verbatim>\<open>VTR_ASSERT_SAFE\<close> are results \<open>Inl err\<close>.
\<close>

section \<open>Floating-point values\<close>

datatype fp = Fin real | NaN

instantiation fp :: "{zero, plus, minus, uminus, times, inverse, ord}"
begin

definition zero_fp :: fp where
  "zero_fp = Fin 0"

fun plus_fp :: "fp \<Rightarrow> fp \<Rightarrow> fp" where
  "plus_fp (Fin a) (Fin b) = Fin (a + b)"
| "plus_fp _ _ = NaN"

fun minus_fp :: "fp \<Rightarrow> fp \<Rightarrow> fp" where
  "minus_fp (Fin a) (Fin b) = Fin (a - b)"
| "minus_fp _ _ = NaN"

fun uminus_fp :: "fp \<Rightarrow> fp" where
  "uminus_fp (Fin a) = Fin (- a)"
| "uminus_fp NaN = NaN"

fun times_fp :: "fp \<Rightarrow> fp \<Rightarrow> fp" where
  "times_fp (Fin a) (Fin b) = Fin (a * b)"
| "times_fp _ _ = NaN"

text \<open>Division by zero gives an infinity or NaN in C++; no modelled path divides by zero.\<close>

fun divide_fp :: "fp \<Rightarrow> fp \<Rightarrow> fp" where
  "divide_fp (Fin a) (Fin b) = (if b = 0 then NaN else Fin (a / b))"
| "divide_fp _ _ = NaN"

fun inverse_fp :: "fp \<Rightarrow> fp" where
  "inverse_fp (Fin a) = (if a = 0 then NaN else Fin (inverse a))"
| "inverse_fp NaN = NaN"

fun less_eq_fp :: "fp \<Rightarrow> fp \<Rightarrow> bool" where
  "less_eq_fp (Fin a) (Fin b) = (a \<le> b)"
| "less_eq_fp _ _ = False"

fun less_fp :: "fp \<Rightarrow> fp \<Rightarrow> bool" where
  "less_fp (Fin a) (Fin b) = (a < b)"
| "less_fp _ _ = False"

instance ..

end

text \<open>With exact arithmetic on numbers and an absorbing \<open>NaN\<close>, addition is a commutative monoid.\<close>

instance fp :: comm_monoid_add
proof
  show "u + v + w = u + (v + w)" for u v w :: fp
    by (cases u; cases v; cases w; simp)
  show "u + v = v + u" for u v :: fp
    by (cases u; cases v; simp)
  show "0 + u = u" for u :: fp
    by (cases u; simp add: zero_fp_def)
qed

text \<open>\<^verbatim>\<open>std::min(a, b)\<close> is \<^verbatim>\<open>(b < a) ? b : a\<close> and \<^verbatim>\<open>std::max(a, b)\<close> is \<^verbatim>\<open>(a < b) ? b : a\<close>.\<close>

definition std_min :: "fp \<Rightarrow> fp \<Rightarrow> fp" where
  "std_min a b = (if b < a then b else a)"

definition std_max :: "fp \<Rightarrow> fp \<Rightarrow> fp" where
  "std_max a b = (if a < b then b else a)"

fun fp_exp :: "fp \<Rightarrow> fp" where
  "fp_exp (Fin a) = Fin (exp a)"
| "fp_exp NaN = NaN"

text \<open>\<^verbatim>\<open>sqrt\<close> is only called on positive arguments in the modelled code.\<close>

fun fp_sqrt :: "fp \<Rightarrow> fp" where
  "fp_sqrt (Fin a) = (if a < 0 then NaN else Fin (sqrt a))"
| "fp_sqrt NaN = NaN"

text \<open>
  The real exponential and square root are not computable; the two functions above are left
  uninterpreted when a closed term is evaluated.
\<close>

declare fp_exp.simps [code del]

declare fp_sqrt.simps [code del]

fun fabs :: "fp \<Rightarrow> fp" where
  "fabs (Fin a) = Fin \<bar>a\<bar>"
| "fabs NaN = NaN"

fun isnan :: "fp \<Rightarrow> bool" where
  "isnan NaN = True"
| "isnan (Fin a) = False"

definition INVALID_DELAY :: fp where
  "INVALID_DELAY = NaN"

section \<open>Types and constants local to place.cpp\<close>

definition SMALL_NET :: nat where
  "SMALL_NET = 4"

definition ERROR_TOL :: fp where
  "ERROR_TOL = Fin 0.01"

definition FINAL_RLIM :: fp where
  "FINAL_RLIM = Fin 1"

definition MAX_MOVES_BEFORE_RECOMPUTE :: int where
  "MAX_MOVES_BEFORE_RECOMPUTE = 500000"

text \<open>The flags of a net's bounding box during one swap (characters N, U and S in the source).\<close>

datatype bb_flag = NOT_UPDATED_YET | UPDATED_ONCE | GOT_FROM_SCRATCH

datatype e_move_result = REJECTED | ACCEPTED | ABORTED

datatype e_create_move = VALID | ABORT

datatype e_place_algorithm = BOUNDING_BOX_PLACE | PATH_TIMING_DRIVEN_PLACE

datatype e_sched_type = AUTO_SCHED | DUSTY_SCHED | USER_SCHED

datatype PinType = DRIVER | SINK

datatype vpr_error = VPR_ERROR_PLACE | VTR_ASSERT_FAILED

record t_placer_costs =
  cost :: fp
  bb_cost :: fp
  timing_cost :: fp

record t_placer_prev_inverse_costs =
  inv_bb_cost :: fp
  inv_timing_cost :: fp

record t_bb =
  xmin :: int
  xmax :: int
  ymin :: int
  ymax :: int

record t_pl_loc =
  loc_x :: int
  loc_y :: int
  loc_sub_tile :: int

section \<open>The placer's inputs\<close>

type_synonym ClusterNetId = nat
type_synonym ClusterBlockId = nat
type_synonym ClusterPinId = nat

text \<open>
  The clustered netlist, as the placer reads it. A net's pins are its driver (pin index 0)
  followed by its sinks (pin indices 1, 2, ...).
\<close>

record ClusteredNetlist =
  nets :: "ClusterNetId list"
  blocks :: "ClusterBlockId list"
  block_pins :: "ClusterBlockId \<Rightarrow> ClusterPinId list"
  net_driver :: "ClusterNetId \<Rightarrow> ClusterPinId"
  net_sinks :: "ClusterNetId \<Rightarrow> ClusterPinId list"
  net_is_ignored :: "ClusterNetId \<Rightarrow> bool"
  pin_net :: "ClusterPinId \<Rightarrow> ClusterNetId"
  pin_block :: "ClusterPinId \<Rightarrow> ClusterBlockId"
  pin_type :: "ClusterPinId \<Rightarrow> PinType"
  pin_net_index :: "ClusterPinId \<Rightarrow> nat"
  pin_logical_index :: "ClusterPinId \<Rightarrow> int"

definition net_pins :: "ClusteredNetlist \<Rightarrow> ClusterNetId \<Rightarrow> ClusterPinId list" where
  "net_pins nl net = net_driver nl net # net_sinks nl net"

definition net_pin :: "ClusteredNetlist \<Rightarrow> ClusterNetId \<Rightarrow> nat \<Rightarrow> ClusterPinId" where
  "net_pin nl net ipin = net_pins nl net ! ipin"

definition net_driver_block :: "ClusteredNetlist \<Rightarrow> ClusterNetId \<Rightarrow> ClusterBlockId" where
  "net_driver_block nl net = pin_block nl (net_driver nl net)"

text \<open>The device grid; \<^verbatim>\<open>width()\<close> and \<^verbatim>\<open>height()\<close> are of type \<^verbatim>\<open>size_t\<close>.\<close>

record DeviceGrid =
  width :: "64 word"
  height :: "64 word"

record placer_ctx =
  clb_nlist :: ClusteredNetlist
  grid :: DeviceGrid
  pin_width_offset :: "ClusterPinId \<Rightarrow> int"
  pin_height_offset :: "ClusterPinId \<Rightarrow> int"
  chanx_place_cost_fac :: "int \<Rightarrow> int \<Rightarrow> fp"
  chany_place_cost_fac :: "int \<Rightarrow> int \<Rightarrow> fp"
  delay_model :: "int \<Rightarrow> int \<Rightarrow> int \<Rightarrow> int \<Rightarrow> int \<Rightarrow> int \<Rightarrow> fp"
  criticality :: "ClusterNetId \<Rightarrow> nat \<Rightarrow> fp"
  VTR_ASSERT_SAFE_ENABLED :: bool

section \<open>The placer's state\<close>

record t_pl_moved_block =
  block_num :: ClusterBlockId
  old_loc :: t_pl_loc
  new_loc :: t_pl_loc

record t_pl_blocks_to_be_moved =
  moved_blocks :: "t_pl_moved_block list"
  affected_pins :: "ClusterPinId list"

record placer_state =
  block_locs :: "ClusterBlockId \<Rightarrow> t_pl_loc"
  net_cost :: "ClusterNetId \<Rightarrow> fp"
  proposed_net_cost :: "ClusterNetId \<Rightarrow> fp"
  bb_updated_before :: "ClusterNetId \<Rightarrow> bb_flag"
  connection_delay :: "ClusterNetId \<Rightarrow> nat \<Rightarrow> fp"
  proposed_connection_delay :: "ClusterNetId \<Rightarrow> nat \<Rightarrow> fp"
  connection_timing_cost :: "ClusterNetId \<Rightarrow> nat \<Rightarrow> fp"
  proposed_connection_timing_cost :: "ClusterNetId \<Rightarrow> nat \<Rightarrow> fp"
  net_timing_cost :: "ClusterNetId \<Rightarrow> fp"
  bb_coords :: "ClusterNetId \<Rightarrow> t_bb"
  bb_num_on_edges :: "ClusterNetId \<Rightarrow> t_bb"
  ts_bb_coord_new :: "ClusterNetId \<Rightarrow> t_bb"
  ts_bb_edge_new :: "ClusterNetId \<Rightarrow> t_bb"
  ts_nets_to_update :: "nat \<Rightarrow> ClusterNetId"
  costs :: t_placer_costs
  blocks_affected :: t_pl_blocks_to_be_moved
  invalidated_pins :: "ClusterPinId list"

text \<open>
  The external random number generator \<^verbatim>\<open>vtr::frand\<close> and the move generator, acting
  on their own state of type \<open>'e\<close>.
\<close>

datatype range_limit = Rlim fp | Rlim_infinity

record 'e move_env =
  frand :: "'e \<Rightarrow> fp \<times> 'e"
  propose_move :: "'e \<Rightarrow> (ClusterBlockId \<Rightarrow> t_pl_loc) \<Rightarrow> range_limit
                      \<Rightarrow> (e_create_move \<times> t_pl_moved_block list) \<times> 'e"
  process_outcome :: "e_move_result \<Rightarrow> 'e \<Rightarrow> 'e"

section \<open>Annealing helpers\<close>

record t_placer_statistics =
  av_cost :: fp
  av_bb_cost :: fp
  av_timing_cost :: fp
  sum_of_squares :: fp
  success_sum :: int

definition get_std_dev :: "int \<Rightarrow> fp \<Rightarrow> fp \<Rightarrow> fp" where
  "get_std_dev n sum_x_squared av_x =
     (let std_dev = (if n \<le> 1 then Fin 0
                     else (sum_x_squared - Fin (of_int n) * av_x * av_x) / Fin (of_int (n - 1)))
      in if Fin 0 < std_dev then fp_sqrt std_dev else Fin 0)"

definition update_rlim :: "fp \<Rightarrow> fp \<Rightarrow> DeviceGrid \<Rightarrow> fp" where
  "update_rlim rlim success_rat g =
     (let rlim1 = rlim * (Fin 1 - Fin 0.44 + success_rat);
          upper_lim = Fin (real (unat (max (width g - 1) (height g - 1))));
          rlim2 = std_min rlim1 upper_lim
      in std_max rlim2 (Fin 1))"

text \<open>Returns the updated statistics, \<^verbatim>\<open>success_rat\<close> and \<^verbatim>\<open>std_dev\<close>.\<close>

definition calc_placer_stats ::
  "t_placer_statistics \<Rightarrow> t_placer_costs \<Rightarrow> int \<Rightarrow> t_placer_statistics \<times> fp \<times> fp" where
  "calc_placer_stats stats cs move_lim =
     (let success_rat = Fin (of_int (success_sum stats)) / Fin (of_int move_lim);
          stats1 = (if success_sum stats = 0
                    then stats\<lparr>av_cost := cost cs, av_bb_cost := bb_cost cs,
                               av_timing_cost := timing_cost cs\<rparr>
                    else stats\<lparr>av_cost := av_cost stats / Fin (of_int (success_sum stats)),
                               av_bb_cost := av_bb_cost stats / Fin (of_int (success_sum stats)),
                               av_timing_cost :=
                                 av_timing_cost stats / Fin (of_int (success_sum stats))\<rparr>);
          std_dev = get_std_dev (success_sum stats1) (sum_of_squares stats1) (av_cost stats1)
      in (stats1, success_rat, std_dev))"

text \<open>The range-limit update as the specification words it.\<close>

definition spec_update_rlim :: "real \<Rightarrow> real \<Rightarrow> nat \<Rightarrow> nat \<Rightarrow> real" where
  "spec_update_rlim rlim success_rat grid_width grid_height =
     max 1 (min (rlim * (1.56 - success_rat)) (real (max grid_width grid_height - 1)))"

section \<open>The Metropolis criterion\<close>

definition assess_swap :: "'e move_env \<Rightarrow> fp \<Rightarrow> fp \<Rightarrow> 'e \<Rightarrow> e_move_result \<times> 'e" where
  "assess_swap env delta_c t e =
     (if delta_c \<le> Fin 0 then (ACCEPTED, e)
      else if t = Fin 0 then (REJECTED, e)
      else (let (fnum, e') = frand env e;
                prob_fac = fp_exp (- delta_c / t)
            in if fnum < prob_fac then (ACCEPTED, e') else (REJECTED, e')))"

section \<open>Bounding-box cost of a net\<close>

definition cross_count :: "real list" where
  "cross_count =
     [1.0, 1.0, 1.0, 1.0828, 1.1536, 1.2206, 1.2823, 1.3385, 1.3991, 1.4493, 1.4974,
      1.5455, 1.5937, 1.6418, 1.6899, 1.7304, 1.7709, 1.8114, 1.8519, 1.8924,
      1.9288, 1.9652, 2.0015, 2.0379, 2.0743, 2.1061, 2.1379, 2.1698, 2.2016,
      2.2334, 2.2646, 2.2958, 2.3271, 2.3583, 2.3895, 2.4187, 2.4479, 2.4772,
      2.5064, 2.5356, 2.5610, 2.5864, 2.6117, 2.6371, 2.6625, 2.6887, 2.7148,
      2.7410, 2.7671, 2.7933]"

text \<open>
  The argument is a \<^verbatim>\<open>size_t\<close>; the callers pass the number of pins of a net, which is
  at least one (the driver), so the index \<open>fanout - 1\<close> does not wrap.
\<close>

definition wirelength_crossing_count :: "nat \<Rightarrow> fp" where
  "wirelength_crossing_count fanout =
     (if fanout > 50 then Fin (2.7933 + 0.02616 * real (fanout - 50))
      else Fin (cross_count ! (fanout - 1)))"

definition get_net_cost :: "placer_ctx \<Rightarrow> ClusterNetId \<Rightarrow> t_bb \<Rightarrow> fp" where
  "get_net_cost ctx net_id bb =
     (let crossing = wirelength_crossing_count (length (net_pins (clb_nlist ctx) net_id));
          ncost = Fin (of_int (xmax bb - xmin bb + 1)) * crossing
                    * chanx_place_cost_fac ctx (ymax bb) (ymin bb - 1);
          ncost = ncost + Fin (of_int (ymax bb - ymin bb + 1)) * crossing
                    * chany_place_cost_fac ctx (xmax bb) (xmin bb - 1)
      in ncost)"

definition recompute_bb_cost :: "placer_ctx \<Rightarrow> placer_state \<Rightarrow> fp" where
  "recompute_bb_cost ctx s =
     fold (\<lambda>net_id c. if \<not> net_is_ignored (clb_nlist ctx) net_id then c + net_cost s net_id else c)
          (nets (clb_nlist ctx)) (Fin 0)"

section \<open>Bounding boxes\<close>

text \<open>
  \<^verbatim>\<open>min<int>(x, grid.width() - 2)\<close> converts the \<^verbatim>\<open>size_t\<close> difference to \<^verbatim>\<open>int\<close>.
\<close>

definition size_t_to_int :: "64 word \<Rightarrow> int" where
  "size_t_to_int w = sint (ucast w :: 32 word)"

definition clip_x :: "placer_ctx \<Rightarrow> int \<Rightarrow> int" where
  "clip_x ctx v = max (min v (size_t_to_int (width (grid ctx) - 2))) 1"

definition clip_y :: "placer_ctx \<Rightarrow> int \<Rightarrow> int" where
  "clip_y ctx v = max (min v (size_t_to_int (height (grid ctx) - 2))) 1"

text \<open>
  Modelled from the spec: the tile pin index of a netlist pin and the pin offsets of the
  physical tile type (\<^verbatim>\<open>tile_pin_index\<close>, \<^verbatim>\<open>net_pin_to_tile_pin_index\<close>,
  \<^verbatim>\<open>physical_tile_type\<close>, declared outside place.cpp) are the per-pin offsets
  \<open>pin_width_offset\<close> and \<open>pin_height_offset\<close> of the context: a pin sits at its
  block's location plus its offset.
\<close>

definition pin_x :: "placer_ctx \<Rightarrow> (ClusterBlockId \<Rightarrow> t_pl_loc) \<Rightarrow> ClusterPinId \<Rightarrow> int" where
  "pin_x ctx locs pin = loc_x (locs (pin_block (clb_nlist ctx) pin)) + pin_width_offset ctx pin"

definition pin_y :: "placer_ctx \<Rightarrow> (ClusterBlockId \<Rightarrow> t_pl_loc) \<Rightarrow> ClusterPinId \<Rightarrow> int" where
  "pin_y ctx locs pin = loc_y (locs (pin_block (clb_nlist ctx) pin)) + pin_height_offset ctx pin"

text \<open>
  One iteration of the loop over the sinks in \<^verbatim>\<open>get_bb_from_scratch\<close>, on the clipped
  position \<open>(px, py)\<close> of the sink; the loop state is the pair of the coordinates and
  the numbers of pins on the edges.
\<close>

definition bb_scan_x :: "int \<Rightarrow> t_bb \<times> t_bb \<Rightarrow> t_bb \<times> t_bb" where
  "bb_scan_x px = (\<lambda>(c, e).
     let e = (if px = xmin c then e\<lparr>xmin := xmin e + 1\<rparr> else e)
     in if px = xmax c then (c, e\<lparr>xmax := xmax e + 1\<rparr>)
        else if px < xmin c then (c\<lparr>xmin := px\<rparr>, e\<lparr>xmin := 1\<rparr>)
        else if px > xmax c then (c\<lparr>xmax := px\<rparr>, e\<lparr>xmax := 1\<rparr>)
        else (c, e))"

definition bb_scan_y :: "int \<Rightarrow> t_bb \<times> t_bb \<Rightarrow> t_bb \<times> t_bb" where
  "bb_scan_y py = (\<lambda>(c, e).
     let e = (if py = ymin c then e\<lparr>ymin := ymin e + 1\<rparr> else e)
     in if py = ymax c then (c, e\<lparr>ymax := ymax e + 1\<rparr>)
        else if py < ymin c then (c\<lparr>ymin := py\<rparr>, e\<lparr>ymin := 1\<rparr>)
        else if py > ymax c then (c\<lparr>ymax := py\<rparr>, e\<lparr>ymax := 1\<rparr>)
        else (c, e))"

definition bb_scan_pin ::
  "placer_ctx \<Rightarrow> (ClusterBlockId \<Rightarrow> t_pl_loc) \<Rightarrow> ClusterPinId \<Rightarrow> t_bb \<times> t_bb \<Rightarrow> t_bb \<times> t_bb" where
  "bb_scan_pin ctx locs pin_id ce =
     (let px = clip_x ctx (pin_x ctx locs pin_id);
          py = clip_y ctx (pin_y ctx locs pin_id)
      in bb_scan_y py (bb_scan_x px ce))"

text \<open>Returns the coordinates and the numbers of pins on the edges.\<close>

definition get_bb_from_scratch ::
  "placer_ctx \<Rightarrow> (ClusterBlockId \<Rightarrow> t_pl_loc) \<Rightarrow> ClusterNetId \<Rightarrow> t_bb \<times> t_bb" where
  "get_bb_from_scratch ctx locs net_id =
     (let px = clip_x ctx (pin_x ctx locs (net_driver (clb_nlist ctx) net_id));
          py = clip_y ctx (pin_y ctx locs (net_driver (clb_nlist ctx) net_id))
      in fold (bb_scan_pin ctx locs) (net_sinks (clb_nlist ctx) net_id)
           (\<lparr>xmin = px, xmax = px, ymin = py, ymax = py\<rparr>,
            \<lparr>xmin = 1, xmax = 1, ymin = 1, ymax = 1\<rparr>))"

definition nu_scan_pin ::
  "placer_ctx \<Rightarrow> (ClusterBlockId \<Rightarrow> t_pl_loc) \<Rightarrow> ClusterPinId \<Rightarrow> t_bb \<Rightarrow> t_bb" where
  "nu_scan_pin ctx locs pin_id c =
     (let px = pin_x ctx locs pin_id;
          py = pin_y ctx locs pin_id;
          c = (if px < xmin c then c\<lparr>xmin := px\<rparr>
               else if px > xmax c then c\<lparr>xmax := px\<rparr> else c)
      in if py < ymin c then c\<lparr>ymin := py\<rparr>
         else if py > ymax c then c\<lparr>ymax := py\<rparr> else c)"

definition get_non_updateable_bb ::
  "placer_ctx \<Rightarrow> (ClusterBlockId \<Rightarrow> t_pl_loc) \<Rightarrow> ClusterNetId \<Rightarrow> t_bb" where
  "get_non_updateable_bb ctx locs net_id =
     (let px = pin_x ctx locs (net_driver (clb_nlist ctx) net_id);
          py = pin_y ctx locs (net_driver (clb_nlist ctx) net_id);
          c = fold (nu_scan_pin ctx locs) (net_sinks (clb_nlist ctx) net_id)
                \<lparr>xmin = px, xmax = px, ymin = py, ymax = py\<rparr>
      in \<lparr>xmin = clip_x ctx (xmin c), xmax = clip_x ctx (xmax c),
          ymin = clip_y ctx (ymin c), ymax = clip_y ctx (ymax c)\<rparr>)"

subsection \<open>The incremental update\<close>

text \<open>
  \<^verbatim>\<open>update_bb\<close> is called from one place, with \<^verbatim>\<open>bb_coord_new\<close> and \<^verbatim>\<open>bb_edge_new\<close>
  pointing to \<^verbatim>\<open>ts_bb_coord_new[net]\<close> and \<^verbatim>\<open>ts_bb_edge_new[net]\<close>. The pointers
  \<^verbatim>\<open>curr_bb_coord\<close> and \<^verbatim>\<open>curr_bb_edge\<close> point either to the committed entries or to
  these same proposed entries; every read through them is a read of the state at that
  moment, so that the aliasing of the source is kept.
\<close>

datatype bb_src = CURR_COMMITTED | CURR_PROPOSED

definition curr_bb_coord :: "bb_src \<Rightarrow> ClusterNetId \<Rightarrow> placer_state \<Rightarrow> t_bb" where
  "curr_bb_coord src net_id s =
     (case src of CURR_COMMITTED \<Rightarrow> bb_coords s net_id | CURR_PROPOSED \<Rightarrow> ts_bb_coord_new s net_id)"

definition curr_bb_edge :: "bb_src \<Rightarrow> ClusterNetId \<Rightarrow> placer_state \<Rightarrow> t_bb" where
  "curr_bb_edge src net_id s =
     (case src of CURR_COMMITTED \<Rightarrow> bb_num_on_edges s net_id
                | CURR_PROPOSED \<Rightarrow> ts_bb_edge_new s net_id)"

definition set_coord_new :: "ClusterNetId \<Rightarrow> (t_bb \<Rightarrow> t_bb) \<Rightarrow> placer_state \<Rightarrow> placer_state" where
  "set_coord_new net_id f s =
     s\<lparr>ts_bb_coord_new := (ts_bb_coord_new s)(net_id := f (ts_bb_coord_new s net_id))\<rparr>"

definition set_edge_new :: "ClusterNetId \<Rightarrow> (t_bb \<Rightarrow> t_bb) \<Rightarrow> placer_state \<Rightarrow> placer_state" where
  "set_edge_new net_id f s =
     s\<lparr>ts_bb_edge_new := (ts_bb_edge_new s)(net_id := f (ts_bb_edge_new s net_id))\<rparr>"

text \<open>
  \<^verbatim>\<open>get_bb_from_scratch(net_id, bb_coord_new, bb_edge_new);
  bb_updated_before[net_id] = GOT_FROM_SCRATCH;\<close>
\<close>

definition bb_from_scratch_into_new :: "placer_ctx \<Rightarrow> ClusterNetId \<Rightarrow> placer_state \<Rightarrow> placer_state" where
  "bb_from_scratch_into_new ctx net_id s =
     (let (c, e) = get_bb_from_scratch ctx (block_locs s) net_id
      in s\<lparr>ts_bb_coord_new := (ts_bb_coord_new s)(net_id := c),
           ts_bb_edge_new := (ts_bb_edge_new s)(net_id := e),
           bb_updated_before := (bb_updated_before s)(net_id := GOT_FROM_SCRATCH)\<rparr>)"

text \<open>
  The x part and the y part of \<^verbatim>\<open>update_bb\<close>. \<open>Inl\<close> is the early return after the
  bounding box was got from scratch, \<open>Inr\<close> the state with which the function goes on.
\<close>

definition update_bb_x ::
  "placer_ctx \<Rightarrow> bb_src \<Rightarrow> ClusterNetId \<Rightarrow> int \<Rightarrow> int \<Rightarrow> placer_state \<Rightarrow> placer_state + placer_state" where
  "update_bb_x ctx src net_id xold xnew s =
     (if xnew < xold then
        (if xold = xmax (curr_bb_coord src net_id s) \<and> xmax (curr_bb_edge src net_id s) = 1
         then Inl (bb_from_scratch_into_new ctx net_id s)
         else
           (let s = (if xold = xmax (curr_bb_coord src net_id s)
                     then (let s = set_edge_new net_id (\<lambda>b. b\<lparr>xmax := xmax (curr_bb_edge src net_id s) - 1\<rparr>) s
                           in set_coord_new net_id (\<lambda>b. b\<lparr>xmax := xmax (curr_bb_coord src net_id s)\<rparr>) s)
                     else (let s = set_coord_new net_id (\<lambda>b. b\<lparr>xmax := xmax (curr_bb_coord src net_id s)\<rparr>) s
                           in set_edge_new net_id (\<lambda>b. b\<lparr>xmax := xmax (curr_bb_edge src net_id s)\<rparr>) s))
            in if xnew < xmin (curr_bb_coord src net_id s) then
                 Inr (set_edge_new net_id (\<lambda>b. b\<lparr>xmin := 1\<rparr>)
                        (set_coord_new net_id (\<lambda>b. b\<lparr>xmin := xnew\<rparr>) s))
               else if xnew = xmin (curr_bb_coord src net_id s) then
                 (let s = set_coord_new net_id (\<lambda>b. b\<lparr>xmin := xnew\<rparr>) s
                  in Inr (set_edge_new net_id (\<lambda>b. b\<lparr>xmin := xmin (curr_bb_edge src net_id s) + 1\<rparr>) s))
               else
                 (let s = set_coord_new net_id (\<lambda>b. b\<lparr>xmin := xmin (curr_bb_coord src net_id s)\<rparr>) s
                  in Inr (set_edge_new net_id (\<lambda>b. b\<lparr>xmin := xmin (curr_bb_edge src net_id s)\<rparr>) s))))
      else if xnew > xold then
        (if xold = xmin (curr_bb_coord src net_id s) \<and> xmin (curr_bb_edge src net_id s) = 1
         then Inl (bb_from_scratch_into_new ctx net_id s)
         else
           (let s = (if xold = xmin (curr_bb_coord src net_id s)
                     then (let s = set_edge_new net_id (\<lambda>b. b\<lparr>xmin := xmin (curr_bb_edge src net_id s) - 1\<rparr>) s
                           in set_coord_new net_id (\<lambda>b. b\<lparr>xmin := xmin (curr_bb_coord src net_id s)\<rparr>) s)
                     else (let s = set_coord_new net_id (\<lambda>b. b\<lparr>xmin := xmin (curr_bb_coord src net_id s)\<rparr>) s
                           in set_edge_new net_id (\<lambda>b. b\<lparr>xmin := xmin (curr_bb_edge src net_id s)\<rparr>) s))
            in if xnew > xmax (curr_bb_coord src net_id s) then
                 Inr (set_edge_new net_id (\<lambda>b. b\<lparr>xmax := 1\<rparr>)
                        (set_coord_new net_id (\<lambda>b. b\<lparr>xmax := xnew\<rparr>) s))
               else if xnew = xmax (curr_bb_coord src net_id s) then
                 (let s = set_coord_new net_id (\<lambda>b. b\<lparr>xmax := xnew\<rparr>) s
                  in Inr (set_edge_new net_id (\<lambda>b. b\<lparr>xmax := xmax (curr_bb_edge src net_id s) + 1\<rparr>) s))
               else
                 (let s = set_coord_new net_id (\<lambda>b. b\<lparr>xmax := xmax (curr_bb_coord src net_id s)\<rparr>) s
                  in Inr (set_edge_new net_id (\<lambda>b. b\<lparr>xmax := xmax (curr_bb_edge src net_id s)\<rparr>) s))))
      else
        (let s = set_coord_new net_id (\<lambda>b. b\<lparr>xmin := xmin (curr_bb_coord src net_id s)\<rparr>) s;
             s = set_coord_new net_id (\<lambda>b. b\<lparr>xmax := xmax (curr_bb_coord src net_id s)\<rparr>) s;
             s = set_edge_new net_id (\<lambda>b. b\<lparr>xmin := xmin (curr_bb_edge src net_id s)\<rparr>) s
         in Inr (set_edge_new net_id (\<lambda>b. b\<lparr>xmax := xmax (curr_bb_edge src net_id s)\<rparr>) s)))"

definition update_bb_y ::
  "placer_ctx \<Rightarrow> bb_src \<Rightarrow> ClusterNetId \<Rightarrow> int \<Rightarrow> int \<Rightarrow> placer_state \<Rightarrow> placer_state + placer_state" where
  "update_bb_y ctx src net_id yold ynew s =
     (if ynew < yold then
        (if yold = ymax (curr_bb_coord src net_id s) \<and> ymax (curr_bb_edge src net_id s) = 1
         then Inl (bb_from_scratch_into_new ctx net_id s)
         else
           (let s = (if yold = ymax (curr_bb_coord src net_id s)
                     then (let s = set_edge_new net_id (\<lambda>b. b\<lparr>ymax := ymax (curr_bb_edge src net_id s) - 1\<rparr>) s
                           in set_coord_new net_id (\<lambda>b. b\<lparr>ymax := ymax (curr_bb_coord src net_id s)\<rparr>) s)
                     else (let s = set_coord_new net_id (\<lambda>b. b\<lparr>ymax := ymax (curr_bb_coord src net_id s)\<rparr>) s
                           in set_edge_new net_id (\<lambda>b. b\<lparr>ymax := ymax (curr_bb_edge src net_id s)\<rparr>) s))
            in if ynew < ymin (curr_bb_coord src net_id s) then
                 Inr (set_edge_new net_id (\<lambda>b. b\<lparr>ymin := 1\<rparr>)
                        (set_coord_new net_id (\<lambda>b. b\<lparr>ymin := ynew\<rparr>) s))
               else if ynew = ymin (curr_bb_coord src net_id s) then
                 (let s = set_coord_new net_id (\<lambda>b. b\<lparr>ymin := ynew\<rparr>) s
                  in Inr (set_edge_new net_id (\<lambda>b. b\<lparr>ymin := ymin (curr_bb_edge src net_id s) + 1\<rparr>) s))
               else
                 (let s = set_coord_new net_id (\<lambda>b. b\<lparr>ymin := ymin (curr_bb_coord src net_id s)\<rparr>) s
                  in Inr (set_edge_new net_id (\<lambda>b. b\<lparr>ymin := ymin (curr_bb_edge src net_id s)\<rparr>) s))))
      else if ynew > yold then
        (if yold = ymin (curr_bb_coord src net_id s) \<and> ymin (curr_bb_edge src net_id s) = 1
         then Inl (bb_from_scratch_into_new ctx net_id s)
         else
           (let s = (if yold = ymin (curr_bb_coord src net_id s)
                     then (let s = set_edge_new net_id (\<lambda>b. b\<lparr>ymin := ymin (curr_bb_edge src net_id s) - 1\<rparr>) s
                           in set_coord_new net_id (\<lambda>b. b\<lparr>ymin := ymin (curr_bb_coord src net_id s)\<rparr>) s)
                     else (let s = set_coord_new net_id (\<lambda>b. b\<lparr>ymin := ymin (curr_bb_coord src net_id s)\<rparr>) s
                           in set_edge_new net_id (\<lambda>b. b\<lparr>ymin := ymin (curr_bb_edge src net_id s)\<rparr>) s))
            in if ynew > ymax (curr_bb_coord src net_id s) then
                 Inr (set_edge_new net_id (\<lambda>b. b\<lparr>ymax := 1\<rparr>)
                        (set_coord_new net_id (\<lambda>b. b\<lparr>ymax := ynew\<rparr>) s))
               else if ynew = ymax (curr_bb_coord src net_id s) then
                 (let s = set_coord_new net_id (\<lambda>b. b\<lparr>ymax := ynew\<rparr>) s
                  in Inr (set_edge_new net_id (\<lambda>b. b\<lparr>ymax := ymax (curr_bb_edge src net_id s) + 1\<rparr>) s))
               else
                 (let s = set_coord_new net_id (\<lambda>b. b\<lparr>ymax := ymax (curr_bb_coord src net_id s)\<rparr>) s
                  in Inr (set_edge_new net_id (\<lambda>b. b\<lparr>ymax := ymax (curr_bb_edge src net_id s)\<rparr>) s))))
      else
        (let s = set_coord_new net_id (\<lambda>b. b\<lparr>ymin := ymin (curr_bb_coord src net_id s)\<rparr>) s;
             s = set_coord_new net_id (\<lambda>b. b\<lparr>ymax := ymax (curr_bb_coord src net_id s)\<rparr>) s;
             s = set_edge_new net_id (\<lambda>b. b\<lparr>ymin := ymin (curr_bb_edge src net_id s)\<rparr>) s
         in Inr (set_edge_new net_id (\<lambda>b. b\<lparr>ymax := ymax (curr_bb_edge src net_id s)\<rparr>) s)))"

definition update_bb ::
  "placer_ctx \<Rightarrow> ClusterNetId \<Rightarrow> int \<Rightarrow> int \<Rightarrow> int \<Rightarrow> int \<Rightarrow> placer_state \<Rightarrow> placer_state" where
  "update_bb ctx net_id xold yold xnew ynew s =
     (let xnew = clip_x ctx xnew;
          ynew = clip_y ctx ynew;
          xold = clip_x ctx xold;
          yold = clip_y ctx yold
      in if bb_updated_before s net_id = GOT_FROM_SCRATCH then s
         else
           (let (src, s) =
                  (if bb_updated_before s net_id = NOT_UPDATED_YET
                   then (CURR_COMMITTED,
                         s\<lparr>bb_updated_before := (bb_updated_before s)(net_id := UPDATED_ONCE)\<rparr>)
                   else (CURR_PROPOSED, s))
            in case update_bb_x ctx src net_id xold xnew s of
                 Inl s \<Rightarrow> s
               | Inr s \<Rightarrow>
                   (case update_bb_y ctx src net_id yold ynew s of
                      Inl s \<Rightarrow> s
                    | Inr s \<Rightarrow>
                        if bb_updated_before s net_id = NOT_UPDATED_YET
                        then s\<lparr>bb_updated_before := (bb_updated_before s)(net_id := UPDATED_ONCE)\<rparr>
                        else s)))"

subsection \<open>Bounding boxes in one dimension\<close>

text \<open>
  What a bounding box records of the pins of a net in one dimension: for the list \<open>zs\<close>
  of the pins' clipped coordinates, the least and the greatest of them and how many pins
  sit on each.
\<close>

definition is_extent :: "int list \<Rightarrow> int \<times> int \<times> int \<times> int \<Rightarrow> bool" where
  "is_extent zs = (\<lambda>(lo, hi, nlo, nhi).
     lo \<in> set zs \<and> hi \<in> set zs \<and> (\<forall>z\<in>set zs. lo \<le> z \<and> z \<le> hi)
     \<and> nlo = int (count_list zs lo) \<and> nhi = int (count_list zs hi))"

text \<open>
  The loop body of \<^verbatim>\<open>get_bb_from_scratch\<close> in one dimension: one more pin at \<open>z\<close>.
\<close>

definition scan1 :: "int \<Rightarrow> int \<times> int \<times> int \<times> int \<Rightarrow> int \<times> int \<times> int \<times> int" where
  "scan1 z = (\<lambda>(lo, hi, nlo, nhi).
     let nlo = (if z = lo then nlo + 1 else nlo)
     in if z = hi then (lo, hi, nlo, nhi + 1)
        else if z < lo then (z, hi, 1, nhi)
        else if z > hi then (lo, z, nlo, 1)
        else (lo, hi, nlo, nhi))"

text \<open>
  The body of \<^verbatim>\<open>update_bb\<close> in one dimension: a pin goes from \<open>old\<close> to \<open>new\<close>;
  \<open>None\<close> is the branch that gives up and recomputes the box from scratch.
\<close>

definition upd1 :: "int \<Rightarrow> int \<Rightarrow> int \<times> int \<times> int \<times> int \<Rightarrow> (int \<times> int \<times> int \<times> int) option" where
  "upd1 old new = (\<lambda>(lo, hi, nlo, nhi).
     if new < old then
       (if old = hi \<and> nhi = 1 then None
        else (let nhi' = (if old = hi then nhi - 1 else nhi)
              in if new < lo then Some (new, hi, 1, nhi')
                 else if new = lo then Some (lo, hi, nlo + 1, nhi')
                 else Some (lo, hi, nlo, nhi')))
     else if new > old then
       (if old = lo \<and> nlo = 1 then None
        else (let nlo' = (if old = lo then nlo - 1 else nlo)
              in if new > hi then Some (lo, new, nlo', 1)
                 else if new = hi then Some (lo, hi, nlo', nhi + 1)
                 else Some (lo, hi, nlo', nhi)))
     else Some (lo, hi, nlo, nhi))"

text \<open>The horizontal and the vertical half of a bounding box and its edge counts.\<close>

definition xpart :: "t_bb \<times> t_bb \<Rightarrow> int \<times> int \<times> int \<times> int" where
  "xpart = (\<lambda>(c, e). (xmin c, xmax c, xmin e, xmax e))"

definition ypart :: "t_bb \<times> t_bb \<Rightarrow> int \<times> int \<times> int \<times> int" where
  "ypart = (\<lambda>(c, e). (ymin c, ymax c, ymin e, ymax e))"

text \<open>The proposed bounding box of a net and its edge counts.\<close>

definition ts_bb :: "placer_state \<Rightarrow> ClusterNetId \<Rightarrow> t_bb \<times> t_bb" where
  "ts_bb s net = (ts_bb_coord_new s net, ts_bb_edge_new s net)"

text \<open>
  The box that \<^verbatim>\<open>update_bb\<close> reads for a net: the committed one on the first update
  of a trial, the proposed one afterwards.
\<close>

definition curr_bb :: "placer_state \<Rightarrow> ClusterNetId \<Rightarrow> t_bb \<times> t_bb" where
  "curr_bb s net =
     (if bb_updated_before s net = NOT_UPDATED_YET then (bb_coords s net, bb_num_on_edges s net)
      else (ts_bb_coord_new s net, ts_bb_edge_new s net))"

section \<open>The move trial\<close>

record t_placer_opts =
  place_algorithm :: e_place_algorithm
  timing_tradeoff :: fp
  rlim_escape_fraction :: fp
  td_place_exp_first :: fp
  td_place_exp_last :: fp

text \<open>A loop whose body may raise: the first error ends it.\<close>

fun foldM_err :: "('a \<Rightarrow> 's \<Rightarrow> vpr_error + 's) \<Rightarrow> 'a list \<Rightarrow> 's \<Rightarrow> vpr_error + 's" where
  "foldM_err f [] s = Inr s"
| "foldM_err f (a # as) s = (case f a s of Inl err \<Rightarrow> Inl err | Inr s' \<Rightarrow> foldM_err f as s')"

subsection \<open>The move transaction\<close>

text \<open>
  Modelled from the spec: \<^verbatim>\<open>apply_move_blocks\<close>, \<^verbatim>\<open>revert_move_blocks\<close> and
  \<^verbatim>\<open>clear_move_blocks\<close> are defined in move_transactions.cpp, which is not part of the
  sources at hand. Applying a move puts every moved block at its new location, reverting
  puts it back at its old location, and clearing empties the transaction.
  \<^verbatim>\<open>commit_move_blocks\<close> only updates the inverse map from grid locations to blocks,
  which no modelled function reads; it has no counterpart here.
\<close>

definition apply_move_blocks :: "placer_state \<Rightarrow> placer_state" where
  "apply_move_blocks s =
     s\<lparr>block_locs := fold (\<lambda>mb locs. locs(block_num mb := new_loc mb))
                         (moved_blocks (blocks_affected s)) (block_locs s)\<rparr>"

definition revert_move_blocks :: "placer_state \<Rightarrow> placer_state" where
  "revert_move_blocks s =
     s\<lparr>block_locs := fold (\<lambda>mb locs. locs(block_num mb := old_loc mb))
                         (moved_blocks (blocks_affected s)) (block_locs s)\<rparr>"

definition clear_move_blocks :: "placer_state \<Rightarrow> placer_state" where
  "clear_move_blocks s = s\<lparr>blocks_affected := \<lparr>moved_blocks = [], affected_pins = []\<rparr>\<rparr>"

subsection \<open>Affected nets and their bounding boxes\<close>

definition record_affected_net :: "ClusterNetId \<Rightarrow> placer_state \<times> nat \<Rightarrow> placer_state \<times> nat" where
  "record_affected_net net = (\<lambda>(s, num_affected_nets).
     if proposed_net_cost s net < Fin 0
     then (s\<lparr>ts_nets_to_update := (ts_nets_to_update s)(num_affected_nets := net),
             proposed_net_cost := (proposed_net_cost s)(net := Fin 1)\<rparr>,
           num_affected_nets + 1)
     else (s, num_affected_nets))"

definition update_net_bb ::
  "placer_ctx \<Rightarrow> ClusterNetId \<Rightarrow> t_pl_moved_block \<Rightarrow> ClusterPinId \<Rightarrow> placer_state \<Rightarrow> placer_state" where
  "update_net_bb ctx net mb blk_pin s =
     (if length (net_sinks (clb_nlist ctx) net) < SMALL_NET then
        (if bb_updated_before s net = NOT_UPDATED_YET
         then s\<lparr>ts_bb_coord_new :=
                  (ts_bb_coord_new s)(net := get_non_updateable_bb ctx (block_locs s) net)\<rparr>
         else s)
      else
        update_bb ctx net
          (loc_x (old_loc mb) + pin_width_offset ctx blk_pin)
          (loc_y (old_loc mb) + pin_height_offset ctx blk_pin)
          (loc_x (new_loc mb) + pin_width_offset ctx blk_pin)
          (loc_y (new_loc mb) + pin_height_offset ctx blk_pin) s)"

subsection \<open>Timing costs of the connections\<close>

definition comp_td_connection_delay ::
  "placer_ctx \<Rightarrow> (ClusterBlockId \<Rightarrow> t_pl_loc) \<Rightarrow> ClusterNetId \<Rightarrow> nat \<Rightarrow> vpr_error + fp" where
  "comp_td_connection_delay ctx locs net_id ipin =
     (let nl = clb_nlist ctx in
      if \<not> net_is_ignored nl net_id then
        (let source_pin = net_driver nl net_id;
             sink_pin = net_pin nl net_id ipin;
             source_block = pin_block nl source_pin;
             sink_block = pin_block nl sink_pin;
             delay_source_to_sink =
               delay_model ctx (loc_x (locs source_block)) (loc_y (locs source_block))
                 (pin_logical_index nl source_pin)
                 (loc_x (locs sink_block)) (loc_y (locs sink_block))
                 (pin_logical_index nl sink_pin)
         in if delay_source_to_sink < Fin 0 then Inl VPR_ERROR_PLACE
            else Inr delay_source_to_sink)
      else Inr (Fin 0))"

fun driven_by_moved_block_loop :: "ClusterBlockId \<Rightarrow> t_pl_moved_block list \<Rightarrow> bool" where
  "driven_by_moved_block_loop net_driver_blk [] = False"
| "driven_by_moved_block_loop net_driver_blk (mb # mbs) =
     (if net_driver_blk = block_num mb then True
      else driven_by_moved_block_loop net_driver_blk mbs)"

definition driven_by_moved_block ::
  "placer_ctx \<Rightarrow> ClusterNetId \<Rightarrow> t_pl_blocks_to_be_moved \<Rightarrow> bool" where
  "driven_by_moved_block ctx net ba =
     driven_by_moved_block_loop (net_driver_block (clb_nlist ctx) net) (moved_blocks ba)"

text \<open>
  The statements that \<^verbatim>\<open>update_td_delta_costs\<close> executes for the connection \<open>ipin\<close> of
  \<open>net\<close>, with \<open>listed_pin\<close> the pin it appends to \<^verbatim>\<open>affected_pins\<close>.
\<close>

definition update_td_delta_connection ::
  "placer_ctx \<Rightarrow> ClusterNetId \<Rightarrow> nat \<Rightarrow> ClusterPinId \<Rightarrow> placer_state \<times> fp
     \<Rightarrow> vpr_error + placer_state \<times> fp" where
  "update_td_delta_connection ctx net ipin listed_pin = (\<lambda>(s, delta_timing_cost).
     case comp_td_connection_delay ctx (block_locs s) net ipin of
       Inl err \<Rightarrow> Inl err
     | Inr temp_delay \<Rightarrow>
         (let s = s\<lparr>proposed_connection_delay :=
                      (proposed_connection_delay s)
                        (net := (proposed_connection_delay s net)(ipin := temp_delay))\<rparr>;
              s = s\<lparr>proposed_connection_timing_cost :=
                      (proposed_connection_timing_cost s)
                        (net := (proposed_connection_timing_cost s net)
                                  (ipin := criticality ctx net ipin * temp_delay))\<rparr>;
              delta_timing_cost =
                delta_timing_cost
                  + (proposed_connection_timing_cost s net ipin - connection_timing_cost s net ipin);
              s = s\<lparr>blocks_affected :=
                      (blocks_affected s)
                        \<lparr>affected_pins := affected_pins (blocks_affected s) @ [listed_pin]\<rparr>\<rparr>
          in Inr (s, delta_timing_cost)))"

definition update_td_delta_costs ::
  "placer_ctx \<Rightarrow> ClusterNetId \<Rightarrow> ClusterPinId \<Rightarrow> placer_state \<times> fp
     \<Rightarrow> vpr_error + placer_state \<times> fp" where
  "update_td_delta_costs ctx net pin = (\<lambda>(s, delta_timing_cost).
     let nl = clb_nlist ctx in
     if pin_type nl pin = DRIVER then
       foldM_err (\<lambda>ipin. update_td_delta_connection ctx net ipin (net_pin nl net ipin))
         [1..<length (net_pins nl net)] (s, delta_timing_cost)
     else if \<not> driven_by_moved_block ctx net (blocks_affected s) then
       update_td_delta_connection ctx net (pin_net_index nl pin) pin (s, delta_timing_cost)
     else Inr (s, delta_timing_cost))"

text \<open>
  The body of the loop over the pins of a moved block in
  \<^verbatim>\<open>find_affected_nets_and_update_costs\<close>; the loop state is the placer state, the
  number of affected nets and the timing delta.
\<close>

definition find_affected_pin_step ::
  "placer_ctx \<Rightarrow> e_place_algorithm \<Rightarrow> t_pl_moved_block \<Rightarrow> ClusterPinId
     \<Rightarrow> placer_state \<times> nat \<times> fp \<Rightarrow> vpr_error + placer_state \<times> nat \<times> fp" where
  "find_affected_pin_step ctx alg mb blk_pin = (\<lambda>(s, num_affected_nets, timing_delta_c).
     let net_id = pin_net (clb_nlist ctx) blk_pin in
     if net_is_ignored (clb_nlist ctx) net_id then Inr (s, num_affected_nets, timing_delta_c)
     else
       (let (s, num_affected_nets) = record_affected_net net_id (s, num_affected_nets);
            s = update_net_bb ctx net_id mb blk_pin s
        in if alg = PATH_TIMING_DRIVEN_PLACE then
             (case update_td_delta_costs ctx net_id blk_pin (s, timing_delta_c) of
                Inl err \<Rightarrow> Inl err
              | Inr (s, timing_delta_c) \<Rightarrow> Inr (s, num_affected_nets, timing_delta_c))
           else Inr (s, num_affected_nets, timing_delta_c)))"

definition find_affected_block_step ::
  "placer_ctx \<Rightarrow> e_place_algorithm \<Rightarrow> t_pl_moved_block
     \<Rightarrow> placer_state \<times> nat \<times> fp \<Rightarrow> vpr_error + placer_state \<times> nat \<times> fp" where
  "find_affected_block_step ctx alg mb =
     foldM_err (find_affected_pin_step ctx alg mb) (block_pins (clb_nlist ctx) (block_num mb))"

text \<open>The second loop: the proposed cost of every affected net, and the sum of the changes.\<close>

definition proposed_net_cost_step ::
  "placer_ctx \<Rightarrow> nat \<Rightarrow> placer_state \<times> fp \<Rightarrow> placer_state \<times> fp" where
  "proposed_net_cost_step ctx inet_affected = (\<lambda>(s, bb_delta_c).
     let net_id = ts_nets_to_update s inet_affected;
         s = s\<lparr>proposed_net_cost :=
                 (proposed_net_cost s)(net_id := get_net_cost ctx net_id (ts_bb_coord_new s net_id))\<rparr>
     in (s, bb_delta_c + (proposed_net_cost s net_id - net_cost s net_id)))"

text \<open>Returns the state, the number of affected nets, \<open>bb_delta_c\<close> and \<open>timing_delta_c\<close>.\<close>

definition find_affected_nets_and_update_costs ::
  "placer_ctx \<Rightarrow> e_place_algorithm \<Rightarrow> placer_state \<Rightarrow> vpr_error + placer_state \<times> nat \<times> fp \<times> fp" where
  "find_affected_nets_and_update_costs ctx alg s =
     (case foldM_err (find_affected_block_step ctx alg) (moved_blocks (blocks_affected s))
             (s, 0, Fin 0) of
        Inl err \<Rightarrow> Inl err
      | Inr (s, num_affected_nets, timing_delta_c) \<Rightarrow>
          (let (s, bb_delta_c) =
                 fold (proposed_net_cost_step ctx) [0..<num_affected_nets] (s, Fin 0)
           in Inr (s, num_affected_nets, bb_delta_c, timing_delta_c)))"

subsection \<open>Commit and revert\<close>

definition commit_td_connection :: "ClusterNetId \<Rightarrow> nat \<Rightarrow> placer_state \<Rightarrow> placer_state" where
  "commit_td_connection net_id ipin s =
     (let s = s\<lparr>connection_delay :=
                  (connection_delay s)
                    (net_id := (connection_delay s net_id)(ipin := proposed_connection_delay s net_id ipin))\<rparr>;
          s = s\<lparr>proposed_connection_delay :=
                  (proposed_connection_delay s)
                    (net_id := (proposed_connection_delay s net_id)(ipin := INVALID_DELAY))\<rparr>;
          s = s\<lparr>connection_timing_cost :=
                  (connection_timing_cost s)
                    (net_id := (connection_timing_cost s net_id)
                                 (ipin := proposed_connection_timing_cost s net_id ipin))\<rparr>
      in s\<lparr>proposed_connection_timing_cost :=
             (proposed_connection_timing_cost s)
               (net_id := (proposed_connection_timing_cost s net_id)(ipin := INVALID_DELAY))\<rparr>)"

definition commit_td_pin :: "placer_ctx \<Rightarrow> ClusterPinId \<Rightarrow> placer_state \<Rightarrow> placer_state" where
  "commit_td_pin ctx pin_id s =
     (let nl = clb_nlist ctx; net_id = pin_net nl pin_id in
      if net_is_ignored nl net_id then s
      else if pin_type nl pin_id = DRIVER then
        fold (commit_td_connection net_id) [1..<length (net_pins nl net_id)] s
      else if \<not> driven_by_moved_block ctx net_id (blocks_affected s) then
        commit_td_connection net_id (pin_net_index nl pin_id) s
      else s)"

definition commit_td_cost :: "placer_ctx \<Rightarrow> placer_state \<Rightarrow> placer_state" where
  "commit_td_cost ctx s =
     fold (\<lambda>mb. fold (commit_td_pin ctx) (block_pins (clb_nlist ctx) (block_num mb)))
       (moved_blocks (blocks_affected s)) s"

definition revert_td_pin :: "placer_ctx \<Rightarrow> ClusterPinId \<Rightarrow> placer_state \<Rightarrow> placer_state" where
  "revert_td_pin ctx pin s =
     (let net = pin_net (clb_nlist ctx) pin;
          ipin = pin_net_index (clb_nlist ctx) pin;
          s = s\<lparr>proposed_connection_delay :=
                  (proposed_connection_delay s)
                    (net := (proposed_connection_delay s net)(ipin := INVALID_DELAY))\<rparr>
      in s\<lparr>proposed_connection_timing_cost :=
             (proposed_connection_timing_cost s)
               (net := (proposed_connection_timing_cost s net)(ipin := INVALID_DELAY))\<rparr>)"

text \<open>
  Without \<^verbatim>\<open>VTR_ASSERT_SAFE_ENABLED\<close> the body of \<^verbatim>\<open>revert_td_cost\<close> is compiled out.
\<close>

definition revert_td_cost :: "placer_ctx \<Rightarrow> placer_state \<Rightarrow> placer_state" where
  "revert_td_cost ctx s =
     (if \<not> VTR_ASSERT_SAFE_ENABLED ctx then s
      else fold (revert_td_pin ctx) (affected_pins (blocks_affected s)) s)"

text \<open>
  The timing invalidator is external; its state is the list \<open>invalidated_pins\<close> of the
  pins whose connection it was asked to invalidate. \<^verbatim>\<open>!=\<close> on floats holds when either side is NaN.
\<close>

definition fp_neq :: "fp \<Rightarrow> fp \<Rightarrow> bool" where
  "fp_neq a b = (isnan a \<or> isnan b \<or> a \<noteq> b)"

definition invalidate_affected_connection_delays :: "placer_ctx \<Rightarrow> placer_state \<Rightarrow> placer_state" where
  "invalidate_affected_connection_delays ctx s =
     s\<lparr>invalidated_pins :=
         fold (\<lambda>pin inv.
                 let net = pin_net (clb_nlist ctx) pin; ipin = pin_net_index (clb_nlist ctx) pin
                 in if fp_neq (proposed_connection_delay s net ipin) (connection_delay s net ipin)
                    then inv @ [pin] else inv)
              (affected_pins (blocks_affected s)) (invalidated_pins s)\<rparr>"

definition update_move_net :: "placer_ctx \<Rightarrow> nat \<Rightarrow> placer_state \<Rightarrow> placer_state" where
  "update_move_net ctx inet_affected s =
     (let net_id = ts_nets_to_update s inet_affected;
          s = s\<lparr>bb_coords := (bb_coords s)(net_id := ts_bb_coord_new s net_id)\<rparr>;
          s = (if length (net_sinks (clb_nlist ctx) net_id) \<ge> SMALL_NET
               then s\<lparr>bb_num_on_edges := (bb_num_on_edges s)(net_id := ts_bb_edge_new s net_id)\<rparr>
               else s);
          s = s\<lparr>net_cost := (net_cost s)(net_id := proposed_net_cost s net_id)\<rparr>;
          s = s\<lparr>proposed_net_cost := (proposed_net_cost s)(net_id := Fin (- 1))\<rparr>
      in s\<lparr>bb_updated_before := (bb_updated_before s)(net_id := NOT_UPDATED_YET)\<rparr>)"

definition update_move_nets :: "placer_ctx \<Rightarrow> nat \<Rightarrow> placer_state \<Rightarrow> placer_state" where
  "update_move_nets ctx num_nets_affected s =
     fold (update_move_net ctx) [0..<num_nets_affected] s"

definition reset_move_net :: "nat \<Rightarrow> placer_state \<Rightarrow> placer_state" where
  "reset_move_net inet_affected s =
     (let net_id = ts_nets_to_update s inet_affected;
          s = s\<lparr>proposed_net_cost := (proposed_net_cost s)(net_id := Fin (- 1))\<rparr>
      in s\<lparr>bb_updated_before := (bb_updated_before s)(net_id := NOT_UPDATED_YET)\<rparr>)"

definition reset_move_nets :: "nat \<Rightarrow> placer_state \<Rightarrow> placer_state" where
  "reset_move_nets num_nets_affected s = fold reset_move_net [0..<num_nets_affected] s"

subsection \<open>try\_swap\<close>

definition swap_delta_c ::
  "t_placer_opts \<Rightarrow> t_placer_prev_inverse_costs \<Rightarrow> fp \<Rightarrow> fp \<Rightarrow> fp" where
  "swap_delta_c opts prev_inverse_costs bb_delta_c timing_delta_c =
     (if place_algorithm opts = PATH_TIMING_DRIVEN_PLACE
      then (Fin 1 - timing_tradeoff opts) * bb_delta_c * inv_bb_cost prev_inverse_costs
           + timing_tradeoff opts * timing_delta_c * inv_timing_cost prev_inverse_costs
      else bb_delta_c)"

text \<open>The branch of \<^verbatim>\<open>try_swap\<close> for an accepted move.\<close>

definition try_swap_accepted ::
  "placer_ctx \<Rightarrow> t_placer_opts \<Rightarrow> nat \<Rightarrow> fp \<Rightarrow> fp \<Rightarrow> fp \<Rightarrow> placer_state \<Rightarrow> placer_state" where
  "try_swap_accepted ctx opts num_nets_affected delta_c bb_delta_c timing_delta_c s =
     (let s = s\<lparr>costs := (costs s)\<lparr>cost := cost (costs s) + delta_c\<rparr>\<rparr>;
          s = s\<lparr>costs := (costs s)\<lparr>bb_cost := bb_cost (costs s) + bb_delta_c\<rparr>\<rparr>;
          s = (if place_algorithm opts = PATH_TIMING_DRIVEN_PLACE
               then (let s = s\<lparr>costs := (costs s)\<lparr>timing_cost := timing_cost (costs s) + timing_delta_c\<rparr>\<rparr>;
                         s = invalidate_affected_connection_delays ctx s
                     in commit_td_cost ctx s)
               else s)
      in update_move_nets ctx num_nets_affected s)"

text \<open>The branch of \<^verbatim>\<open>try_swap\<close> for a rejected move.\<close>

definition try_swap_rejected ::
  "placer_ctx \<Rightarrow> t_placer_opts \<Rightarrow> nat \<Rightarrow> placer_state \<Rightarrow> placer_state" where
  "try_swap_rejected ctx opts num_nets_affected s =
     (let s = reset_move_nets num_nets_affected s;
          s = revert_move_blocks s
      in if place_algorithm opts = PATH_TIMING_DRIVEN_PLACE then revert_td_cost ctx s else s)"

text \<open>
  The move generator fills the list of moved blocks of the transaction. The screen update
  and the logging of the source have no effect on the state.
\<close>

definition try_swap ::
  "placer_ctx \<Rightarrow> t_placer_opts \<Rightarrow> 'e move_env \<Rightarrow> fp \<Rightarrow> t_placer_prev_inverse_costs \<Rightarrow> fp
     \<Rightarrow> placer_state \<times> 'e \<Rightarrow> vpr_error + e_move_result \<times> placer_state \<times> 'e" where
  "try_swap ctx opts env t prev_inverse_costs rlim = (\<lambda>(s, e).
     let (rlim, e) =
           (if Fin 0 < rlim_escape_fraction opts
            then (let (u, e) = frand env e
                  in (if u < rlim_escape_fraction opts then Rlim_infinity else Rlim rlim, e))
            else (Rlim rlim, e));
         ((create_move_outcome, mbs), e) = propose_move env e (block_locs s) rlim;
         s = s\<lparr>blocks_affected := (blocks_affected s)\<lparr>moved_blocks := mbs\<rparr>\<rparr>
     in if create_move_outcome = ABORT then
          (let s = clear_move_blocks s;
               move_outcome = ABORTED;
               e = process_outcome env move_outcome e;
               s = clear_move_blocks s
           in Inr (move_outcome, s, e))
        else
          (let s = apply_move_blocks s
           in case find_affected_nets_and_update_costs ctx (place_algorithm opts) s of
                Inl err \<Rightarrow> Inl err
              | Inr (s, num_nets_affected, bb_delta_c, timing_delta_c) \<Rightarrow>
                  (let delta_c = swap_delta_c opts prev_inverse_costs bb_delta_c timing_delta_c;
                       (move_outcome, e) = assess_swap env delta_c t e;
                       s = (if move_outcome = ACCEPTED
                            then try_swap_accepted ctx opts num_nets_affected
                                   delta_c bb_delta_c timing_delta_c s
                            else try_swap_rejected ctx opts num_nets_affected s);
                       e = process_outcome env move_outcome e;
                       s = clear_move_blocks s
                   in Inr (move_outcome, s, e))))"

section \<open>The starting temperature\<close>

record t_annealing_sched =
  sched_type :: e_sched_type
  init_t :: fp
  alpha_t :: fp
  exit_t :: fp
  alpha_max :: fp
  alpha_decay :: fp
  success_min :: fp
  success_target :: fp

text \<open>
  Modelled from the spec: \<^verbatim>\<open>HUGE_POSITIVE_FLOAT\<close> is a macro of vpr_types.h, which is not
  part of the sources at hand; it is the effectively infinite temperature of the trials
  of \<^verbatim>\<open>starting_t\<close>.
\<close>

definition HUGE_POSITIVE_FLOAT :: fp where
  "HUGE_POSITIVE_FLOAT = Fin (10 ^ 30)"

text \<open>
  One iteration of the loop of \<^verbatim>\<open>starting_t\<close>; the loop state is the placer state, the
  generator state, \<open>num_accepted\<close>, \<open>av\<close> and \<open>sum_of_squares\<close>.
\<close>

definition starting_t_trial ::
  "placer_ctx \<Rightarrow> t_placer_opts \<Rightarrow> 'e move_env \<Rightarrow> t_placer_prev_inverse_costs \<Rightarrow> fp
     \<Rightarrow> placer_state \<times> 'e \<times> int \<times> fp \<times> fp
     \<Rightarrow> vpr_error + placer_state \<times> 'e \<times> int \<times> fp \<times> fp" where
  "starting_t_trial ctx opts env prev_inverse_costs rlim =
     (\<lambda>(s, e, num_accepted, av, sum_sq).
        case try_swap ctx opts env HUGE_POSITIVE_FLOAT prev_inverse_costs rlim (s, e) of
          Inl err \<Rightarrow> Inl err
        | Inr (swap_result, s, e) \<Rightarrow>
            if swap_result = ACCEPTED
            then Inr (s, e, num_accepted + 1, av + cost (costs s),
                      sum_sq + cost (costs s) * cost (costs s))
            else Inr (s, e, num_accepted, av, sum_sq))"

text \<open>Returns the temperature, with the placer state and the generator state after the trials.\<close>

definition starting_t ::
  "placer_ctx \<Rightarrow> t_placer_opts \<Rightarrow> 'e move_env \<Rightarrow> t_annealing_sched \<Rightarrow> int
     \<Rightarrow> t_placer_prev_inverse_costs \<Rightarrow> fp \<Rightarrow> placer_state \<times> 'e
     \<Rightarrow> vpr_error + fp \<times> placer_state \<times> 'e" where
  "starting_t ctx opts env annealing_sched max_moves prev_inverse_costs rlim = (\<lambda>(s, e).
     if sched_type annealing_sched = USER_SCHED then Inr (init_t annealing_sched, s, e)
     else
       (let move_lim = min max_moves (int (length (blocks (clb_nlist ctx))))
        in case foldM_err (\<lambda>i. starting_t_trial ctx opts env prev_inverse_costs rlim)
                  [0..<nat move_lim] (s, e, 0, Fin 0, Fin 0) of
             Inl err \<Rightarrow> Inl err
           | Inr (s, e, num_accepted, av, sum_sq) \<Rightarrow>
               (let av = (if num_accepted \<noteq> 0 then av / Fin (of_int num_accepted) else Fin 0);
                    std_dev = get_std_dev num_accepted sum_sq av
                in Inr (Fin 20 * std_dev, s, e))))"

text \<open>
  The starting temperature as the specification words it: the cost values after the
  accepted ones of \<open>n\<close> trials at the huge temperature, and the guarded standard
  deviation of a list of numbers.
\<close>

fun accepted_costs ::
  "placer_ctx \<Rightarrow> t_placer_opts \<Rightarrow> 'e move_env \<Rightarrow> t_placer_prev_inverse_costs \<Rightarrow> fp \<Rightarrow> nat
     \<Rightarrow> placer_state \<times> 'e \<Rightarrow> vpr_error + fp list \<times> placer_state \<times> 'e" where
  "accepted_costs ctx opts env prev_inverse_costs rlim 0 se = Inr ([], se)"
| "accepted_costs ctx opts env prev_inverse_costs rlim (Suc n) se =
     (case try_swap ctx opts env HUGE_POSITIVE_FLOAT prev_inverse_costs rlim se of
        Inl err \<Rightarrow> Inl err
      | Inr (r, se1) \<Rightarrow>
          (case accepted_costs ctx opts env prev_inverse_costs rlim n se1 of
             Inl err \<Rightarrow> Inl err
           | Inr (cs, se2) \<Rightarrow>
               Inr ((if r = ACCEPTED then [cost (costs (fst se1))] else []) @ cs, se2)))"

definition spec_std_dev :: "real list \<Rightarrow> real" where
  "spec_std_dev xs =
     (let n = real (length xs); avg = sum_list xs / n
      in if length xs \<le> 1 then 0
         else sqrt (max 0 ((sum_list (map (\<lambda>x. x * x) xs) - n * avg * avg) / (n - 1))))"

section \<open>The annealing schedule\<close>

text \<open>
  The annealing state of \<^verbatim>\<open>update_annealing_state\<close>; the fields carry the prefix
  \<open>state_\<close> (the source reads them as \<^verbatim>\<open>state->t\<close>, \<^verbatim>\<open>state->rlim\<close>, ...).
\<close>

record t_annealing_state =
  state_t :: fp
  state_rlim :: fp
  state_inverse_delta_rlim :: fp
  state_alpha :: fp
  state_restart_t :: fp
  state_crit_exponent :: fp
  state_move_lim_max :: int
  state_move_lim :: int

text \<open>
  The conversion \<^verbatim>\<open>(int)\<close> of a float truncates towards zero. For NaN and for values
  out of the range of \<^verbatim>\<open>int\<close> the conversion is undefined in C++; here NaN gives 0 and
  the range is not limited.
\<close>

definition fp_to_int :: "fp \<Rightarrow> int" where
  "fp_to_int x = (case x of Fin r \<Rightarrow> (if 0 \<le> r then \<lfloor>r\<rfloor> else \<lceil>r\<rceil>) | NaN \<Rightarrow> 0)"

text \<open>
  The part of \<^verbatim>\<open>update_annealing_state\<close> under the DUSTY schedule and the part under the
  AUTO schedule. \<open>Inl\<close> is the \<^verbatim>\<open>return false\<close>, with the state at that point.
\<close>

definition update_annealing_state_dusty ::
  "t_annealing_state \<Rightarrow> fp \<Rightarrow> fp \<Rightarrow> t_annealing_sched \<Rightarrow> t_annealing_state + t_annealing_state" where
  "update_annealing_state_dusty state success_rat t_exit annealing_sched =
     (let restart_temp = (state_t state < t_exit \<or> isnan t_exit)
      in case (if success_rat < success_min annealing_sched \<or> restart_temp then
                 (if alpha_max annealing_sched < state_alpha state then Inl state
                  else
                    (let state = state\<lparr>state_t := state_restart_t state / fp_sqrt (state_alpha state)\<rparr>
                     in Inr (state\<lparr>state_alpha :=
                                     Fin 1 - ((Fin 1 - state_alpha state) * alpha_decay annealing_sched)\<rparr>)))
               else
                 (let state = (if success_target annealing_sched < success_rat
                               then state\<lparr>state_restart_t := state_t state\<rparr> else state)
                  in Inr (state\<lparr>state_t := state_t state * state_alpha state\<rparr>))) of
           Inl state \<Rightarrow> Inl state
         | Inr state \<Rightarrow>
             Inr (state\<lparr>state_move_lim :=
                    max 1 (min (state_move_lim_max state)
                               (fp_to_int (Fin (of_int (state_move_lim_max state))
                                           * (success_target annealing_sched / success_rat))))\<rparr>))"

definition update_annealing_state_auto ::
  "t_annealing_state \<Rightarrow> fp \<Rightarrow> fp \<Rightarrow> t_annealing_state + t_annealing_state" where
  "update_annealing_state_auto state success_rat t_exit =
     (let state = state\<lparr>state_alpha :=
                    (if Fin 0.96 < success_rat then Fin 0.5
                     else if Fin 0.8 < success_rat then Fin 0.9
                     else if Fin 0.15 < success_rat \<or> Fin 1 < state_rlim state then Fin 0.95
                     else Fin 0.8)\<rparr>;
          state = state\<lparr>state_t := state_t state * state_alpha state\<rparr>
      in if state_t state < t_exit \<or> isnan t_exit then Inl state else Inr state)"

text \<open>Returns the result of the function and the updated annealing state.\<close>

definition update_annealing_state ::
  "placer_ctx \<Rightarrow> t_annealing_state \<Rightarrow> fp \<Rightarrow> t_placer_costs \<Rightarrow> t_placer_opts \<Rightarrow> t_annealing_sched
     \<Rightarrow> bool \<times> t_annealing_state" where
  "update_annealing_state ctx state success_rat cs placer_opts annealing_sched =
     (if sched_type annealing_sched = USER_SCHED then
        (let state = state\<lparr>state_t := state_t state * alpha_t annealing_sched\<rparr>
         in (exit_t annealing_sched \<le> state_t state, state))
      else
        (let t_exit = Fin 0.005 * cost cs / Fin (real (length (nets (clb_nlist ctx))))
         in case (if sched_type annealing_sched = DUSTY_SCHED
                  then update_annealing_state_dusty state success_rat t_exit annealing_sched
                  else update_annealing_state_auto state success_rat t_exit) of
              Inl state \<Rightarrow> (False, state)
            | Inr state \<Rightarrow>
                (let state = state\<lparr>state_rlim := update_rlim (state_rlim state) success_rat (grid ctx)\<rparr>;
                     state =
                       (if place_algorithm placer_opts = PATH_TIMING_DRIVEN_PLACE
                        then state\<lparr>state_crit_exponent :=
                               (Fin 1 - (state_rlim state - FINAL_RLIM) * state_inverse_delta_rlim state)
                                 * (td_place_exp_last placer_opts - td_place_exp_first placer_opts)
                               + td_place_exp_first placer_opts\<rparr>
                        else state)
                 in (True, state))))"

text \<open>
  The end of an iteration of the outer loop of \<^verbatim>\<open>try_place\<close>: the statistics of the
  iteration are computed with the move limit of the annealing state, and the annealing
  state is updated with the success ratio; the result of the update is the condition of
  the loop.
\<close>

definition outer_loop_update ::
  "placer_ctx \<Rightarrow> t_placer_opts \<Rightarrow> t_annealing_sched \<Rightarrow> t_placer_statistics \<Rightarrow> t_placer_costs
     \<Rightarrow> t_annealing_state \<Rightarrow> bool \<times> t_annealing_state" where
  "outer_loop_update ctx placer_opts annealing_sched stats cs state =
     (let (stats, success_rat, std_dev) = calc_placer_stats stats cs (state_move_lim state)
      in update_annealing_state ctx state success_rat cs placer_opts annealing_sched)"

section \<open>Recomputing the costs from scratch\<close>

text \<open>\<^verbatim>\<open>==\<close> on floats is false when either side is NaN.\<close>

definition fp_eq :: "fp \<Rightarrow> fp \<Rightarrow> bool" where
  "fp_eq a b = (\<not> isnan a \<and> \<not> isnan b \<and> a = b)"

text \<open>The three \<^verbatim>\<open>VTR_ASSERT_SAFE\<close> checks are compiled in with \<^verbatim>\<open>VTR_ASSERT_SAFE_ENABLED\<close>.\<close>

definition comp_td_connection_cost ::
  "placer_ctx \<Rightarrow> placer_state \<Rightarrow> ClusterNetId \<Rightarrow> nat \<Rightarrow> vpr_error + fp" where
  "comp_td_connection_cost ctx s net ipin =
     (if VTR_ASSERT_SAFE_ENABLED ctx \<and> \<not> ipin > 0 then Inl VTR_ASSERT_FAILED
      else
        (case (if VTR_ASSERT_SAFE_ENABLED ctx
               then (case comp_td_connection_delay ctx (block_locs s) net ipin of
                       Inl err \<Rightarrow> Inl err
                     | Inr d \<Rightarrow> if fp_eq (connection_delay s net ipin) d then Inr ()
                               else Inl VTR_ASSERT_FAILED)
               else Inr ()) of
           Inl err \<Rightarrow> Inl err
         | Inr _ \<Rightarrow>
             (let conn_timing_cost = criticality ctx net ipin * connection_delay s net ipin
              in if VTR_ASSERT_SAFE_ENABLED ctx \<and> \<not> isnan (proposed_connection_delay s net ipin)
                 then Inl VTR_ASSERT_FAILED
                 else if VTR_ASSERT_SAFE_ENABLED ctx
                         \<and> \<not> isnan (proposed_connection_timing_cost s net ipin)
                 then Inl VTR_ASSERT_FAILED
                 else Inr conn_timing_cost)))"

definition sum_td_net_cost :: "placer_ctx \<Rightarrow> placer_state \<Rightarrow> ClusterNetId \<Rightarrow> fp" where
  "sum_td_net_cost ctx s net =
     fold (\<lambda>ipin net_td_cost. net_td_cost + connection_timing_cost s net ipin)
          [1..<length (net_pins (clb_nlist ctx) net)] (Fin 0)"

definition sum_td_costs :: "placer_ctx \<Rightarrow> placer_state \<Rightarrow> fp" where
  "sum_td_costs ctx s =
     fold (\<lambda>net_id td_cost. if net_is_ignored (clb_nlist ctx) net_id then td_cost
                             else td_cost + net_timing_cost s net_id)
          (nets (clb_nlist ctx)) (Fin 0)"

definition comp_td_costs_connection ::
  "placer_ctx \<Rightarrow> ClusterNetId \<Rightarrow> nat \<Rightarrow> placer_state \<Rightarrow> vpr_error + placer_state" where
  "comp_td_costs_connection ctx net_id ipin s =
     (case comp_td_connection_cost ctx s net_id ipin of
        Inl err \<Rightarrow> Inl err
      | Inr conn_timing_cost \<Rightarrow>
          Inr (s\<lparr>connection_timing_cost :=
                   (connection_timing_cost s)
                     (net_id := (connection_timing_cost s net_id)(ipin := conn_timing_cost))\<rparr>))"

definition comp_td_costs_net ::
  "placer_ctx \<Rightarrow> ClusterNetId \<Rightarrow> placer_state \<Rightarrow> vpr_error + placer_state" where
  "comp_td_costs_net ctx net_id s =
     (if net_is_ignored (clb_nlist ctx) net_id then Inr s
      else
        (case foldM_err (comp_td_costs_connection ctx net_id)
                [1..<length (net_pins (clb_nlist ctx) net_id)] s of
           Inl err \<Rightarrow> Inl err
         | Inr s \<Rightarrow>
             Inr (s\<lparr>net_timing_cost :=
                      (net_timing_cost s)(net_id := sum_td_net_cost ctx s net_id)\<rparr>)))"

text \<open>Returns the state and the value stored through \<^verbatim>\<open>timing_cost\<close>.\<close>

definition comp_td_costs :: "placer_ctx \<Rightarrow> placer_state \<Rightarrow> vpr_error + placer_state \<times> fp" where
  "comp_td_costs ctx s =
     (case foldM_err (comp_td_costs_net ctx) (nets (clb_nlist ctx)) s of
        Inl err \<Rightarrow> Inl err
      | Inr s \<Rightarrow> Inr (s, sum_td_costs ctx s))"

definition recompute_costs_from_scratch ::
  "placer_ctx \<Rightarrow> t_placer_opts \<Rightarrow> placer_state \<Rightarrow> vpr_error + placer_state" where
  "recompute_costs_from_scratch ctx opts s =
     (let new_bb_cost = recompute_bb_cost ctx s
      in if bb_cost (costs s) * ERROR_TOL < fabs (new_bb_cost - bb_cost (costs s))
         then Inl VPR_ERROR_PLACE
         else
           (let s = s\<lparr>costs := (costs s)\<lparr>bb_cost := new_bb_cost\<rparr>\<rparr>
            in if place_algorithm opts = PATH_TIMING_DRIVEN_PLACE then
                 (case comp_td_costs ctx s of
                    Inl err \<Rightarrow> Inl err
                  | Inr (s, new_timing_cost) \<Rightarrow>
                      if timing_cost (costs s) * ERROR_TOL
                           < fabs (new_timing_cost - timing_cost (costs s))
                      then Inl VPR_ERROR_PLACE
                      else Inr (s\<lparr>costs := (costs s)\<lparr>timing_cost := new_timing_cost\<rparr>\<rparr>))
               else Inr (s\<lparr>costs := (costs s)\<lparr>cost := new_bb_cost\<rparr>\<rparr>)))"

text \<open>
  The end of an iteration of \<^verbatim>\<open>placement_inner_loop\<close>: the counter of the moves since
  the last recomputation is incremented, and the costs are recomputed when it exceeds
  \<^verbatim>\<open>MAX_MOVES_BEFORE_RECOMPUTE\<close>. The counter is set to 0 before the first iteration.
\<close>

definition inner_loop_cost_recompute ::
  "placer_ctx \<Rightarrow> t_placer_opts \<Rightarrow> placer_state \<times> int \<Rightarrow> vpr_error + placer_state \<times> int" where
  "inner_loop_cost_recompute ctx opts = (\<lambda>(s, moves_since_cost_recompute).
     let moves_since_cost_recompute = moves_since_cost_recompute + 1
     in if moves_since_cost_recompute > MAX_MOVES_BEFORE_RECOMPUTE then
          (case recompute_costs_from_scratch ctx opts s of
             Inl err \<Rightarrow> Inl err
           | Inr s \<Rightarrow> Inr (s, 0))
        else Inr (s, moves_since_cost_recompute))"

text \<open>
  The timing cost from scratch as the specification words it: the timing cost of a
  connection is its criticality times its delay (the cached \<open>connection_delay\<close>), that
  of a net the sum over its sinks, and the total the sum over the nets that are not ignored.
\<close>

definition spec_connection_timing_cost :: "placer_ctx \<Rightarrow> placer_state \<Rightarrow> ClusterNetId \<Rightarrow> nat \<Rightarrow> fp" where
  "spec_connection_timing_cost ctx s net ipin = criticality ctx net ipin * connection_delay s net ipin"

definition spec_net_timing_cost :: "placer_ctx \<Rightarrow> placer_state \<Rightarrow> ClusterNetId \<Rightarrow> fp" where
  "spec_net_timing_cost ctx s net =
     sum_list (map (spec_connection_timing_cost ctx s net) [1..<length (net_pins (clb_nlist ctx) net)])"

definition spec_timing_cost :: "placer_ctx \<Rightarrow> placer_state \<Rightarrow> fp" where
  "spec_timing_cost ctx s =
     sum_list (map (spec_net_timing_cost ctx s)
                   (filter (\<lambda>net. \<not> net_is_ignored (clb_nlist ctx) net) (nets (clb_nlist ctx))))"

text \<open>
  The nets among \<open>ns\<close> whose costs \<^verbatim>\<open>comp_td_costs\<close> recomputes, and the state it leaves
  when it has gone through \<open>ns\<close>: the timing costs of their connections and their net
  timing costs are the recomputed ones, and nothing else has changed.
\<close>

definition td_recomputed :: "placer_ctx \<Rightarrow> ClusterNetId list \<Rightarrow> ClusterNetId \<Rightarrow> bool" where
  "td_recomputed ctx ns net = (net \<in> set ns \<and> \<not> net_is_ignored (clb_nlist ctx) net)"

definition spec_comp_td_costs_nets ::
  "placer_ctx \<Rightarrow> ClusterNetId list \<Rightarrow> placer_state \<Rightarrow> placer_state" where
  "spec_comp_td_costs_nets ctx ns s =
     s\<lparr>connection_timing_cost :=
         (\<lambda>net ipin. if td_recomputed ctx ns net
                        \<and> ipin \<in> set [1..<length (net_pins (clb_nlist ctx) net)]
                     then spec_connection_timing_cost ctx s net ipin
                     else connection_timing_cost s net ipin),
       net_timing_cost :=
         (\<lambda>net. if td_recomputed ctx ns net
                then spec_net_timing_cost ctx s net
                else net_timing_cost s net)\<rparr>"

text \<open>
  No connection of the nets \<open>ns\<close> fails a check of \<^verbatim>\<open>comp_td_connection_cost\<close>.
\<close>

definition td_nets_pass :: "placer_ctx \<Rightarrow> ClusterNetId list \<Rightarrow> placer_state \<Rightarrow> bool" where
  "td_nets_pass ctx ns s =
     (\<forall>net \<in> set ns. \<not> net_is_ignored (clb_nlist ctx) net \<longrightarrow>
        (\<forall>ipin \<in> set [1..<length (net_pins (clb_nlist ctx) net)].
           \<not> isl (comp_td_connection_cost ctx s net ipin)))"

text \<open>What the checks and the cost of a connection read of the state.\<close>

definition cost_view where
  "cost_view s = (block_locs s, connection_delay s, proposed_connection_delay s,
                  proposed_connection_timing_cost s)"

section \<open>The inner loop of the annealing\<close>

text \<open>
  Modelled from the spec: the timing engine (\<^verbatim>\<open>timing_info->update()\<close>) and the
  criticality provider (\<^verbatim>\<open>update_criticalities\<close>, \<^verbatim>\<open>pins_with_modified_criticality\<close>)
  are external collaborators. Together they are one function: from the criticality
  exponent, the state of the placer (the analysis reads its connection delays) and their
  own state it gives the new criticalities, the pins whose criticality was modified, and
  their new state.
\<close>

type_synonym 'e criticality_update =
  "fp \<Rightarrow> placer_state \<Rightarrow> 'e \<Rightarrow> ((ClusterNetId \<Rightarrow> nat \<Rightarrow> fp) \<times> ClusterPinId list) \<times> 'e"

text \<open>
  The body of the loop of \<^verbatim>\<open>update_td_costs\<close> over the pins with a modified criticality.
  The check of the pin's index is compiled in with \<^verbatim>\<open>VTR_ASSERT_SAFE_ENABLED\<close>.
\<close>

definition update_td_costs_pin ::
  "placer_ctx \<Rightarrow> ClusterPinId \<Rightarrow> placer_state \<Rightarrow> vpr_error + placer_state" where
  "update_td_costs_pin ctx clb_pin s =
     (let nl = clb_nlist ctx in
      if pin_type nl clb_pin = DRIVER then Inr s
      else
        (let clb_net = pin_net nl clb_pin in
         if net_is_ignored nl clb_net then Inr s
         else
           (let ipin = pin_net_index nl clb_pin in
            if VTR_ASSERT_SAFE_ENABLED ctx \<and> \<not> ipin < length (net_pins nl clb_net)
            then Inl VTR_ASSERT_FAILED
            else
              (case comp_td_connection_cost ctx s clb_net ipin of
                 Inl err \<Rightarrow> Inl err
               | Inr new_timing_cost \<Rightarrow>
                   Inr (s\<lparr>connection_timing_cost :=
                            (connection_timing_cost s)
                              (clb_net := (connection_timing_cost s clb_net)
                                            (ipin := new_timing_cost))\<rparr>)))))"

text \<open>
  Modelled from the spec: \<^verbatim>\<open>connection_timing_cost.total_cost()\<close> belongs to the class
  \<^verbatim>\<open>PlacerTimingCosts\<close>, which is not part of the sources at hand. It is the total of
  the timing costs of the connections, summed in the same hierarchy as in
  \<^verbatim>\<open>comp_td_costs\<close>: per net over its sinks, then over the nets that are not ignored.
\<close>

definition total_cost :: "placer_ctx \<Rightarrow> placer_state \<Rightarrow> fp" where
  "total_cost ctx s =
     fold (\<lambda>net_id td_cost. if net_is_ignored (clb_nlist ctx) net_id then td_cost
                             else td_cost + sum_td_net_cost ctx s net_id)
          (nets (clb_nlist ctx)) (Fin 0)"

text \<open>
  Returns the state and the value stored through \<^verbatim>\<open>timing_cost\<close>. The comparison with
  \<^verbatim>\<open>comp_td_costs\<close> under \<^verbatim>\<open>VTR_ASSERT_DEBUG_ENABLED\<close> is not part of the model.
\<close>

definition update_td_costs ::
  "placer_ctx \<Rightarrow> ClusterPinId list \<Rightarrow> placer_state \<Rightarrow> vpr_error + placer_state \<times> fp" where
  "update_td_costs ctx clb_pins_modified s =
     (case foldM_err (update_td_costs_pin ctx) clb_pins_modified s of
        Inl err \<Rightarrow> Inl err
      | Inr s \<Rightarrow> Inr (s, total_cost ctx s))"

text \<open>
  The state of the inner loop: the context with the current criticalities, the state of
  the placer, the state of the external collaborators, the statistics of the temperature,
  and the two counters.
\<close>

record 'e inner_loop_state =
  loop_ctx :: placer_ctx
  loop_state :: placer_state
  loop_env :: 'e
  loop_stats :: t_placer_statistics
  loop_moves_since_cost_recompute :: int
  loop_inner_crit_iter_count :: int

text \<open>
  \<^verbatim>\<open>recompute_criticalities\<close>, with \<^verbatim>\<open>INCR_COMP_TD_COSTS\<close> defined as in the source:
  the timing analysis and the new criticalities, the incremental update of the timing
  costs, and the reset of the timing invalidator.
\<close>

definition recompute_criticalities ::
  "'e criticality_update \<Rightarrow> fp \<Rightarrow> 'e inner_loop_state \<Rightarrow> vpr_error + 'e inner_loop_state" where
  "recompute_criticalities update_criticalities crit_exponent L =
     (let ((crit, clb_pins_modified), e) =
            update_criticalities crit_exponent (loop_state L) (loop_env L);
          ctx = (loop_ctx L)\<lparr>criticality := crit\<rparr>
      in case update_td_costs ctx clb_pins_modified (loop_state L) of
           Inl err \<Rightarrow> Inl err
         | Inr (s, new_timing_cost) \<Rightarrow>
             Inr (L\<lparr>loop_ctx := ctx,
                    loop_state := s\<lparr>costs := (costs s)\<lparr>timing_cost := new_timing_cost\<rparr>,
                                     invalidated_pins := []\<rparr>,
                    loop_env := e\<rparr>))"

text \<open>
  One iteration of the loop of \<^verbatim>\<open>placement_inner_loop\<close>. The counters of the accepted,
  rejected and aborted swaps, the log and the saving of the placement to a file have no
  effect on the state and are left out.
\<close>

definition placement_inner_iteration ::
  "t_placer_opts \<Rightarrow> 'e move_env \<Rightarrow> 'e criticality_update \<Rightarrow> fp \<Rightarrow> t_placer_prev_inverse_costs
     \<Rightarrow> fp \<Rightarrow> int \<Rightarrow> fp \<Rightarrow> int \<Rightarrow> int \<Rightarrow> 'e inner_loop_state
     \<Rightarrow> vpr_error + 'e inner_loop_state" where
  "placement_inner_iteration placer_opts env update_criticalities temp prev_inverse_costs rlim
       move_lim crit_exponent inner_recompute_limit inner_iter L =
     (case try_swap (loop_ctx L) placer_opts env temp prev_inverse_costs rlim
             (loop_state L, loop_env L) of
        Inl err \<Rightarrow> Inl err
      | Inr (swap_result, s, e) \<Rightarrow>
          (let L = L\<lparr>loop_state := s, loop_env := e\<rparr>;
               L = (if swap_result = ACCEPTED
                    then L\<lparr>loop_stats :=
                           (loop_stats L)
                             \<lparr>success_sum := success_sum (loop_stats L) + 1,
                              av_cost := av_cost (loop_stats L) + cost (costs s),
                              av_bb_cost := av_bb_cost (loop_stats L) + bb_cost (costs s),
                              av_timing_cost := av_timing_cost (loop_stats L) + timing_cost (costs s),
                              sum_of_squares :=
                                sum_of_squares (loop_stats L) + cost (costs s) * cost (costs s)\<rparr>\<rparr>
                    else L)
           in case (if place_algorithm placer_opts = PATH_TIMING_DRIVEN_PLACE then
                      (case (if inner_recompute_limit \<le> loop_inner_crit_iter_count L
                                \<and> inner_iter \<noteq> move_lim - 1
                             then recompute_criticalities update_criticalities crit_exponent
                                    (L\<lparr>loop_inner_crit_iter_count := 0\<rparr>)
                             else Inr L) of
                         Inl err \<Rightarrow> Inl err
                       | Inr L \<Rightarrow>
                           Inr (L\<lparr>loop_inner_crit_iter_count := loop_inner_crit_iter_count L + 1\<rparr>))
                    else Inr L) of
                Inl err \<Rightarrow> Inl err
              | Inr L \<Rightarrow>
                  (case inner_loop_cost_recompute (loop_ctx L) placer_opts
                          (loop_state L, loop_moves_since_cost_recompute L) of
                     Inl err \<Rightarrow> Inl err
                   | Inr (s, moves_since_cost_recompute) \<Rightarrow>
                       Inr (L\<lparr>loop_state := s,
                              loop_moves_since_cost_recompute := moves_since_cost_recompute\<rparr>))))"

text \<open>
  \<^verbatim>\<open>placement_inner_loop\<close>: the statistics are reset, the counter of the iterations
  since the last update of the criticalities starts at 1, and \<open>move_lim\<close> trials follow.
  The quench is this loop at temperature 0.
\<close>

definition placement_inner_loop ::
  "t_placer_opts \<Rightarrow> 'e move_env \<Rightarrow> 'e criticality_update \<Rightarrow> fp \<Rightarrow> t_placer_prev_inverse_costs
     \<Rightarrow> fp \<Rightarrow> int \<Rightarrow> fp \<Rightarrow> int \<Rightarrow> 'e inner_loop_state \<Rightarrow> vpr_error + 'e inner_loop_state" where
  "placement_inner_loop placer_opts env update_criticalities temp prev_inverse_costs rlim
       move_lim crit_exponent inner_recompute_limit L =
     foldM_err
       (placement_inner_iteration placer_opts env update_criticalities temp prev_inverse_costs rlim
          move_lim crit_exponent inner_recompute_limit)
       (map int [0..<nat move_lim])
       (L\<lparr>loop_stats := \<lparr>av_cost = Fin 0, av_bb_cost = Fin 0, av_timing_cost = Fin 0,
                            sum_of_squares = Fin 0, success_sum = 0\<rparr>,
          loop_inner_crit_iter_count := 1\<rparr>)"

text \<open>
  The value that the local variable \<^verbatim>\<open>delta_c\<close> of \<^verbatim>\<open>try_swap\<close> has when the outcome
  of the move is assessed: 0 for an aborted move, else the change of the cost that
  \<^verbatim>\<open>find_affected_nets_and_update_costs\<close> found for the proposed move.
\<close>

definition try_swap_delta_c ::
  "placer_ctx \<Rightarrow> t_placer_opts \<Rightarrow> 'e move_env \<Rightarrow> t_placer_prev_inverse_costs \<Rightarrow> fp
     \<Rightarrow> placer_state \<times> 'e \<Rightarrow> vpr_error + fp" where
  "try_swap_delta_c ctx opts env prev_inverse_costs rlim = (\<lambda>(s, e).
     let (rlim, e) =
           (if Fin 0 < rlim_escape_fraction opts
            then (let (u, e) = frand env e
                  in (if u < rlim_escape_fraction opts then Rlim_infinity else Rlim rlim, e))
            else (Rlim rlim, e));
         ((create_move_outcome, mbs), e) = propose_move env e (block_locs s) rlim;
         s = s\<lparr>blocks_affected := (blocks_affected s)\<lparr>moved_blocks := mbs\<rparr>\<rparr>
     in if create_move_outcome = ABORT then Inr (Fin 0)
        else
          (case find_affected_nets_and_update_costs ctx (place_algorithm opts) (apply_move_blocks s) of
             Inl err \<Rightarrow> Inl err
           | Inr (s, num_nets_affected, bb_delta_c, timing_delta_c) \<Rightarrow>
               Inr (swap_delta_c opts prev_inverse_costs bb_delta_c timing_delta_c)))"

text \<open>
  The cost of the state \<open>s'\<close> is not above that of \<open>s\<close>: it is the same value, or both
  are numbers and the cost of \<open>s'\<close> is the smaller or equal one.
\<close>

definition cost_not_above :: "placer_state \<Rightarrow> placer_state \<Rightarrow> bool" where
  "cost_not_above s' s =
     (cost (costs s') = cost (costs s)
      \<or> (\<exists>c c'. cost (costs s) = Fin c \<and> cost (costs s') = Fin c' \<and> c' \<le> c))"

section \<open>Concrete instances\<close>

text \<open>
  A generator whose random numbers are all \<open>u\<close> and whose \<open>i\<close>-th call (of either
  kind) proposes \<open>script i\<close>; its state counts the calls.
\<close>

definition scripted_env ::
  "fp \<Rightarrow> (nat \<Rightarrow> e_create_move \<times> t_pl_moved_block list) \<Rightarrow> nat move_env" where
  "scripted_env u script =
     \<lparr>frand = (\<lambda>e. (u, Suc e)),
      propose_move = (\<lambda>e locs rl. (script e, Suc e)),
      process_outcome = (\<lambda>r e. e)\<rparr>"

text \<open>
  A netlist of six blocks and three nets. Net 0 is driven by pin 0 of block 0 and has the
  four sinks 1 to 4 on the blocks 1 to 4 (a large net); net 1 is driven by pin 5 of block
  1 and has the sink 6 on block 0; net 2, driven by pin 7 of block 5 with the sink 8 on
  block 0, is ignored (global).
\<close>

definition demo_nlist :: ClusteredNetlist where
  "demo_nlist =
     \<lparr>nets = [0, 1, 2],
      blocks = [0, 1, 2, 3, 4, 5],
      block_pins = (\<lambda>b. [[0, 6, 8], [1, 5], [2], [3], [4], [7]] ! b),
      net_driver = (\<lambda>n. [0, 5, 7] ! n),
      net_sinks = (\<lambda>n. [[1, 2, 3, 4], [6], [8]] ! n),
      net_is_ignored = (\<lambda>n. n = 2),
      pin_net = (\<lambda>p. [0, 0, 0, 0, 0, 1, 1, 2, 2] ! p),
      pin_block = (\<lambda>p. [0, 1, 2, 3, 4, 1, 0, 5, 0] ! p),
      pin_type = (\<lambda>p. if p = 0 \<or> p = 5 \<or> p = 7 then DRIVER else SINK),
      pin_net_index = (\<lambda>p. [0, 1, 2, 3, 4, 0, 1, 0, 1] ! p),
      pin_logical_index = (\<lambda>p. int p)\<rparr>"

text \<open>
  A 10 by 10 grid, pins at their block's location, unit channel factors, the Manhattan
  distance as delay, and criticality 1/2 on every connection.
\<close>

definition demo_ctx :: "bool \<Rightarrow> placer_ctx" where
  "demo_ctx safe =
     \<lparr>clb_nlist = demo_nlist,
      grid = \<lparr>width = 10, height = 10\<rparr>,
      pin_width_offset = (\<lambda>p. 0),
      pin_height_offset = (\<lambda>p. 0),
      chanx_place_cost_fac = (\<lambda>hi lo. Fin 1),
      chany_place_cost_fac = (\<lambda>hi lo. Fin 1),
      delay_model = (\<lambda>sx sy sp kx ky kp. Fin (of_int (\<bar>kx - sx\<bar> + \<bar>ky - sy\<bar>))),
      criticality = (\<lambda>n k. Fin (1 / 2)),
      VTR_ASSERT_SAFE_ENABLED = safe\<rparr>"

definition at_xy :: "int \<Rightarrow> int \<Rightarrow> t_pl_loc" where
  "at_xy a b = \<lparr>loc_x = a, loc_y = b, loc_sub_tile = 0\<rparr>"

definition demo_locs :: "ClusterBlockId \<Rightarrow> t_pl_loc" where
  "demo_locs b = [at_xy 1 1, at_xy 3 3, at_xy 5 5, at_xy 5 2, at_xy 2 5, at_xy 0 0] ! b"

definition bb_of :: "int \<Rightarrow> int \<Rightarrow> int \<Rightarrow> int \<Rightarrow> t_bb" where
  "bb_of a b c d = \<lparr>xmin = a, xmax = b, ymin = c, ymax = d\<rparr>"

text \<open>
  The state of the placer between two trials for this placement: bounding boxes, net costs
  (10 for net 0, whose five pins have the crossing count 1.1536 ... here the per-net costs
  are those of \<open>get_net_cost\<close>), delays and timing costs of the connections, and the
  markers at rest.
\<close>

definition demo_state :: placer_state where
  "demo_state =
     \<lparr>block_locs = demo_locs,
      net_cost = (\<lambda>n. if n = 0 then get_net_cost (demo_ctx True) 0 (bb_of 1 5 1 5)
                      else if n = 1 then get_net_cost (demo_ctx True) 1 (bb_of 1 3 1 3)
                      else Fin (- 1)),
      proposed_net_cost = (\<lambda>n. Fin (- 1)),
      bb_updated_before = (\<lambda>n. NOT_UPDATED_YET),
      connection_delay = (\<lambda>n k. if n = 0 then [Fin 0, Fin 4, Fin 8, Fin 5, Fin 5] ! k
                                else if n = 1 then [Fin 0, Fin 4] ! k else Fin 0),
      proposed_connection_delay = (\<lambda>n k. NaN),
      connection_timing_cost = (\<lambda>n k. if n = 0 then [NaN, Fin 2, Fin 4, Fin 2.5, Fin 2.5] ! k
                                      else if n = 1 then [NaN, Fin 2] ! k else Fin 0),
      proposed_connection_timing_cost = (\<lambda>n k. NaN),
      net_timing_cost = (\<lambda>n. if n = 0 then Fin 11 else if n = 1 then Fin 2 else Fin 0),
      bb_coords = (\<lambda>n. if n = 0 then bb_of 1 5 1 5 else if n = 1 then bb_of 1 3 1 3
                       else bb_of 0 0 0 0),
      bb_num_on_edges = (\<lambda>n. if n = 0 then bb_of 1 2 1 2 else bb_of 0 0 0 0),
      ts_bb_coord_new = (\<lambda>n. bb_of 0 0 0 0),
      ts_bb_edge_new = (\<lambda>n. bb_of 0 0 0 0),
      ts_nets_to_update = (\<lambda>i. 0),
      costs = \<lparr>cost = Fin 1, bb_cost = Fin 17.536, timing_cost = Fin 13\<rparr>,
      blocks_affected = \<lparr>moved_blocks = [], affected_pins = []\<rparr>,
      invalidated_pins = []\<rparr>"

text \<open>Moving one block from one location to another.\<close>

definition move_of :: "ClusterBlockId \<Rightarrow> t_pl_loc \<Rightarrow> t_pl_loc \<Rightarrow> t_pl_moved_block" where
  "move_of b l l' = \<lparr>block_num = b, old_loc = l, new_loc = l'\<rparr>"

definition demo_opts :: "e_place_algorithm \<Rightarrow> t_placer_opts" where
  "demo_opts alg = \<lparr>place_algorithm = alg, timing_tradeoff = Fin (1 / 2),
                     rlim_escape_fraction = Fin 0,
                     td_place_exp_first = Fin 1, td_place_exp_last = Fin 8\<rparr>"

text \<open>An annealing schedule of the given type.\<close>

definition demo_sched :: "e_sched_type \<Rightarrow> t_annealing_sched" where
  "demo_sched ty = \<lparr>sched_type = ty, init_t = Fin 7, alpha_t = Fin (8 / 10), exit_t = Fin (1 / 100),
                     alpha_max = Fin (9 / 10), alpha_decay = Fin (7 / 10),
                     success_min = Fin (1 / 10), success_target = Fin (1 / 4)\<rparr>"

text \<open>An annealing state at temperature \<open>temp\<close> with the range limit 5.\<close>

definition demo_annealing_state :: "fp \<Rightarrow> t_annealing_state" where
  "demo_annealing_state temp =
     \<lparr>state_t = temp, state_rlim = Fin 5, state_inverse_delta_rlim = Fin (1 / 8),
      state_alpha = Fin (8 / 10), state_restart_t = temp, state_crit_exponent = Fin 1,
      state_move_lim_max = 100, state_move_lim = 100\<rparr>"

text \<open>The statistics of an iteration of 100 moves of which \<open>k\<close> were accepted.\<close>

definition demo_stats :: "int \<Rightarrow> t_placer_statistics" where
  "demo_stats k = \<lparr>av_cost = Fin 0, av_bb_cost = Fin 0, av_timing_cost = Fin 0,
                    sum_of_squares = Fin 0, success_sum = k\<rparr>"

definition demo_prev_inverse_costs :: t_placer_prev_inverse_costs where
  "demo_prev_inverse_costs = \<lparr>inv_bb_cost = Fin (1 / 17.536), inv_timing_cost = Fin (1 / 13)\<rparr>"

text \<open>
  One trial from \<open>demo_state\<close> at temperature \<open>t\<close>, in which the generator proposes to
  move the block \<open>b\<close> from \<open>l\<close> to \<open>l'\<close>.
\<close>

definition demo_trial ::
  "bool \<Rightarrow> e_place_algorithm \<Rightarrow> fp \<Rightarrow> ClusterBlockId \<Rightarrow> t_pl_loc \<Rightarrow> t_pl_loc
     \<Rightarrow> vpr_error + e_move_result \<times> placer_state \<times> nat" where
  "demo_trial safe alg t b l l' =
     try_swap (demo_ctx safe) (demo_opts alg) (scripted_env (Fin 0) (\<lambda>i. (VALID, [move_of b l l'])))
       t demo_prev_inverse_costs (Fin 3) (demo_state, 0)"

text \<open>Two proposals in a row: block 2 to (3, 3), then block 3 to (3, 2).\<close>

definition demo_two_moves :: "nat \<Rightarrow> e_create_move \<times> t_pl_moved_block list" where
  "demo_two_moves i =
     (VALID, [if i = 0 then move_of 2 (at_xy 5 5) (at_xy 3 3) else move_of 3 (at_xy 5 2) (at_xy 3 2)])"

text \<open>The cost totals of \<open>demo_state\<close>.\<close>

definition demo_costs :: t_placer_costs where
  "demo_costs = \<lparr>cost = Fin 1, bb_cost = Fin 17.536, timing_cost = Fin 13\<rparr>"

text \<open>A state whose running bounding-box total has drifted far from the per-net costs.\<close>

definition demo_drifted_state :: placer_state where
  "demo_drifted_state =
     demo_state\<lparr>costs := \<lparr>cost = Fin 100, bb_cost = Fin 100, timing_cost = Fin 13\<rparr>\<rparr>"

text \<open>
  A state whose running totals are 17.5, a little below the sum 17.536 of the costs of the
  nets.
\<close>

definition demo_low_state :: placer_state where
  "demo_low_state =
     demo_state\<lparr>costs := \<lparr>cost = Fin 17.5, bb_cost = Fin 17.5, timing_cost = Fin 13\<rparr>\<rparr>"

text \<open>
  A timing analysis after which every criticality is 1/4 and the criticalities of the pins
  1 and 6 count as modified.
\<close>

definition demo_criticality_update :: "nat criticality_update" where
  "demo_criticality_update crit_exponent s e = (((\<lambda>n k. Fin (1 / 4)), [1, 6]), e)"

text \<open>The state of the inner loop with the criticalities of \<open>demo_ctx\<close>.\<close>

definition demo_loop :: "bool \<Rightarrow> placer_state \<Rightarrow> int \<Rightarrow> nat inner_loop_state" where
  "demo_loop safe s moves =
     \<lparr>loop_ctx = demo_ctx safe, loop_state = s, loop_env = 0, loop_stats = demo_stats 0,
      loop_moves_since_cost_recompute = moves, loop_inner_crit_iter_count = 1\<rparr>"

text \<open>
  A quench of \<open>move_lim\<close> trials from the state \<open>s\<close>, with \<open>moves\<close> moves since
  the last recomputation of the costs; the criticalities are updated after every trial
  but the last.
\<close>

definition demo_quench :: "bool \<Rightarrow> e_place_algorithm \<Rightarrow> (nat \<Rightarrow> e_create_move \<times> t_pl_moved_block list)
    \<Rightarrow> int \<Rightarrow> placer_state \<Rightarrow> int \<Rightarrow> vpr_error + nat inner_loop_state" where
  "demo_quench safe alg script move_lim s moves =
     placement_inner_loop (demo_opts alg) (scripted_env (Fin 0) script) demo_criticality_update
       (Fin 0) demo_prev_inverse_costs (Fin 3) move_lim (Fin 1) 1 (demo_loop safe s moves)"

text \<open>A state whose cached timing costs of the connections and of the nets are stale.\<close>

definition demo_stale_state :: placer_state where
  "demo_stale_state =
     demo_state\<lparr>connection_timing_cost := (\<lambda>n k. Fin 0), net_timing_cost := (\<lambda>n. Fin 0)\<rparr>"

section \<open>Properties of the annealing helpers\<close>

lemma fp_le_zero_iff: "(d \<le> Fin 0) = (\<exists>r. d = Fin r \<and> r \<le> 0)"
  by (cases d) auto

lemma std_clamp_Fin: "std_max (std_min (Fin a) (Fin b)) (Fin 1) = Fin (max 1 (min a b))"
  by (auto simp: std_min_def std_max_def max_def min_def)

lemma unat_max_minus_one:
  fixes W H :: "64 word"
  assumes "W \<noteq> 0" and "H \<noteq> 0"
  shows "unat (max (W - 1) (H - 1)) = max (unat W) (unat H) - 1"
  using assms by (auto simp: max_def word_le_nat_alt unat_minus_one)

text \<open>
  Claim C1. For every call of \<^verbatim>\<open>assess_swap(delta_c, t)\<close>: if \<open>delta_c \<le> 0\<close> the result
  is ACCEPTED; otherwise, if \<open>t = 0\<close>, it is REJECTED; otherwise one random number is drawn
  from the generator for this call, and the result is ACCEPTED if and only if
  \<open>exp (- delta_c / t)\<close> is strictly greater than that number, and REJECTED otherwise.
  In the first two cases nothing is drawn.
\<close>

theorem assess_swap_metropolis:
  "assess_swap env delta_c t e =
     (if delta_c \<le> Fin 0 then (ACCEPTED, e)
      else if t = Fin 0 then (REJECTED, e)
      else (if fst (frand env e) < fp_exp (- delta_c / t) then ACCEPTED else REJECTED,
            snd (frand env e)))"
  by (simp add: assess_swap_def Let_def split: prod.splits)

theorem assess_swap_metropolis_witness:
  "assess_swap (scripted_env (Fin 0) (\<lambda>i. (ABORT, []))) (Fin (- 1)) (Fin 2) 0 = (ACCEPTED, 0)
   \<and> assess_swap (scripted_env (Fin 0) (\<lambda>i. (ABORT, []))) (Fin 1) (Fin 0) 0 = (REJECTED, 0)
   \<and> assess_swap (scripted_env (Fin 0) (\<lambda>i. (ABORT, []))) (Fin 1) (Fin 2) 0 = (ACCEPTED, 1)
   \<and> assess_swap (scripted_env (Fin 1) (\<lambda>i. (ABORT, []))) (Fin 1) (Fin 2) 0 = (REJECTED, 1)
   \<and> assess_swap (scripted_env (Fin 0) (\<lambda>i. (ABORT, []))) NaN (Fin 2) 0 = (REJECTED, 1)"
  using assess_swap_metropolis [of "scripted_env (Fin 0) (\<lambda>i. (ABORT, []))" "Fin (- 1)" "Fin 2" 0]
        assess_swap_metropolis [of "scripted_env (Fin 0) (\<lambda>i. (ABORT, []))" "Fin 1" "Fin 0" 0]
        assess_swap_metropolis [of "scripted_env (Fin 0) (\<lambda>i. (ABORT, []))" "Fin 1" "Fin 2" 0]
        assess_swap_metropolis [of "scripted_env (Fin 1) (\<lambda>i. (ABORT, []))" "Fin 1" "Fin 2" 0]
        assess_swap_metropolis [of "scripted_env (Fin 0) (\<lambda>i. (ABORT, []))" NaN "Fin 2" 0]
  by (simp add: scripted_env_def)

lemma update_annealing_state_dusty_rlim:
  "update_annealing_state_dusty state success_rat t_exit sched = r \<Longrightarrow>
     state_rlim (case r of Inl u \<Rightarrow> u | Inr u \<Rightarrow> u) = state_rlim state"
  by (auto simp: update_annealing_state_dusty_def Let_def split: if_splits)

lemma update_annealing_state_auto_rlim:
  "update_annealing_state_auto state success_rat t_exit = r \<Longrightarrow>
     state_rlim (case r of Inl u \<Rightarrow> u | Inr u \<Rightarrow> u) = state_rlim state"
  by (auto simp: update_annealing_state_auto_def Let_def split: if_splits)

lemma update_annealing_state_rlim_cases:
  "state_rlim (snd (update_annealing_state ctx state success_rat cs opts sched))
     = (if sched_type sched \<noteq> USER_SCHED
           \<and> fst (update_annealing_state ctx state success_rat cs opts sched)
        then update_rlim (state_rlim state) success_rat (grid ctx)
        else state_rlim state)"
proof (cases "sched_type sched = USER_SCHED")
  case True
  then show ?thesis by (simp add: update_annealing_state_def Let_def)
next
  case False
  define t_exit where "t_exit = Fin 0.005 * cost cs / Fin (real (length (nets (clb_nlist ctx))))"
  define r where "r = (if sched_type sched = DUSTY_SCHED
            then update_annealing_state_dusty state success_rat t_exit sched
            else update_annealing_state_auto state success_rat t_exit)"
  have rl: "state_rlim (case r of Inl u \<Rightarrow> u | Inr u \<Rightarrow> u) = state_rlim state"
    using update_annealing_state_dusty_rlim [OF refl, of state success_rat t_exit sched]
          update_annealing_state_auto_rlim [OF refl, of state success_rat t_exit]
    unfolding r_def by (simp split: if_splits)
  have u: "update_annealing_state ctx state success_rat cs opts sched =
            (case r of
               Inl state \<Rightarrow> (False, state)
             | Inr state \<Rightarrow>
                (let state = state\<lparr>state_rlim := update_rlim (state_rlim state) success_rat (grid ctx)\<rparr>;
                     state =
                       (if place_algorithm opts = PATH_TIMING_DRIVEN_PLACE
                        then state\<lparr>state_crit_exponent :=
                               (Fin 1 - (state_rlim state - FINAL_RLIM) * state_inverse_delta_rlim state)
                                 * (td_place_exp_last opts - td_place_exp_first opts)
                               + td_place_exp_first opts\<rparr>
                        else state)
                 in (True, state)))"
    using False unfolding update_annealing_state_def r_def t_exit_def Let_def by simp
  show ?thesis
  proof (cases r)
    case (Inl v)
    with rl False show ?thesis unfolding u by simp
  next
    case (Inr v)
    with rl False show ?thesis unfolding u by (simp add: Let_def)
  qed
qed

lemma update_rlim_Fin:
  assumes "width g \<noteq> 0" and "height g \<noteq> 0"
  shows "update_rlim (Fin r) (Fin q) g
           = Fin (max 1 (min (r * (1 - 0.44 + q)) (real (max (unat (width g)) (unat (height g)) - 1))))"
proof -
  have u: "unat (max (width g - 1) (height g - 1)) = max (unat (width g)) (unat (height g)) - 1"
    using assms by (rule unat_max_minus_one)
  show ?thesis unfolding update_rlim_def Let_def u by (simp add: std_clamp_Fin)
qed

lemma calc_placer_stats_success_rat:
  "move_lim \<noteq> 0 \<Longrightarrow> fst (snd (calc_placer_stats stats cs move_lim))
     = Fin (real_of_int (success_sum stats) / real_of_int move_lim)"
  by (simp add: calc_placer_stats_def Let_def)

lemma outer_loop_update_eq:
  "outer_loop_update ctx opts sched stats cs state
     = update_annealing_state ctx state
         (fst (snd (calc_placer_stats stats cs (state_move_lim state)))) cs opts sched"
  by (simp add: outer_loop_update_def split: prod.splits)

text \<open>
  Claim C6, as stated: after the statistics of each outer iteration the range limit becomes
  \<open>clamp (rlim * (1.56 - success_rat), 1, max (grid_width, grid_height) - 1)\<close>. The code
  multiplies by \<open>1 - 0.44 + success_rat\<close> instead: with \<open>rlim = 10\<close> and every move
  accepted on a 100 by 100 grid the new range limit is 15.6, not 5.6. Nor is the range
  limit updated after every outer iteration: under the USER schedule
  \<^verbatim>\<open>update_annealing_state\<close> returns before it calls \<^verbatim>\<open>update_rlim\<close>, and so it does
  under the AUTO schedule when the temperature has fallen below the exit temperature; in
  both cases a range limit of 5 stays 5 on a 10 by 10 grid with every move accepted, where
  the claimed formula gives 2.8.
\<close>

theorem update_rlim_spec_counterexample:
  "update_rlim (Fin 10) (Fin 1) \<lparr>width = 100, height = 100\<rparr> = Fin 15.6
   \<and> Fin (spec_update_rlim 10 1 100 100) = Fin 5.6
   \<and> update_rlim (Fin 10) (Fin 1) \<lparr>width = 100, height = 100\<rparr>
       \<noteq> Fin (spec_update_rlim 10 1 100 100)
   \<and> state_rlim (demo_annealing_state (Fin 1)) = Fin 5
   \<and> fst (outer_loop_update (demo_ctx True) (demo_opts BOUNDING_BOX_PLACE) (demo_sched USER_SCHED)
             (demo_stats 100) demo_costs (demo_annealing_state (Fin 1)))
   \<and> state_rlim (snd (outer_loop_update (demo_ctx True) (demo_opts BOUNDING_BOX_PLACE)
                        (demo_sched USER_SCHED) (demo_stats 100) demo_costs
                        (demo_annealing_state (Fin 1)))) = Fin 5
   \<and> Fin (spec_update_rlim 5 1 10 10) = Fin 2.8
   \<and> \<not> fst (outer_loop_update (demo_ctx True) (demo_opts BOUNDING_BOX_PLACE) (demo_sched AUTO_SCHED)
             (demo_stats 100) demo_costs (demo_annealing_state (Fin 0)))
   \<and> state_rlim (snd (outer_loop_update (demo_ctx True) (demo_opts BOUNDING_BOX_PLACE)
                        (demo_sched AUTO_SCHED) (demo_stats 100) demo_costs
                        (demo_annealing_state (Fin 0)))) = Fin 5"
proof -
  have 1: "update_rlim (Fin 10) (Fin 1) \<lparr>width = 100, height = 100\<rparr> = Fin 15.6
   \<and> Fin (spec_update_rlim 10 1 100 100) = Fin 5.6
   \<and> update_rlim (Fin 10) (Fin 1) \<lparr>width = 100, height = 100\<rparr>
       \<noteq> Fin (spec_update_rlim 10 1 100 100)"
    by (simp add: update_rlim_def spec_update_rlim_def std_min_def std_max_def)
  have 2: "state_rlim (demo_annealing_state (Fin 1)) = Fin 5" by (simp add: demo_annealing_state_def)
  have 3: "fst (outer_loop_update (demo_ctx True) (demo_opts BOUNDING_BOX_PLACE) (demo_sched USER_SCHED)
             (demo_stats 100) demo_costs (demo_annealing_state (Fin 1)))" by code_simp
  have 4: "state_rlim (snd (outer_loop_update (demo_ctx True) (demo_opts BOUNDING_BOX_PLACE)
                        (demo_sched USER_SCHED) (demo_stats 100) demo_costs
                        (demo_annealing_state (Fin 1)))) = Fin 5" by code_simp
  have 5: "Fin (spec_update_rlim 5 1 10 10) = Fin 2.8"
    by (simp add: spec_update_rlim_def)
  have 6: "\<not> fst (outer_loop_update (demo_ctx True) (demo_opts BOUNDING_BOX_PLACE) (demo_sched AUTO_SCHED)
             (demo_stats 100) demo_costs (demo_annealing_state (Fin 0)))" by code_simp
  have 7: "state_rlim (snd (outer_loop_update (demo_ctx True) (demo_opts BOUNDING_BOX_PLACE)
                        (demo_sched AUTO_SCHED) (demo_stats 100) demo_costs
                        (demo_annealing_state (Fin 0)))) = Fin 5" by code_simp
  show ?thesis using 1 2 3 4 5 6 7 by simp
qed

text \<open>
  Claim C6, amended. At the end of an outer iteration the success ratio is the number of
  accepted moves divided by the move limit (for a move limit other than 0), and
  \<^verbatim>\<open>update_annealing_state\<close> is called with it. That function leaves the range limit as
  it is under the USER schedule and whenever it returns false (the annealing is finished);
  under the other schedules, when it returns true, the new range limit is that of
  \<^verbatim>\<open>update_rlim\<close>: \<open>rlim * (1 - 0.44 + success_rat)\<close>, that is
  \<open>rlim * (0.56 + success_rat)\<close>, clamped to at most \<open>max (grid_width, grid_height) - 1\<close>
  and then to at least 1 (for a grid of width and height other than 0).
\<close>

theorem outer_loop_update_rlim:
  "outer_loop_update ctx opts sched stats cs state
     = update_annealing_state ctx state
         (fst (snd (calc_placer_stats stats cs (state_move_lim state)))) cs opts sched
   \<and> (state_move_lim state \<noteq> 0 \<longrightarrow>
         fst (snd (calc_placer_stats stats cs (state_move_lim state)))
           = Fin (real_of_int (success_sum stats) / real_of_int (state_move_lim state)))
   \<and> state_rlim (snd (update_annealing_state ctx state success_rat cs opts sched))
       = (if sched_type sched \<noteq> USER_SCHED
             \<and> fst (update_annealing_state ctx state success_rat cs opts sched)
          then update_rlim (state_rlim state) success_rat (grid ctx)
          else state_rlim state)
   \<and> (width g \<noteq> 0 \<and> height g \<noteq> 0 \<longrightarrow>
         update_rlim (Fin r) (Fin q) g
           = Fin (max 1 (min (r * (1 - 0.44 + q))
                             (real (max (unat (width g)) (unat (height g)) - 1)))))"
  using outer_loop_update_eq [of ctx opts sched stats cs state]
        calc_placer_stats_success_rat [of "state_move_lim state" stats cs]
        update_annealing_state_rlim_cases [of ctx state success_rat cs opts sched]
        update_rlim_Fin [of g r q]
  by blast

theorem outer_loop_update_rlim_witness:
  "fst (outer_loop_update (demo_ctx True) (demo_opts BOUNDING_BOX_PLACE) (demo_sched AUTO_SCHED)
          (demo_stats 50) demo_costs (demo_annealing_state (Fin 1)))
   \<and> state_rlim (snd (outer_loop_update (demo_ctx True) (demo_opts BOUNDING_BOX_PLACE)
                        (demo_sched AUTO_SCHED) (demo_stats 50) demo_costs
                        (demo_annealing_state (Fin 1)))) = Fin 5.3
   \<and> state_rlim (snd (outer_loop_update (demo_ctx True) (demo_opts BOUNDING_BOX_PLACE)
                        (demo_sched USER_SCHED) (demo_stats 50) demo_costs
                        (demo_annealing_state (Fin 1)))) = Fin 5
   \<and> update_rlim (Fin 10) (Fin (1 / 2)) \<lparr>width = 100, height = 40\<rparr> = Fin 10.6"
proof -
  let ?C = "demo_ctx True" and ?O = "demo_opts BOUNDING_BOX_PLACE"
  let ?A = "demo_sched AUTO_SCHED" and ?U = "demo_sched USER_SCHED"
  let ?S = "demo_annealing_state (Fin 1)"
  let ?q = "fst (snd (calc_placer_stats (demo_stats 50) demo_costs (state_move_lim ?S)))"
  note w = outer_loop_update_rlim [of ?C ?O ?A "demo_stats 50" demo_costs ?S ?q
                                      "\<lparr>width = 100, height = 40\<rparr>" 10 "1 / 2"]
  note u = outer_loop_update_rlim [of ?C ?O ?U "demo_stats 50" demo_costs ?S ?q]
  have ml: "state_move_lim ?S \<noteq> 0" by (simp add: demo_annealing_state_def)
  have q: "?q = Fin (1 / 2)"
    using w [THEN conjunct2, THEN conjunct1, rule_format, OF ml]
    by (simp add: demo_stats_def demo_annealing_state_def)
  have c: "fst (outer_loop_update ?C ?O ?A (demo_stats 50) demo_costs ?S)" by code_simp
  have g: "width (grid ?C) \<noteq> 0 \<and> height (grid ?C) \<noteq> 0" by (simp add: demo_ctx_def)
  have na: "sched_type ?A \<noteq> USER_SCHED" and su: "sched_type ?U = USER_SCHED"
    by (simp_all add: demo_sched_def)
  have r5: "state_rlim ?S = Fin 5" by (simp add: demo_annealing_state_def)
  have a: "state_rlim (snd (outer_loop_update ?C ?O ?A (demo_stats 50) demo_costs ?S))
             = update_rlim (Fin 5) (Fin (1 / 2)) (grid ?C)"
    using w [THEN conjunct2, THEN conjunct2, THEN conjunct1] c na
    unfolding w [THEN conjunct1] q r5 by simp
  have f: "update_rlim (Fin 5) (Fin (1 / 2)) (grid ?C) = Fin 5.3"
    using outer_loop_update_rlim [of ?C ?O ?A "demo_stats 50" demo_costs ?S ?q "grid ?C" 5 "1 / 2",
            THEN conjunct2, THEN conjunct2, THEN conjunct2, rule_format, OF g]
    by (simp add: demo_ctx_def)
  have b: "state_rlim (snd (outer_loop_update ?C ?O ?U (demo_stats 50) demo_costs ?S)) = Fin 5"
    using u [THEN conjunct2, THEN conjunct2, THEN conjunct1] su
    unfolding u [THEN conjunct1] r5 by simp
  have d: "update_rlim (Fin 10) (Fin (1 / 2)) \<lparr>width = 100, height = 40\<rparr> = Fin 10.6"
    using w [THEN conjunct2, THEN conjunct2, THEN conjunct2] by simp
  show ?thesis using c a f b d by simp
qed

section \<open>Properties of the bounding-box cost\<close>

lemma fold_cond_sum:
  fixes f :: "'a \<Rightarrow> fp"
  shows "fold (\<lambda>n c. if P n then c + f n else c) xs a = a + sum_list (map f (filter P xs))"
  by (induction xs arbitrary: a) (simp_all add: add.assoc)

text \<open>
  Claim C3. For every net (the function does not look at the ignored flag) with bounding box
  \<open>bb\<close>, \<^verbatim>\<open>get_net_cost\<close> returns
  \<open>(xmax - xmin + 1) * crossing * chanx_place_cost_fac[ymax][ymin - 1]
   + (ymax - ymin + 1) * crossing * chany_place_cost_fac[xmax][xmin - 1]\<close>,
  where \<open>crossing\<close> is the crossing count of the net's number of pins (at least one):
  the entry \<open>pin count - 1\<close> of the 50-entry table \<open>cross_count\<close> for 1 to 50 pins, and
  \<open>2.7933 + 0.02616 * (pin count - 50)\<close> for more than 50 pins.
\<close>

theorem get_net_cost_formula:
  "get_net_cost ctx net_id bb =
     Fin (of_int (xmax bb - xmin bb + 1))
       * wirelength_crossing_count (length (net_pins (clb_nlist ctx) net_id))
       * chanx_place_cost_fac ctx (ymax bb) (ymin bb - 1)
     + Fin (of_int (ymax bb - ymin bb + 1))
       * wirelength_crossing_count (length (net_pins (clb_nlist ctx) net_id))
       * chany_place_cost_fac ctx (xmax bb) (xmin bb - 1)
   \<and> 1 \<le> length (net_pins (clb_nlist ctx) net_id)
   \<and> (\<forall>f. 1 \<le> f \<and> f \<le> 50 \<longrightarrow> wirelength_crossing_count f = Fin (cross_count ! (f - 1)))
   \<and> (\<forall>f. 50 < f \<longrightarrow> wirelength_crossing_count f = Fin (2.7933 + 0.02616 * (real f - 50)))
   \<and> length cross_count = 50"
  by (simp add: get_net_cost_def Let_def net_pins_def wirelength_crossing_count_def cross_count_def)

theorem get_net_cost_formula_witness:
  "get_net_cost (demo_ctx True) 0 (bb_of 1 5 1 5) = Fin 11.536
   \<and> length (net_pins (clb_nlist (demo_ctx True)) 0) = 5
   \<and> wirelength_crossing_count 5 = Fin 1.1536
   \<and> wirelength_crossing_count 60 = Fin 3.0549"
proof -
  note w = get_net_cost_formula [of "demo_ctx True" 0 "bb_of 1 5 1 5"]
  have n: "length (net_pins (clb_nlist (demo_ctx True)) 0) = 5"
    by (simp add: demo_ctx_def demo_nlist_def net_pins_def)
  have t: "cross_count ! 4 = 1.1536" by (simp add: cross_count_def)
  from w have c5: "wirelength_crossing_count 5 = Fin (cross_count ! (5 - 1))" by simp
  from w have c60: "wirelength_crossing_count 60 = Fin (2.7933 + 0.02616 * (real 60 - 50))"
    by simp
  from w have "get_net_cost (demo_ctx True) 0 (bb_of 1 5 1 5)
      = Fin 5 * wirelength_crossing_count 5 * Fin 1 + Fin 5 * wirelength_crossing_count 5 * Fin 1"
    unfolding n by (simp add: demo_ctx_def bb_of_def)
  with c5 c60 t n show ?thesis by simp
qed

text \<open>
  Claim C10. \<^verbatim>\<open>recompute_bb_cost\<close> returns the sum of the committed per-net costs
  \<open>net_cost\<close> over the nets that are not ignored. It is a function of the state that
  returns a number only, so it modifies nothing; and it recomputes nothing from the
  placement: its result is the same whatever the block locations, the bounding boxes and
  the running totals are.
\<close>

theorem recompute_bb_cost_sum:
  "recompute_bb_cost ctx s
     = sum_list (map (net_cost s)
         (filter (\<lambda>n. \<not> net_is_ignored (clb_nlist ctx) n) (nets (clb_nlist ctx))))
   \<and> recompute_bb_cost ctx
         (s\<lparr>block_locs := locs, bb_coords := bc, bb_num_on_edges := be, costs := cs\<rparr>)
     = recompute_bb_cost ctx s"
  unfolding recompute_bb_cost_def by (simp add: fold_cond_sum zero_fp_def [symmetric])

theorem recompute_bb_cost_sum_witness:
  "recompute_bb_cost (demo_ctx True) demo_state = net_cost demo_state 0 + net_cost demo_state 1
   \<and> recompute_bb_cost (demo_ctx True) demo_state = Fin 17.536"
proof -
  from recompute_bb_cost_sum [of "demo_ctx True" demo_state]
  have "recompute_bb_cost (demo_ctx True) demo_state
          = net_cost demo_state 0 + (net_cost demo_state 1 + 0)"
    by (simp add: demo_ctx_def demo_nlist_def)
  moreover have "net_cost demo_state 0 = Fin 11.536" and "net_cost demo_state 1 = Fin 6"
    by code_simp+
  ultimately show ?thesis by (simp add: zero_fp_def)
qed

section \<open>Loops\<close>

lemma foldM_err_inv:
  assumes "foldM_err f as s = Inr s'" and "P s"
    and "\<And>a u u'. a \<in> set as \<Longrightarrow> P u \<Longrightarrow> f a u = Inr u' \<Longrightarrow> P u'"
  shows "P s'"
  using assms
proof (induction as arbitrary: s)
  case Nil
  then show ?case by simp
next
  case (Cons a as)
  from Cons.prems(1) obtain u where fa: "f a s = Inr u" and rest: "foldM_err f as u = Inr s'"
    by (auto split: sum.splits)
  have pu: "P u" using Cons.prems(3) [of a s u] Cons.prems(2) fa by simp
  show ?case by (rule Cons.IH [OF rest pu]) (use Cons.prems(3) in auto)
qed

lemma fold_inv:
  assumes "P s" and "\<And>a u. a \<in> set as \<Longrightarrow> P u \<Longrightarrow> P (f a u)"
  shows "P (fold f as s)"
  using assms by (induction as arbitrary: s) auto

section \<open>The cost totals during a trial\<close>

lemma costs_set_coord_new [simp]: "costs (set_coord_new n f s) = costs s"
  by (simp add: set_coord_new_def)
lemma costs_set_edge_new [simp]: "costs (set_edge_new n f s) = costs s"
  by (simp add: set_edge_new_def)
lemma costs_scratch [simp]: "costs (bb_from_scratch_into_new ctx n s) = costs s"
  by (simp add: bb_from_scratch_into_new_def split: prod.splits)

lemma costs_update_bb_x: "update_bb_x ctx src n xo xn s = r \<Longrightarrow> costs (case r of Inl u \<Rightarrow> u | Inr u \<Rightarrow> u) = costs s"
  by (auto simp: update_bb_x_def Let_def split: if_splits)
lemma costs_update_bb_y: "update_bb_y ctx src n xo xn s = r \<Longrightarrow> costs (case r of Inl u \<Rightarrow> u | Inr u \<Rightarrow> u) = costs s"
  by (auto simp: update_bb_y_def Let_def split: if_splits)

lemma costs_update_bb [simp]: "costs (update_bb ctx n xo yo xn yn s) = costs s"
  unfolding update_bb_def Let_def
  by (auto split: sum.splits prod.splits if_splits dest!: costs_update_bb_x costs_update_bb_y)

lemma costs_update_net_bb [simp]: "costs (update_net_bb ctx n mb p s) = costs s"
  by (simp add: update_net_bb_def)

lemma costs_record_affected_net: "costs (fst (record_affected_net n sn)) = costs (fst sn)"
  by (cases sn) (simp add: record_affected_net_def)

lemma costs_update_td_delta_connection:
  "update_td_delta_connection ctx n k p sd = Inr sd' \<Longrightarrow> costs (fst sd') = costs (fst sd)"
  by (cases sd) (auto simp: update_td_delta_connection_def Let_def split: sum.splits)

lemma costs_update_td_delta_costs:
  assumes "update_td_delta_costs ctx n p sd = Inr sd'"
  shows "costs (fst sd') = costs (fst sd)"
proof (cases sd)
  case (Pair s d)
  show ?thesis
  proof (cases "pin_type (clb_nlist ctx) p = DRIVER")
    case True
    with assms Pair have f: "foldM_err (\<lambda>ipin. update_td_delta_connection ctx n ipin (net_pin (clb_nlist ctx) n ipin))
         [1..<length (net_pins (clb_nlist ctx) n)] sd = Inr sd'"
      by (simp add: update_td_delta_costs_def Let_def)
    show ?thesis
      by (rule foldM_err_inv [OF f, where P = "\<lambda>u. costs (fst u) = costs (fst sd)"])
         (auto dest: costs_update_td_delta_connection)
  next
    case False
    with assms Pair show ?thesis
      by (auto simp: update_td_delta_costs_def Let_def split: if_splits dest: costs_update_td_delta_connection)
  qed
qed

lemma costs_find_affected_pin_step:
  assumes "find_affected_pin_step ctx alg mb p st = Inr st'"
  shows "costs (fst st') = costs (fst st)"
  using assms
  by (cases st) (auto simp: find_affected_pin_step_def Let_def record_affected_net_def
        split: if_splits sum.splits prod.splits dest!: costs_update_td_delta_costs)

lemma costs_find_affected_block_step:
  assumes "find_affected_block_step ctx alg mb st = Inr st'"
  shows "costs (fst st') = costs (fst st)"
  using assms unfolding find_affected_block_step_def
  by (rule foldM_err_inv [where P = "\<lambda>u. costs (fst u) = costs (fst st)"])
     (auto dest: costs_find_affected_pin_step)

lemma costs_proposed_net_cost_step: "costs (fst (proposed_net_cost_step ctx i sb)) = costs (fst sb)"
  by (cases sb) (simp add: proposed_net_cost_step_def Let_def)

lemma costs_find_affected_nets:
  assumes "find_affected_nets_and_update_costs ctx alg s = Inr (s', n, b, d)"
  shows "costs s' = costs s"
proof -
  from assms obtain s1 n1 d1 where
    l1: "foldM_err (find_affected_block_step ctx alg) (moved_blocks (blocks_affected s)) (s, 0, Fin 0) = Inr (s1, n1, d1)"
    and l2: "fst (fold (proposed_net_cost_step ctx) [0..<n1] (s1, Fin 0)) = s'"
    by (auto simp: find_affected_nets_and_update_costs_def Let_def split: sum.splits prod.splits)
  have c1: "costs (fst (s1, n1, d1)) = costs s"
    by (rule foldM_err_inv [OF l1, where P = "\<lambda>u. costs (fst u) = costs s"])
       (auto dest: costs_find_affected_block_step)
  have "costs (fst (fold (proposed_net_cost_step ctx) [0..<n1] (s1, Fin 0))) = costs s1"
    by (rule fold_inv [where P = "\<lambda>u. costs (fst u) = costs s1"]) (simp_all add: costs_proposed_net_cost_step)
  with c1 l2 show ?thesis by simp
qed


lemma costs_commit_td_connection [simp]: "costs (commit_td_connection n k s) = costs s"
  by (simp add: commit_td_connection_def Let_def)

lemma costs_commit_td_pin [simp]: "costs (commit_td_pin ctx p s) = costs s"
  unfolding commit_td_pin_def Let_def
  by (auto intro!: fold_inv [where P = "\<lambda>u. costs u = costs s"])

lemma costs_commit_td_cost [simp]: "costs (commit_td_cost ctx s) = costs s"
  unfolding commit_td_cost_def
  by (intro fold_inv [where P = "\<lambda>u. costs u = costs s"]) auto

lemma costs_update_move_nets [simp]: "costs (update_move_nets ctx n s) = costs s"
  unfolding update_move_nets_def
  by (intro fold_inv [where P = "\<lambda>u. costs u = costs s"])
     (auto simp: update_move_net_def Let_def)

lemma costs_reset_move_nets [simp]: "costs (reset_move_nets n s) = costs s"
  unfolding reset_move_nets_def
  by (intro fold_inv [where P = "\<lambda>u. costs u = costs s"])
     (auto simp: reset_move_net_def Let_def)

lemma costs_revert_td_cost [simp]: "costs (revert_td_cost ctx s) = costs s"
  unfolding revert_td_cost_def
  by (auto intro!: fold_inv [where P = "\<lambda>u. costs u = costs s"] simp: revert_td_pin_def Let_def)

lemma cost_try_swap_accepted:
  "cost (costs (try_swap_accepted ctx opts n delta_c b d s)) = cost (costs s) + delta_c"
  by (simp add: try_swap_accepted_def Let_def invalidate_affected_connection_delays_def)

lemma cost_try_swap_rejected:
  "costs (try_swap_rejected ctx opts n s) = costs s"
  by (simp add: try_swap_rejected_def Let_def revert_move_blocks_def)

lemma assess_swap_zero_temp:
  "assess_swap env delta_c (Fin 0) e = (if delta_c \<le> Fin 0 then (ACCEPTED, e) else (REJECTED, e))"
  by (simp add: assess_swap_def)

lemma Inr_projr: "\<not> isl r \<Longrightarrow> r = Inr (fst (projr r), fst (snd (projr r)), snd (snd (projr r)))"
  by (cases r) auto

section \<open>The starting temperature\<close>

lemma sum_list_Fin: "sum_list (map Fin rs) = Fin (sum_list rs)"
  by (induction rs) (simp_all add: zero_fp_def)

lemma sum_list_sq_Fin: "sum_list (map ((\<lambda>x. x * x) \<circ> Fin) rs) = Fin (sum_list (map (\<lambda>x. x * x) rs))"
  by (induction rs) (simp_all add: zero_fp_def)

lemma get_std_dev_Fin:
  "get_std_dev (int (length rs)) (Fin (sum_list (map (\<lambda>x. x * x) rs)))
      (if rs \<noteq> [] then Fin (sum_list rs / real (length rs)) else Fin 0)
     = Fin (spec_std_dev rs)"
  by (auto simp: get_std_dev_def spec_std_dev_def Let_def max_def not_less)

lemma starting_t_trial_eq:
  "starting_t_trial ctx opts env prev rlim (s, e, k, av, sq)
     = (case try_swap ctx opts env HUGE_POSITIVE_FLOAT prev rlim (s, e) of
          Inl err \<Rightarrow> Inl err
        | Inr (r, s1, e1) \<Rightarrow>
            Inr (s1, e1, k + int (length (if r = ACCEPTED then [cost (costs s1)] else [])),
                 av + sum_list (if r = ACCEPTED then [cost (costs s1)] else []),
                 sq + sum_list (map (\<lambda>x. x * x) (if r = ACCEPTED then [cost (costs s1)] else []))))"
  by (auto simp: starting_t_trial_def split: sum.splits prod.splits)

lemma starting_t_loop:
  "foldM_err (\<lambda>i. starting_t_trial ctx opts env prev rlim) is (s, e, k, av, sq)
     = (case accepted_costs ctx opts env prev rlim (length is) (s, e) of
          Inl err \<Rightarrow> Inl err
        | Inr (cs, s', e') \<Rightarrow>
            Inr (s', e', k + int (length cs), av + sum_list cs, sq + sum_list (map (\<lambda>x. x * x) cs)))"
proof (induction "is" arbitrary: s e k av sq)
  case Nil
  show ?case by simp
next
  case (Cons i "is")
  show ?case
  proof (cases "try_swap ctx opts env HUGE_POSITIVE_FLOAT prev rlim (s, e)")
    case (Inl err)
    then show ?thesis by (simp add: starting_t_trial_eq)
  next
    case (Inr r)
    obtain res s1 e1 where r: "r = (res, s1, e1)" by (cases r)
    show ?thesis
      using Inr unfolding r
      by (simp add: starting_t_trial_eq Cons.IH add.assoc split: sum.splits prod.splits)
  qed
qed

lemma get_std_dev_clamped:
  "get_std_dev n (Fin sq) (Fin av)
     = Fin (if n \<le> 1 then 0
            else sqrt (max 0 ((sq - real_of_int n * av * av) / real_of_int (n - 1))))"
  by (auto simp: get_std_dev_def Let_def max_def not_less)

lemma get_std_dev_zero:
  "n \<le> 1 \<or> isnan sq \<or> isnan av \<Longrightarrow> get_std_dev n sq av = Fin 0"
  by (cases sq; cases av) (auto simp: get_std_dev_def Let_def)

lemma starting_t_get_std_dev:
  assumes "sched_type sched \<noteq> USER_SCHED"
  shows "starting_t ctx opts env sched max_moves prev rlim (s, e) =
     (case accepted_costs ctx opts env prev rlim
             (nat (min max_moves (int (length (blocks (clb_nlist ctx)))))) (s, e) of
        Inl err \<Rightarrow> Inl err
      | Inr (cs, s', e') \<Rightarrow>
          Inr (Fin 20 * get_std_dev (int (length cs)) (sum_list (map (\<lambda>x. x * x) cs))
                          (if cs \<noteq> [] then sum_list cs / Fin (real (length cs)) else Fin 0),
               s', e'))"
  using assms
  by (auto simp: starting_t_def Let_def starting_t_loop zero_fp_def [symmetric] split: sum.splits)

text \<open>
  Claim C8. Under the USER schedule \<^verbatim>\<open>starting_t\<close> returns the user's \<open>init_t\<close> and runs
  no trial. Under every other schedule it runs \<open>min (max_moves, number of blocks)\<close>
  trials of \<^verbatim>\<open>try_swap\<close> at the huge temperature (an error of a trial is the error of
  \<^verbatim>\<open>starting_t\<close>) and returns 20 times the guarded standard deviation of the cost values
  after the accepted trials: 0 for at most one sample, else the square root of
  \<open>(sum of squares - n * average\<^sup>2) / (n - 1)\<close> with a negative value clamped to 0.
  The deviation is the one \<^verbatim>\<open>get_std_dev\<close> computes from the number of accepted trials,
  the sum of the squares of their costs and their average cost; on any numbers \<open>n\<close>,
  \<open>sq\<close> and \<open>av\<close>, \<^verbatim>\<open>get_std_dev\<close> returns 0 for \<open>n \<le> 1\<close> and otherwise the square
  root of \<open>(sq - n * av\<^sup>2) / (n - 1)\<close>, with 0 in place of a negative value; it also
  returns 0 when an argument is not a number.
\<close>

theorem starting_t_spec:
  "(sched_type sched = USER_SCHED \<longrightarrow>
      starting_t ctx opts env sched max_moves prev rlim (s, e) = Inr (init_t sched, s, e))
   \<and> (sched_type sched \<noteq> USER_SCHED \<longrightarrow>
         (\<forall>err. accepted_costs ctx opts env prev rlim
                  (nat (min max_moves (int (length (blocks (clb_nlist ctx)))))) (s, e) = Inl err
              \<longrightarrow> starting_t ctx opts env sched max_moves prev rlim (s, e) = Inl err)
       \<and> (\<forall>rs s' e'. accepted_costs ctx opts env prev rlim
                  (nat (min max_moves (int (length (blocks (clb_nlist ctx)))))) (s, e)
                = Inr (map Fin rs, s', e')
              \<longrightarrow> starting_t ctx opts env sched max_moves prev rlim (s, e)
                    = Inr (Fin (20 * spec_std_dev rs), s', e')))
   \<and> (sched_type sched \<noteq> USER_SCHED \<longrightarrow>
         starting_t ctx opts env sched max_moves prev rlim (s, e) =
           (case accepted_costs ctx opts env prev rlim
                   (nat (min max_moves (int (length (blocks (clb_nlist ctx)))))) (s, e) of
              Inl err \<Rightarrow> Inl err
            | Inr (cs, s', e') \<Rightarrow>
                Inr (Fin 20 * get_std_dev (int (length cs)) (sum_list (map (\<lambda>x. x * x) cs))
                                (if cs \<noteq> [] then sum_list cs / Fin (real (length cs)) else Fin 0),
                     s', e')))
   \<and> get_std_dev n (Fin sq) (Fin av)
       = Fin (if n \<le> 1 then 0
              else sqrt (max 0 ((sq - real_of_int n * av * av) / real_of_int (n - 1))))
   \<and> (n \<le> 1 \<or> isnan x \<or> isnan y \<longrightarrow> get_std_dev n x y = Fin 0)"
proof -
  have user: "starting_t ctx opts env sched max_moves prev rlim (s, e) = Inr (init_t sched, s, e)"
    if "sched_type sched = USER_SCHED"
    using that by (simp add: starting_t_def)
  have err: "starting_t ctx opts env sched max_moves prev rlim (s, e) = Inl err"
    if "sched_type sched \<noteq> USER_SCHED"
      and "accepted_costs ctx opts env prev rlim
             (nat (min max_moves (int (length (blocks (clb_nlist ctx)))))) (s, e) = Inl err"
    for err
    using that by (simp add: starting_t_def Let_def starting_t_loop)
  have ok: "starting_t ctx opts env sched max_moves prev rlim (s, e)
              = Inr (Fin (20 * spec_std_dev rs), s', e')"
    if "sched_type sched \<noteq> USER_SCHED"
      and "accepted_costs ctx opts env prev rlim
             (nat (min max_moves (int (length (blocks (clb_nlist ctx)))))) (s, e)
           = Inr (map Fin rs, s', e')"
    for rs s' e'
    using that get_std_dev_Fin [of rs]
    by (cases "rs = []") (simp_all add: starting_t_def Let_def starting_t_loop sum_list_Fin sum_list_sq_Fin)
  have gen: "sched_type sched \<noteq> USER_SCHED \<longrightarrow>
         starting_t ctx opts env sched max_moves prev rlim (s, e) =
           (case accepted_costs ctx opts env prev rlim
                   (nat (min max_moves (int (length (blocks (clb_nlist ctx)))))) (s, e) of
              Inl err \<Rightarrow> Inl err
            | Inr (cs, s', e') \<Rightarrow>
                Inr (Fin 20 * get_std_dev (int (length cs)) (sum_list (map (\<lambda>x. x * x) cs))
                                (if cs \<noteq> [] then sum_list cs / Fin (real (length cs)) else Fin 0),
                     s', e'))"
    by (rule impI) (rule starting_t_get_std_dev)
  have zero: "n \<le> 1 \<or> isnan x \<or> isnan y \<longrightarrow> get_std_dev n x y = Fin 0"
    by (rule impI) (rule get_std_dev_zero)
  have first: "(sched_type sched = USER_SCHED \<longrightarrow>
      starting_t ctx opts env sched max_moves prev rlim (s, e) = Inr (init_t sched, s, e))
   \<and> (sched_type sched \<noteq> USER_SCHED \<longrightarrow>
         (\<forall>err. accepted_costs ctx opts env prev rlim
                  (nat (min max_moves (int (length (blocks (clb_nlist ctx)))))) (s, e) = Inl err
              \<longrightarrow> starting_t ctx opts env sched max_moves prev rlim (s, e) = Inl err)
       \<and> (\<forall>rs s' e'. accepted_costs ctx opts env prev rlim
                  (nat (min max_moves (int (length (blocks (clb_nlist ctx)))))) (s, e)
                = Inr (map Fin rs, s', e')
              \<longrightarrow> starting_t ctx opts env sched max_moves prev rlim (s, e)
                    = Inr (Fin (20 * spec_std_dev rs), s', e')))"
    using user err ok by blast
  show ?thesis
    by (intro conjI first [THEN conjunct1] first [THEN conjunct2] gen zero get_std_dev_clamped)
qed


theorem starting_t_spec_witness:
  "starting_t (demo_ctx True) (demo_opts PATH_TIMING_DRIVEN_PLACE) (scripted_env (Fin 0) demo_two_moves)
       (demo_sched USER_SCHED) 2 demo_prev_inverse_costs (Fin 9) (demo_state, 0)
     = Inr (Fin 7, demo_state, 0)
   \<and> fst (projr (starting_t (demo_ctx True) (demo_opts PATH_TIMING_DRIVEN_PLACE) (scripted_env (Fin 0) demo_two_moves)
       (demo_sched AUTO_SCHED) 2 demo_prev_inverse_costs (Fin 9) (demo_state, 0)))
     = Fin (20 * spec_std_dev [12 / 13, 116667 / 142480])
   \<and> get_std_dev 3 (Fin 14) (Fin 2) = Fin 1
   \<and> get_std_dev 3 (Fin 1) (Fin 2) = Fin 0
   \<and> get_std_dev 1 (Fin 4) (Fin 2) = Fin 0
   \<and> get_std_dev 3 NaN (Fin 2) = Fin 0"
proof -
  let ?D = "demo_ctx True" and ?O = "demo_opts PATH_TIMING_DRIVEN_PLACE" and ?E = "scripted_env (Fin 0) demo_two_moves"
  let ?A = "accepted_costs ?D ?O ?E demo_prev_inverse_costs (Fin 9) 2 (demo_state, 0)"
  let ?U = "demo_sched USER_SCHED"
  let ?V = "demo_sched AUTO_SCHED"
  have n: "nat (min 2 (int (length (blocks (clb_nlist ?D))))) = 2"
    by (simp add: demo_ctx_def demo_nlist_def)
  have a: "\<not> isl ?A" by code_simp
  have c: "fst (projr ?A) = map Fin [12 / 13, 116667 / 142480]" by code_simp
  have h: "?A = Inr (map Fin [12 / 13, 116667 / 142480], fst (snd (projr ?A)), snd (snd (projr ?A)))"
    by (subst Inr_projr [OF a]) (simp only: c)
  have v: "sched_type ?V \<noteq> USER_SCHED" by (simp add: demo_sched_def)
  note t = starting_t_spec [of ?U ?D ?O ?E 2 demo_prev_inverse_costs "Fin 9" demo_state 0]
  note u = starting_t_spec [of ?V ?D ?O ?E 2 demo_prev_inverse_costs "Fin 9" demo_state 0,
      unfolded n, THEN conjunct2, THEN conjunct1, rule_format, OF v, THEN conjunct2, rule_format, OF h]
  have su: "sched_type ?U = USER_SCHED" "init_t ?U = Fin 7" by (simp_all add: demo_sched_def)
  from t [THEN conjunct1, rule_format, OF su(1)]
  have 1: "starting_t ?D ?O ?E ?U 2 demo_prev_inverse_costs (Fin 9) (demo_state, 0)
     = Inr (Fin 7, demo_state, 0)" by (simp only: su(2))
  note g = starting_t_spec [THEN conjunct2, THEN conjunct2, THEN conjunct2]
  have 2: "get_std_dev 3 (Fin 14) (Fin 2) = Fin 1"
    using g [THEN conjunct1, of 3 14 2] by simp
  have 3: "get_std_dev 3 (Fin 1) (Fin 2) = Fin 0"
    using g [THEN conjunct1, of 3 1 2] by simp
  have 4: "get_std_dev 1 (Fin 4) (Fin 2) = Fin 0"
    using g [THEN conjunct1, of 1 4 2] by simp
  have 5: "get_std_dev 3 NaN (Fin 2) = Fin 0"
    using g [THEN conjunct2, of 3 NaN "Fin 2"] by simp
  show ?thesis using 1 u 2 3 4 5 by simp
qed

section \<open>Recomputing the costs from scratch\<close>

lemma costs_comp_td_costs_connection:
  "comp_td_costs_connection ctx n k s = Inr s' \<Longrightarrow> costs s' = costs s"
  by (auto simp: comp_td_costs_connection_def split: sum.splits)

lemma costs_comp_td_costs_net:
  assumes "comp_td_costs_net ctx n s = Inr s'"
  shows "costs s' = costs s"
proof (cases "net_is_ignored (clb_nlist ctx) n")
  case True
  with assms show ?thesis by (simp add: comp_td_costs_net_def)
next
  case False
  with assms obtain u where
    f: "foldM_err (comp_td_costs_connection ctx n) [1..<length (net_pins (clb_nlist ctx) n)] s = Inr u"
    and s': "s' = u\<lparr>net_timing_cost := (net_timing_cost u)(n := sum_td_net_cost ctx u n)\<rparr>"
    by (auto simp: comp_td_costs_net_def split: sum.splits)
  have "costs u = costs s"
    by (rule foldM_err_inv [OF f, where P = "\<lambda>u. costs u = costs s"])
       (auto dest: costs_comp_td_costs_connection)
  with s' show ?thesis by simp
qed

lemma comp_td_costs_result:
  assumes "comp_td_costs ctx s = Inr (s', t)"
  shows "costs s' = costs s \<and> t = sum_td_costs ctx s'"
proof -
  from assms have f: "foldM_err (comp_td_costs_net ctx) (nets (clb_nlist ctx)) s = Inr s'"
    and t: "t = sum_td_costs ctx s'"
    by (auto simp: comp_td_costs_def split: sum.splits)
  have "costs s' = costs s"
    by (rule foldM_err_inv [OF f, where P = "\<lambda>u. costs u = costs s"])
       (auto dest: costs_comp_td_costs_net)
  with t show ?thesis by simp
qed

lemma comp_td_connection_cost_value:
  "comp_td_connection_cost ctx s net ipin = Inr v \<Longrightarrow> v = spec_connection_timing_cost ctx s net ipin"
  by (auto simp: comp_td_connection_cost_def spec_connection_timing_cost_def Let_def
           split: if_splits sum.splits)

lemma comp_td_connection_cost_unsafe:
  "\<not> VTR_ASSERT_SAFE_ENABLED ctx \<Longrightarrow>
     comp_td_connection_cost ctx s net ipin = Inr (spec_connection_timing_cost ctx s net ipin)"
  by (simp add: comp_td_connection_cost_def spec_connection_timing_cost_def)

lemma cost_view_fields:
  assumes "cost_view u = cost_view s"
  shows "block_locs u = block_locs s" "connection_delay u = connection_delay s"
    "proposed_connection_delay u = proposed_connection_delay s"
    "proposed_connection_timing_cost u = proposed_connection_timing_cost s"
  using assms by (simp_all add: cost_view_def)

lemma cost_view_cost:
  assumes "cost_view u = cost_view s"
  shows "comp_td_connection_cost ctx u = comp_td_connection_cost ctx s"
  unfolding comp_td_connection_cost_def cost_view_fields [OF assms] by (rule refl)

lemma cost_view_spec:
  assumes "cost_view u = cost_view s"
  shows "spec_connection_timing_cost ctx u = spec_connection_timing_cost ctx s"
  unfolding spec_connection_timing_cost_def cost_view_fields [OF assms] by (rule refl)

lemma comp_td_costs_connections:
  "foldM_err (comp_td_costs_connection ctx net) ks s =
     (if \<forall>k\<in>set ks. \<not> isl (comp_td_connection_cost ctx s net k)
      then Inr (s\<lparr>connection_timing_cost :=
                   (connection_timing_cost s)
                     (net := (\<lambda>k. if k \<in> set ks then spec_connection_timing_cost ctx s net k
                                   else connection_timing_cost s net k))\<rparr>)
      else Inl (projl (foldM_err (comp_td_costs_connection ctx net) ks s)))
   \<and> ((\<exists>k\<in>set ks. isl (comp_td_connection_cost ctx s net k))
        \<longrightarrow> isl (foldM_err (comp_td_costs_connection ctx net) ks s))"
proof (induction ks arbitrary: s)
  case Nil
  show ?case by simp
next
  case (Cons k ks)
  show ?case
  proof (cases "comp_td_connection_cost ctx s net k")
    case (Inl err)
    then show ?thesis by (simp add: comp_td_costs_connection_def)
  next
    case (Inr v)
    let ?u = "s\<lparr>connection_timing_cost :=
                 (connection_timing_cost s)(net := (connection_timing_cost s net)(k := v))\<rparr>"
    have v: "v = spec_connection_timing_cost ctx s net k"
      using Inr by (rule comp_td_connection_cost_value)
    have cv: "cost_view ?u = cost_view s" by (simp add: cost_view_def)
    have step: "comp_td_costs_connection ctx net k s = Inr ?u"
      using Inr by (simp add: comp_td_costs_connection_def)
    note ih = Cons.IH [of ?u, unfolded cost_view_cost [OF cv] cost_view_spec [OF cv]]
    show ?thesis
    proof (cases "\<forall>j\<in>set ks. \<not> isl (comp_td_connection_cost ctx s net j)")
      case True
      with ih have "foldM_err (comp_td_costs_connection ctx net) ks ?u =
          Inr (?u\<lparr>connection_timing_cost :=
                   (connection_timing_cost ?u)
                     (net := (\<lambda>j. if j \<in> set ks then spec_connection_timing_cost ctx s net j
                                   else connection_timing_cost ?u net j))\<rparr>)"
        by simp
      then show ?thesis using True Inr
        by (auto simp: step v fun_eq_iff)
    next
      case False
      with ih have "isl (foldM_err (comp_td_costs_connection ctx net) ks ?u)" by blast
      then show ?thesis using False Inr
        by (auto simp: step)
    qed
  qed
qed

lemma fold_add_sum:
  fixes f :: "'a \<Rightarrow> fp"
  shows "fold (\<lambda>k a. a + f k) ks z = z + sum_list (map f ks)"
  by (induction ks arbitrary: z) (simp_all add: add.assoc)

lemma sum_td_net_cost_sum:
  "sum_td_net_cost ctx s net
     = sum_list (map (connection_timing_cost s net) [1..<length (net_pins (clb_nlist ctx) net)])"
  by (simp add: sum_td_net_cost_def fold_add_sum zero_fp_def [symmetric])

lemma td_upd_cong:
  "F = F' \<Longrightarrow> G = G' \<Longrightarrow>
     (s :: placer_state)\<lparr>connection_timing_cost := F, net_timing_cost := G\<rparr>
       = s\<lparr>connection_timing_cost := F', net_timing_cost := G'\<rparr>"
  by simp

lemma td_upd_id:
  "F = connection_timing_cost s \<Longrightarrow> G = net_timing_cost s \<Longrightarrow>
     s\<lparr>connection_timing_cost := F, net_timing_cost := G\<rparr> = s"
  by simp

lemma spec_comp_td_costs_nets_ignored:
  "net_is_ignored (clb_nlist ctx) net \<Longrightarrow> spec_comp_td_costs_nets ctx [net] s = s"
  unfolding spec_comp_td_costs_nets_def
  by (rule td_upd_id) (auto simp: td_recomputed_def fun_eq_iff)

lemma comp_td_costs_net_eq:
  "(td_nets_pass ctx [net] s \<longrightarrow>
      comp_td_costs_net ctx net s = Inr (spec_comp_td_costs_nets ctx [net] s))
   \<and> (\<not> td_nets_pass ctx [net] s \<longrightarrow> isl (comp_td_costs_net ctx net s))"
proof (cases "net_is_ignored (clb_nlist ctx) net")
  case True
  then show ?thesis
    by (simp add: comp_td_costs_net_def td_nets_pass_def spec_comp_td_costs_nets_ignored)
next
  case False
  let ?ks = "[1..<length (net_pins (clb_nlist ctx) net)]"
  note l = comp_td_costs_connections [of ctx net ?ks s]
  show ?thesis
  proof (cases "td_nets_pass ctx [net] s")
    case True
    with False have p: "\<forall>k\<in>set ?ks. \<not> isl (comp_td_connection_cost ctx s net k)"
      by (simp add: td_nets_pass_def)
    let ?u = "s\<lparr>connection_timing_cost :=
                 (connection_timing_cost s)
                   (net := (\<lambda>k. if k \<in> set ?ks then spec_connection_timing_cost ctx s net k
                                 else connection_timing_cost s net k))\<rparr>"
    from l p have f: "foldM_err (comp_td_costs_connection ctx net) ?ks s = Inr ?u" by simp
    have sum: "sum_td_net_cost ctx ?u net = spec_net_timing_cost ctx s net"
      unfolding sum_td_net_cost_sum spec_net_timing_cost_def
      by (rule arg_cong [where f = sum_list], rule map_cong) simp_all
    have r: "comp_td_costs_net ctx net s
               = Inr (?u\<lparr>net_timing_cost := (net_timing_cost ?u)(net := spec_net_timing_cost ctx s net)\<rparr>)"
      using False f unfolding comp_td_costs_net_def sum [symmetric] by simp
    have "?u\<lparr>net_timing_cost := (net_timing_cost ?u)(net := spec_net_timing_cost ctx s net)\<rparr>
            = s\<lparr>connection_timing_cost :=
                   (connection_timing_cost s)
                     (net := (\<lambda>k. if k \<in> set ?ks then spec_connection_timing_cost ctx s net k
                                   else connection_timing_cost s net k)),
                 net_timing_cost := (net_timing_cost s)(net := spec_net_timing_cost ctx s net)\<rparr>"
      by simp
    also have "\<dots> = spec_comp_td_costs_nets ctx [net] s"
      unfolding spec_comp_td_costs_nets_def
      by (rule td_upd_cong) (auto simp: td_recomputed_def fun_eq_iff False)
    finally show ?thesis using r True by simp
  next
    case np: False
    with False have "\<exists>k\<in>set ?ks. isl (comp_td_connection_cost ctx s net k)"
      by (simp add: td_nets_pass_def)
    with l have "isl (foldM_err (comp_td_costs_connection ctx net) ?ks s)" by blast
    with np False show ?thesis
      by (auto simp: comp_td_costs_net_def split: sum.splits)
  qed
qed

lemma cost_view_nets: "cost_view (spec_comp_td_costs_nets ctx ns s) = cost_view s"
  by (simp add: cost_view_def spec_comp_td_costs_nets_def)

lemma td_nets_pass_view:
  assumes "cost_view u = cost_view s"
  shows "td_nets_pass ctx ns u = td_nets_pass ctx ns s"
  by (simp add: td_nets_pass_def cost_view_cost [OF assms])

lemma spec_net_view:
  assumes "cost_view u = cost_view s"
  shows "spec_net_timing_cost ctx u = spec_net_timing_cost ctx s"
  by (intro ext) (simp add: spec_net_timing_cost_def cost_view_spec [OF assms])

lemma td_nets_pass_Cons:
  "td_nets_pass ctx (n # ns) s = (td_nets_pass ctx [n] s \<and> td_nets_pass ctx ns s)"
  by (auto simp: td_nets_pass_def)

lemma spec_comp_td_costs_nets_Cons:
  "spec_comp_td_costs_nets ctx ns (spec_comp_td_costs_nets ctx [n] s)
     = spec_comp_td_costs_nets ctx (n # ns) s"
proof -
  have v: "cost_view (spec_comp_td_costs_nets ctx [n] s) = cost_view s" by (rule cost_view_nets)
  have "spec_comp_td_costs_nets ctx ns (spec_comp_td_costs_nets ctx [n] s)
      = s\<lparr>connection_timing_cost :=
           (\<lambda>net ipin. if td_recomputed ctx ns net
                          \<and> ipin \<in> set [1..<length (net_pins (clb_nlist ctx) net)]
                       then spec_connection_timing_cost ctx s net ipin
                       else connection_timing_cost (spec_comp_td_costs_nets ctx [n] s) net ipin),
         net_timing_cost :=
           (\<lambda>net. if td_recomputed ctx ns net
                  then spec_net_timing_cost ctx s net
                  else net_timing_cost (spec_comp_td_costs_nets ctx [n] s) net)\<rparr>"
    unfolding spec_comp_td_costs_nets_def [of ctx ns] cost_view_spec [OF v] spec_net_view [OF v]
    by (simp add: spec_comp_td_costs_nets_def)
  also have "\<dots> = spec_comp_td_costs_nets ctx (n # ns) s"
    unfolding spec_comp_td_costs_nets_def [of ctx "n # ns"]
    by (rule td_upd_cong) (auto simp: spec_comp_td_costs_nets_def td_recomputed_def fun_eq_iff)
  finally show ?thesis .
qed

lemma comp_td_costs_nets:
  "(td_nets_pass ctx ns s \<longrightarrow>
      foldM_err (comp_td_costs_net ctx) ns s = Inr (spec_comp_td_costs_nets ctx ns s))
   \<and> (\<not> td_nets_pass ctx ns s \<longrightarrow> isl (foldM_err (comp_td_costs_net ctx) ns s))"
proof (induction ns arbitrary: s)
  case Nil
  have "spec_comp_td_costs_nets ctx [] s = s"
    unfolding spec_comp_td_costs_nets_def
    by (rule td_upd_id) (auto simp: td_recomputed_def fun_eq_iff)
  then show ?case by (simp add: td_nets_pass_def)
next
  case (Cons n ns)
  note one = comp_td_costs_net_eq [of ctx n s]
  show ?case
  proof (cases "td_nets_pass ctx [n] s")
    case False
    with one have "isl (comp_td_costs_net ctx n s)" by simp
    then obtain err where "comp_td_costs_net ctx n s = Inl err"
      by (cases "comp_td_costs_net ctx n s") simp_all
    then have "isl (foldM_err (comp_td_costs_net ctx) (n # ns) s)" by simp
    moreover from False have "\<not> td_nets_pass ctx (n # ns) s"
      by (subst td_nets_pass_Cons) simp
    ultimately show ?thesis by simp
  next
    case True
    let ?u = "spec_comp_td_costs_nets ctx [n] s"
    from one True have step: "comp_td_costs_net ctx n s = Inr ?u" by simp
    note ih = Cons.IH [of ?u, unfolded td_nets_pass_view [OF cost_view_nets] spec_comp_td_costs_nets_Cons]
    have e: "td_nets_pass ctx (n # ns) s = td_nets_pass ctx ns s"
      using True by (subst td_nets_pass_Cons) simp
    show ?thesis using ih by (simp add: step e)
  qed
qed

lemma sum_td_costs_sum:
  "sum_td_costs ctx s
     = sum_list (map (net_timing_cost s)
                     (filter (\<lambda>net. \<not> net_is_ignored (clb_nlist ctx) net) (nets (clb_nlist ctx))))"
proof -
  have "sum_td_costs ctx s = fold (\<lambda>n c. if \<not> net_is_ignored (clb_nlist ctx) n then c + net_timing_cost s n else c)
           (nets (clb_nlist ctx)) (Fin 0)"
    unfolding sum_td_costs_def by (rule arg_cong [where f = "\<lambda>f. fold f _ _"]) (auto simp: fun_eq_iff)
  then show ?thesis by (simp add: fold_cond_sum zero_fp_def [symmetric])
qed

lemma comp_td_costs_eq:
  "(td_nets_pass ctx (nets (clb_nlist ctx)) s \<longrightarrow>
      comp_td_costs ctx s
        = Inr (spec_comp_td_costs_nets ctx (nets (clb_nlist ctx)) s, spec_timing_cost ctx s))
   \<and> (\<not> td_nets_pass ctx (nets (clb_nlist ctx)) s \<longrightarrow> isl (comp_td_costs ctx s))
   \<and> (\<not> VTR_ASSERT_SAFE_ENABLED ctx \<longrightarrow> td_nets_pass ctx (nets (clb_nlist ctx)) s)"
proof -
  let ?ns = "nets (clb_nlist ctx)"
  note l = comp_td_costs_nets [of ctx ?ns s]
  have m: "map (net_timing_cost (spec_comp_td_costs_nets ctx ?ns s))
               (filter (\<lambda>net. \<not> net_is_ignored (clb_nlist ctx) net) ?ns)
         = map (spec_net_timing_cost ctx s) (filter (\<lambda>net. \<not> net_is_ignored (clb_nlist ctx) net) ?ns)"
    by (rule map_cong) (auto simp: spec_comp_td_costs_nets_def td_recomputed_def)
  have a: "comp_td_costs ctx s = Inr (spec_comp_td_costs_nets ctx ?ns s, spec_timing_cost ctx s)"
    if "td_nets_pass ctx ?ns s"
    using l that by (simp add: comp_td_costs_def sum_td_costs_sum m spec_timing_cost_def)
  have b: "isl (comp_td_costs ctx s)" if "\<not> td_nets_pass ctx ?ns s"
    using l that by (auto simp: comp_td_costs_def split: sum.splits)
  have c: "td_nets_pass ctx ?ns s" if "\<not> VTR_ASSERT_SAFE_ENABLED ctx"
    using that by (simp add: td_nets_pass_def comp_td_connection_cost_unsafe)
  show ?thesis using a b c by blast
qed

lemma spec_timing_cost_view:
  assumes "cost_view u = cost_view s"
  shows "spec_timing_cost ctx u = spec_timing_cost ctx s"
  by (simp add: spec_timing_cost_def spec_net_view [OF assms])

lemma spec_comp_td_costs_nets_costs:
  "spec_comp_td_costs_nets ctx ns (s\<lparr>costs := c\<rparr>) = (spec_comp_td_costs_nets ctx ns s)\<lparr>costs := c\<rparr>"
proof -
  have v: "cost_view (s\<lparr>costs := c\<rparr>) = cost_view s" by (simp add: cost_view_def)
  have f: "connection_timing_cost (s\<lparr>costs := c\<rparr>) = connection_timing_cost s"
    "net_timing_cost (s\<lparr>costs := c\<rparr>) = net_timing_cost s" by simp_all
  show ?thesis
    unfolding spec_comp_td_costs_nets_def cost_view_spec [OF v] spec_net_view [OF v] f
    by simp
qed

lemma costs_spec_comp_td_costs_nets: "costs (spec_comp_td_costs_nets ctx ns s) = costs s"
  by (simp add: spec_comp_td_costs_nets_def)

lemma recompute_costs_from_scratch_td:
  assumes bb: "\<not> bb_cost (costs s) * Fin 0.01 < fabs (recompute_bb_cost ctx s - bb_cost (costs s))"
    and alg: "place_algorithm opts = PATH_TIMING_DRIVEN_PLACE"
  shows "(td_nets_pass ctx (nets (clb_nlist ctx)) s \<longrightarrow>
            comp_td_costs ctx (s\<lparr>costs := (costs s)\<lparr>bb_cost := recompute_bb_cost ctx s\<rparr>\<rparr>)
              = Inr ((spec_comp_td_costs_nets ctx (nets (clb_nlist ctx)) s)
                        \<lparr>costs := (costs s)\<lparr>bb_cost := recompute_bb_cost ctx s\<rparr>\<rparr>,
                     spec_timing_cost ctx s)
          \<and> recompute_costs_from_scratch ctx opts s
              = (if timing_cost (costs s) * Fin 0.01
                      < fabs (spec_timing_cost ctx s - timing_cost (costs s))
                 then Inl VPR_ERROR_PLACE
                 else Inr ((spec_comp_td_costs_nets ctx (nets (clb_nlist ctx)) s)
                             \<lparr>costs := \<lparr>cost = cost (costs s),
                                        bb_cost = recompute_bb_cost ctx s,
                                        timing_cost = spec_timing_cost ctx s\<rparr>\<rparr>)))
       \<and> (\<not> td_nets_pass ctx (nets (clb_nlist ctx)) s \<longrightarrow>
            isl (recompute_costs_from_scratch ctx opts s))
       \<and> (\<not> VTR_ASSERT_SAFE_ENABLED ctx \<longrightarrow> td_nets_pass ctx (nets (clb_nlist ctx)) s)"
proof -
  let ?s0 = "s\<lparr>costs := (costs s)\<lparr>bb_cost := recompute_bb_cost ctx s\<rparr>\<rparr>"
  let ?ns = "nets (clb_nlist ctx)"
  have v: "cost_view ?s0 = cost_view s" by (simp add: cost_view_def)
  note c = comp_td_costs_eq [of ctx ?s0, unfolded td_nets_pass_view [OF v] spec_timing_cost_view [OF v]
                               spec_comp_td_costs_nets_costs]
  have r: "recompute_costs_from_scratch ctx opts s =
             (case comp_td_costs ctx ?s0 of
                Inl err \<Rightarrow> Inl err
              | Inr (u, new_timing_cost) \<Rightarrow>
                  if timing_cost (costs u) * ERROR_TOL < fabs (new_timing_cost - timing_cost (costs u))
                  then Inl VPR_ERROR_PLACE
                  else Inr (u\<lparr>costs := (costs u)\<lparr>timing_cost := new_timing_cost\<rparr>\<rparr>))"
    using bb alg by (simp add: recompute_costs_from_scratch_def Let_def ERROR_TOL_def)
  have a: "td_nets_pass ctx ?ns s \<longrightarrow>
            comp_td_costs ctx ?s0
              = Inr ((spec_comp_td_costs_nets ctx ?ns s)\<lparr>costs := (costs s)\<lparr>bb_cost := recompute_bb_cost ctx s\<rparr>\<rparr>,
                     spec_timing_cost ctx s)
          \<and> recompute_costs_from_scratch ctx opts s
              = (if timing_cost (costs s) * Fin 0.01
                      < fabs (spec_timing_cost ctx s - timing_cost (costs s))
                 then Inl VPR_ERROR_PLACE
                 else Inr ((spec_comp_td_costs_nets ctx ?ns s)
                             \<lparr>costs := \<lparr>cost = cost (costs s),
                                        bb_cost = recompute_bb_cost ctx s,
                                        timing_cost = spec_timing_cost ctx s\<rparr>\<rparr>))"
  proof
    assume p: "td_nets_pass ctx ?ns s"
    with c have e: "comp_td_costs ctx ?s0
              = Inr ((spec_comp_td_costs_nets ctx ?ns s)\<lparr>costs := (costs s)\<lparr>bb_cost := recompute_bb_cost ctx s\<rparr>\<rparr>,
                     spec_timing_cost ctx s)" by simp
    show "comp_td_costs ctx ?s0
              = Inr ((spec_comp_td_costs_nets ctx ?ns s)\<lparr>costs := (costs s)\<lparr>bb_cost := recompute_bb_cost ctx s\<rparr>\<rparr>,
                     spec_timing_cost ctx s)
          \<and> recompute_costs_from_scratch ctx opts s
              = (if timing_cost (costs s) * Fin 0.01
                      < fabs (spec_timing_cost ctx s - timing_cost (costs s))
                 then Inl VPR_ERROR_PLACE
                 else Inr ((spec_comp_td_costs_nets ctx ?ns s)
                             \<lparr>costs := \<lparr>cost = cost (costs s),
                                        bb_cost = recompute_bb_cost ctx s,
                                        timing_cost = spec_timing_cost ctx s\<rparr>\<rparr>))"
      unfolding r e by (simp add: ERROR_TOL_def)
  qed
  have b: "\<not> td_nets_pass ctx ?ns s \<longrightarrow> isl (recompute_costs_from_scratch ctx opts s)"
  proof
    assume "\<not> td_nets_pass ctx ?ns s"
    with c have "isl (comp_td_costs ctx ?s0)" by simp
    then obtain err where "comp_td_costs ctx ?s0 = Inl err" by (cases "comp_td_costs ctx ?s0") simp_all
    then show "isl (recompute_costs_from_scratch ctx opts s)" unfolding r by simp
  qed
  from c have d: "\<not> VTR_ASSERT_SAFE_ENABLED ctx \<longrightarrow> td_nets_pass ctx ?ns s" by simp
  show ?thesis using a b d by (intro conjI)
qed

text \<open>
  Claim C7, as stated: the inner loop calls \<^verbatim>\<open>recompute_costs_from_scratch\<close> every
  500,000 trials. At the 500,000th trial after a recomputation the counter goes from
  499,999 to 500,000, which does not exceed \<^verbatim>\<open>MAX_MOVES_BEFORE_RECOMPUTE\<close>: nothing is
  recomputed, even in a state where the recomputation would raise the error.
\<close>

theorem inner_loop_every_500000_counterexample:
  "inner_loop_cost_recompute (demo_ctx True) (demo_opts BOUNDING_BOX_PLACE) (demo_drifted_state, 499999)
     = Inr (demo_drifted_state, 500000)
   \<and> recompute_costs_from_scratch (demo_ctx True) (demo_opts BOUNDING_BOX_PLACE) demo_drifted_state
     = Inl VPR_ERROR_PLACE"
proof -
  let ?R = "recompute_costs_from_scratch (demo_ctx True) (demo_opts BOUNDING_BOX_PLACE) demo_drifted_state"
  have "isl ?R" and "projl ?R = VPR_ERROR_PLACE" by code_simp+
  then have "?R = Inl VPR_ERROR_PLACE" by (cases ?R) auto
  then show ?thesis
    by (simp add: inner_loop_cost_recompute_def Let_def MAX_MOVES_BEFORE_RECOMPUTE_def)
qed

text \<open>
  Claim C7, amended. The counter of the moves since the last recomputation is incremented
  after every trial; while it does not exceed 500,000 nothing else happens, and on the
  500,001st trial after the last recomputation \<^verbatim>\<open>recompute_costs_from_scratch\<close> is called
  and the counter is set to 0. That function takes the new \<open>bb_cost\<close> from
  \<^verbatim>\<open>recompute_bb_cost\<close> and, for timing-driven placement, the new \<open>timing_cost\<close> from
  \<^verbatim>\<open>comp_td_costs\<close> (the sum of the per-net timing costs it has just recomputed); it
  raises the placement error when a new value differs from the incrementally maintained
  one by more than 0.01 times the latter, and otherwise replaces the totals (for
  bounding-box placement \<open>cost\<close> as well). The timing cost that \<^verbatim>\<open>comp_td_costs\<close>
  returns is recomputed from scratch: it is the sum, over the nets that are not ignored, of
  the sums over the sinks of criticality times cached connection delay, whatever the
  cached timing costs of the connections and of the nets were; these caches are overwritten
  with the recomputed values and nothing else changes. Without
  \<^verbatim>\<open>VTR_ASSERT_SAFE_ENABLED\<close> no check of a connection can fail; with it, a failing check
  makes the recomputation fail.
\<close>

theorem inner_loop_recompute:
  "(0 \<le> m \<and> m < 500000 \<longrightarrow> inner_loop_cost_recompute ctx opts (s, m) = Inr (s, m + 1))
   \<and> inner_loop_cost_recompute ctx opts (s, 500000)
       = (case recompute_costs_from_scratch ctx opts s of
            Inl err \<Rightarrow> Inl err | Inr s' \<Rightarrow> Inr (s', 0))
   \<and> (bb_cost (costs s) * Fin 0.01 < fabs (recompute_bb_cost ctx s - bb_cost (costs s))
        \<longrightarrow> recompute_costs_from_scratch ctx opts s = Inl VPR_ERROR_PLACE)
   \<and> (\<not> bb_cost (costs s) * Fin 0.01 < fabs (recompute_bb_cost ctx s - bb_cost (costs s))
        \<and> place_algorithm opts = BOUNDING_BOX_PLACE
        \<longrightarrow> recompute_costs_from_scratch ctx opts s
              = Inr (s\<lparr>costs := (costs s)\<lparr>bb_cost := recompute_bb_cost ctx s,
                                          cost := recompute_bb_cost ctx s\<rparr>\<rparr>))
   \<and> (\<not> bb_cost (costs s) * Fin 0.01 < fabs (recompute_bb_cost ctx s - bb_cost (costs s))
        \<and> place_algorithm opts = PATH_TIMING_DRIVEN_PLACE
        \<longrightarrow> (\<forall>err. comp_td_costs ctx (s\<lparr>costs := (costs s)\<lparr>bb_cost := recompute_bb_cost ctx s\<rparr>\<rparr>)
                     = Inl err
                   \<longrightarrow> recompute_costs_from_scratch ctx opts s = Inl err)
            \<and> (\<forall>s1 new_timing_cost.
                   comp_td_costs ctx (s\<lparr>costs := (costs s)\<lparr>bb_cost := recompute_bb_cost ctx s\<rparr>\<rparr>)
                     = Inr (s1, new_timing_cost)
                   \<longrightarrow> new_timing_cost = sum_td_costs ctx s1
                       \<and> recompute_costs_from_scratch ctx opts s
                         = (if timing_cost (costs s) * Fin 0.01
                                 < fabs (new_timing_cost - timing_cost (costs s))
                            then Inl VPR_ERROR_PLACE
                            else Inr (s1\<lparr>costs := \<lparr>cost = cost (costs s),
                                                    bb_cost = recompute_bb_cost ctx s,
                                                    timing_cost = new_timing_cost\<rparr>\<rparr>))))
   \<and> (\<not> bb_cost (costs s) * Fin 0.01 < fabs (recompute_bb_cost ctx s - bb_cost (costs s))
        \<and> place_algorithm opts = PATH_TIMING_DRIVEN_PLACE
        \<longrightarrow> (td_nets_pass ctx (nets (clb_nlist ctx)) s \<longrightarrow>
               comp_td_costs ctx (s\<lparr>costs := (costs s)\<lparr>bb_cost := recompute_bb_cost ctx s\<rparr>\<rparr>)
                 = Inr ((spec_comp_td_costs_nets ctx (nets (clb_nlist ctx)) s)
                           \<lparr>costs := (costs s)\<lparr>bb_cost := recompute_bb_cost ctx s\<rparr>\<rparr>,
                        spec_timing_cost ctx s)
             \<and> recompute_costs_from_scratch ctx opts s
                 = (if timing_cost (costs s) * Fin 0.01
                         < fabs (spec_timing_cost ctx s - timing_cost (costs s))
                    then Inl VPR_ERROR_PLACE
                    else Inr ((spec_comp_td_costs_nets ctx (nets (clb_nlist ctx)) s)
                                \<lparr>costs := \<lparr>cost = cost (costs s),
                                           bb_cost = recompute_bb_cost ctx s,
                                           timing_cost = spec_timing_cost ctx s\<rparr>\<rparr>)))
          \<and> (\<not> td_nets_pass ctx (nets (clb_nlist ctx)) s \<longrightarrow>
               isl (recompute_costs_from_scratch ctx opts s))
          \<and> (\<not> VTR_ASSERT_SAFE_ENABLED ctx \<longrightarrow> td_nets_pass ctx (nets (clb_nlist ctx)) s))"
proof -
  have step: "inner_loop_cost_recompute ctx opts (s, m) = Inr (s, m + 1)" if "m < 500000"
    using that by (simp add: inner_loop_cost_recompute_def Let_def MAX_MOVES_BEFORE_RECOMPUTE_def)
  have call: "inner_loop_cost_recompute ctx opts (s, 500000)
       = (case recompute_costs_from_scratch ctx opts s of
            Inl err \<Rightarrow> Inl err | Inr s' \<Rightarrow> Inr (s', 0))"
    by (simp add: inner_loop_cost_recompute_def Let_def MAX_MOVES_BEFORE_RECOMPUTE_def)
  have td: "new_timing_cost = sum_td_costs ctx s1
            \<and> recompute_costs_from_scratch ctx opts s
                = (if timing_cost (costs s) * Fin 0.01 < fabs (new_timing_cost - timing_cost (costs s))
                   then Inl VPR_ERROR_PLACE
                   else Inr (s1\<lparr>costs := \<lparr>cost = cost (costs s),
                                           bb_cost = recompute_bb_cost ctx s,
                                           timing_cost = new_timing_cost\<rparr>\<rparr>))"
    if "\<not> bb_cost (costs s) * Fin 0.01 < fabs (recompute_bb_cost ctx s - bb_cost (costs s))"
      and "place_algorithm opts = PATH_TIMING_DRIVEN_PLACE"
      and c: "comp_td_costs ctx (s\<lparr>costs := (costs s)\<lparr>bb_cost := recompute_bb_cost ctx s\<rparr>\<rparr>)
                = Inr (s1, new_timing_cost)"
    for s1 new_timing_cost
    using that comp_td_costs_result [OF c]
    by (simp add: recompute_costs_from_scratch_def Let_def ERROR_TOL_def)
  have first: "(0 \<le> m \<and> m < 500000 \<longrightarrow> inner_loop_cost_recompute ctx opts (s, m) = Inr (s, m + 1))
   \<and> inner_loop_cost_recompute ctx opts (s, 500000)
       = (case recompute_costs_from_scratch ctx opts s of
            Inl err \<Rightarrow> Inl err | Inr s' \<Rightarrow> Inr (s', 0))
   \<and> (bb_cost (costs s) * Fin 0.01 < fabs (recompute_bb_cost ctx s - bb_cost (costs s))
        \<longrightarrow> recompute_costs_from_scratch ctx opts s = Inl VPR_ERROR_PLACE)
   \<and> (\<not> bb_cost (costs s) * Fin 0.01 < fabs (recompute_bb_cost ctx s - bb_cost (costs s))
        \<and> place_algorithm opts = BOUNDING_BOX_PLACE
        \<longrightarrow> recompute_costs_from_scratch ctx opts s
              = Inr (s\<lparr>costs := (costs s)\<lparr>bb_cost := recompute_bb_cost ctx s,
                                          cost := recompute_bb_cost ctx s\<rparr>\<rparr>))
   \<and> (\<not> bb_cost (costs s) * Fin 0.01 < fabs (recompute_bb_cost ctx s - bb_cost (costs s))
        \<and> place_algorithm opts = PATH_TIMING_DRIVEN_PLACE
        \<longrightarrow> (\<forall>err. comp_td_costs ctx (s\<lparr>costs := (costs s)\<lparr>bb_cost := recompute_bb_cost ctx s\<rparr>\<rparr>)
                     = Inl err
                   \<longrightarrow> recompute_costs_from_scratch ctx opts s = Inl err)
            \<and> (\<forall>s1 new_timing_cost.
                   comp_td_costs ctx (s\<lparr>costs := (costs s)\<lparr>bb_cost := recompute_bb_cost ctx s\<rparr>\<rparr>)
                     = Inr (s1, new_timing_cost)
                   \<longrightarrow> new_timing_cost = sum_td_costs ctx s1
                       \<and> recompute_costs_from_scratch ctx opts s
                         = (if timing_cost (costs s) * Fin 0.01
                                 < fabs (new_timing_cost - timing_cost (costs s))
                            then Inl VPR_ERROR_PLACE
                            else Inr (s1\<lparr>costs := \<lparr>cost = cost (costs s),
                                                    bb_cost = recompute_bb_cost ctx s,
                                                    timing_cost = new_timing_cost\<rparr>\<rparr>))))"
    using step call td
    by (auto simp: recompute_costs_from_scratch_def Let_def ERROR_TOL_def)
  have scratch: "\<not> bb_cost (costs s) * Fin 0.01 < fabs (recompute_bb_cost ctx s - bb_cost (costs s))
        \<and> place_algorithm opts = PATH_TIMING_DRIVEN_PLACE
        \<longrightarrow> (td_nets_pass ctx (nets (clb_nlist ctx)) s \<longrightarrow>
               comp_td_costs ctx (s\<lparr>costs := (costs s)\<lparr>bb_cost := recompute_bb_cost ctx s\<rparr>\<rparr>)
                 = Inr ((spec_comp_td_costs_nets ctx (nets (clb_nlist ctx)) s)
                           \<lparr>costs := (costs s)\<lparr>bb_cost := recompute_bb_cost ctx s\<rparr>\<rparr>,
                        spec_timing_cost ctx s)
             \<and> recompute_costs_from_scratch ctx opts s
                 = (if timing_cost (costs s) * Fin 0.01
                         < fabs (spec_timing_cost ctx s - timing_cost (costs s))
                    then Inl VPR_ERROR_PLACE
                    else Inr ((spec_comp_td_costs_nets ctx (nets (clb_nlist ctx)) s)
                                \<lparr>costs := \<lparr>cost = cost (costs s),
                                           bb_cost = recompute_bb_cost ctx s,
                                           timing_cost = spec_timing_cost ctx s\<rparr>\<rparr>)))
          \<and> (\<not> td_nets_pass ctx (nets (clb_nlist ctx)) s \<longrightarrow>
               isl (recompute_costs_from_scratch ctx opts s))
          \<and> (\<not> VTR_ASSERT_SAFE_ENABLED ctx \<longrightarrow> td_nets_pass ctx (nets (clb_nlist ctx)) s)"
    by (rule impI, elim conjE) (rule recompute_costs_from_scratch_td)
  from first scratch show ?thesis by blast
qed

theorem inner_loop_recompute_witness:
  "inner_loop_cost_recompute (demo_ctx True) (demo_opts BOUNDING_BOX_PLACE) (demo_state, 3)
     = Inr (demo_state, 4)
   \<and> inner_loop_cost_recompute (demo_ctx True) (demo_opts BOUNDING_BOX_PLACE) (demo_state, 500000)
     = Inr (demo_state\<lparr>costs := \<lparr>cost = Fin 17.536, bb_cost = Fin 17.536, timing_cost = Fin 13\<rparr>\<rparr>, 0)
   \<and> recompute_costs_from_scratch (demo_ctx True) (demo_opts BOUNDING_BOX_PLACE) demo_drifted_state
     = Inl VPR_ERROR_PLACE
   \<and> costs (projr (recompute_costs_from_scratch (demo_ctx True)
                        (demo_opts PATH_TIMING_DRIVEN_PLACE) demo_state))
     = \<lparr>cost = Fin 1, bb_cost = Fin 17.536, timing_cost = Fin 13\<rparr>
   \<and> sum_td_costs (demo_ctx True) demo_stale_state = Fin 0
   \<and> costs (projr (recompute_costs_from_scratch (demo_ctx True)
                        (demo_opts PATH_TIMING_DRIVEN_PLACE) demo_stale_state))
     = \<lparr>cost = Fin 1, bb_cost = Fin 17.536, timing_cost = Fin 13\<rparr>
   \<and> connection_timing_cost (projr (recompute_costs_from_scratch (demo_ctx True)
                        (demo_opts PATH_TIMING_DRIVEN_PLACE) demo_stale_state)) 0 2 = Fin 4
   \<and> net_timing_cost (projr (recompute_costs_from_scratch (demo_ctx True)
                        (demo_opts PATH_TIMING_DRIVEN_PLACE) demo_stale_state)) 0 = Fin 11"
proof -
  let ?D = "demo_ctx True" and ?B = "demo_opts BOUNDING_BOX_PLACE"
  let ?T = "demo_opts PATH_TIMING_DRIVEN_PLACE"
  have b: "recompute_bb_cost ?D demo_state = Fin 17.536" by code_simp
  have bd: "recompute_bb_cost ?D demo_drifted_state = Fin 17.536" by code_simp
  have c: "costs demo_state = \<lparr>cost = Fin 1, bb_cost = Fin 17.536, timing_cost = Fin 13\<rparr>"
    by (simp add: demo_state_def)
  have cd: "costs demo_drifted_state = \<lparr>cost = Fin 100, bb_cost = Fin 100, timing_cost = Fin 13\<rparr>"
    by (simp add: demo_drifted_state_def)
  have alg: "place_algorithm ?B = BOUNDING_BOX_PLACE" "place_algorithm ?T = PATH_TIMING_DRIVEN_PLACE"
    by (simp_all add: demo_opts_def)
  note w3 = inner_loop_recompute [of 3 ?D ?B demo_state]
  note wd = inner_loop_recompute [of 3 ?D ?B demo_drifted_state]
  note wt = inner_loop_recompute [of 3 ?D ?T demo_state]
  from w3 have 1: "inner_loop_cost_recompute ?D ?B (demo_state, 3) = Inr (demo_state, 4)" by simp
  from w3 b c alg have r: "recompute_costs_from_scratch ?D ?B demo_state
      = Inr (demo_state\<lparr>costs := \<lparr>cost = Fin 17.536, bb_cost = Fin 17.536, timing_cost = Fin 13\<rparr>\<rparr>)"
    by simp
  from w3 r have 2: "inner_loop_cost_recompute ?D ?B (demo_state, 500000)
     = Inr (demo_state\<lparr>costs := \<lparr>cost = Fin 17.536, bb_cost = Fin 17.536, timing_cost = Fin 13\<rparr>\<rparr>, 0)"
    by simp
  from wd bd cd have 3: "recompute_costs_from_scratch ?D ?B demo_drifted_state = Inl VPR_ERROR_PLACE"
    by simp
  let ?C = "comp_td_costs ?D (demo_state\<lparr>costs := (costs demo_state)\<lparr>bb_cost := recompute_bb_cost ?D demo_state\<rparr>\<rparr>)"
  have ok: "\<not> isl ?C" by code_simp
  have t: "snd (projr ?C) = Fin 13" by code_simp
  have ct: "?C = Inr (fst (projr ?C), Fin 13)"
    using ok t by (cases ?C) auto
  have nb: "\<not> bb_cost (costs demo_state) * Fin 0.01
              < fabs (recompute_bb_cost ?D demo_state - bb_cost (costs demo_state))"
    unfolding b c by simp
  note wt' = wt [THEN conjunct2, THEN conjunct2, THEN conjunct2, THEN conjunct2, THEN conjunct1, rule_format,
                 OF conjI [OF nb alg(2)], THEN conjunct2, rule_format, OF ct]
  from wt' have "recompute_costs_from_scratch ?D ?T demo_state
      = Inr ((fst (projr ?C))\<lparr>costs := \<lparr>cost = Fin 1, bb_cost = Fin 17.536, timing_cost = Fin 13\<rparr>\<rparr>)"
    unfolding b c by simp
  then have 4: "costs (projr (recompute_costs_from_scratch ?D ?T demo_state))
     = \<lparr>cost = Fin 1, bb_cost = Fin 17.536, timing_cost = Fin 13\<rparr>" by simp
  let ?S = "demo_stale_state"
  let ?N = "spec_comp_td_costs_nets ?D (nets (clb_nlist ?D)) ?S"
  have bs: "recompute_bb_cost ?D ?S = Fin 17.536" by code_simp
  have cs: "costs ?S = \<lparr>cost = Fin 1, bb_cost = Fin 17.536, timing_cost = Fin 13\<rparr>"
    by (simp add: demo_stale_state_def demo_state_def)
  have nbs: "\<not> bb_cost (costs ?S) * Fin 0.01 < fabs (recompute_bb_cost ?D ?S - bb_cost (costs ?S))"
    unfolding bs cs by simp
  have pass: "td_nets_pass ?D (nets (clb_nlist ?D)) ?S" by code_simp
  have ts: "spec_timing_cost ?D ?S = Fin 13" by code_simp
  have 5: "sum_td_costs ?D ?S = Fin 0" by code_simp
  note ws = inner_loop_recompute [of 3 ?D ?T ?S, THEN conjunct2, THEN conjunct2, THEN conjunct2,
                 THEN conjunct2, THEN conjunct2, rule_format, OF conjI [OF nbs alg(2)],
                 THEN conjunct1, rule_format, OF pass, THEN conjunct2]
  from ws have rs: "recompute_costs_from_scratch ?D ?T ?S
      = Inr (?N\<lparr>costs := \<lparr>cost = Fin 1, bb_cost = Fin 17.536, timing_cost = Fin 13\<rparr>\<rparr>)"
    unfolding bs cs ts by simp
  have 6: "costs (projr (recompute_costs_from_scratch ?D ?T ?S))
     = \<lparr>cost = Fin 1, bb_cost = Fin 17.536, timing_cost = Fin 13\<rparr>"
    unfolding rs by simp
  have n7: "connection_timing_cost ?N 0 2 = Fin 4" by code_simp
  have n8: "net_timing_cost ?N 0 = Fin 11" by code_simp
  have 7: "connection_timing_cost (projr (recompute_costs_from_scratch ?D ?T ?S)) 0 2 = Fin 4"
    unfolding rs using n7 by simp
  have 8: "net_timing_cost (projr (recompute_costs_from_scratch ?D ?T ?S)) 0 = Fin 11"
    unfolding rs using n8 by simp
  show ?thesis using 1 2 3 4 5 6 7 8 by simp
qed

section \<open>The incremental update of the bounding boxes\<close>

lemma count_list_update:
  "i < length zs \<Longrightarrow>
     int (count_list (zs[i := v]) z)
       = int (count_list zs z) - (if zs ! i = z then 1 else 0) + (if v = z then 1 else 0)"
proof (induction zs arbitrary: i)
  case Nil
  then show ?case by simp
next
  case (Cons a zs)
  show ?case
  proof (cases i)
    case 0
    then show ?thesis by simp
  next
    case (Suc j)
    with Cons.prems have "j < length zs" by simp
    from Cons.IH [OF this] Suc show ?thesis by (auto split: if_splits)
  qed
qed

lemma is_extent_unique:
  assumes "is_extent zs p" and "is_extent zs q"
  shows "p = q"
proof -
  obtain a b c d where p: "p = (a, b, c, d)" by (cases p)
  obtain a' b' c' d' where q: "q = (a', b', c', d')" by (cases q)
  from assms have "a = a'" "b = b'" unfolding p q is_extent_def by (auto intro: antisym)
  with assms show ?thesis unfolding p q is_extent_def by auto
qed

lemma is_extent_scan1:
  assumes "is_extent zs p"
  shows "is_extent (zs @ [z]) (scan1 z p)"
proof -
  obtain lo hi nlo nhi where p: "p = (lo, hi, nlo, nhi)" by (cases p)
  from assms have h: "lo \<in> set zs" "hi \<in> set zs" "\<forall>u\<in>set zs. lo \<le> u \<and> u \<le> hi"
    "nlo = int (count_list zs lo)" "nhi = int (count_list zs hi)"
    unfolding p is_extent_def by auto
  have c0: "count_list zs z = 0" if "z < lo \<or> hi < z"
    using that h(3) by (auto simp: count_list_0_iff)
  from h(1,2,3) have lh: "lo \<le> hi" by auto
  show ?thesis
    unfolding p scan1_def is_extent_def Let_def using h lh c0
    by (auto simp: count_list_0_iff)
qed

lemma is_extent_single: "is_extent [z] (z, z, 1, 1)"
  by (simp add: is_extent_def)

lemma count_list_pos: "(0 < count_list zs z) = (z \<in> set zs)"
  using count_list_0_iff [of zs z] by auto

lemma is_extent_count:
  "is_extent zs (lo, hi, nlo, nhi) \<longleftrightarrow>
     0 < int (count_list zs lo) \<and> 0 < int (count_list zs hi)
     \<and> (\<forall>z. 0 < int (count_list zs z) \<longrightarrow> lo \<le> z \<and> z \<le> hi)
     \<and> nlo = int (count_list zs lo) \<and> nhi = int (count_list zs hi)"
  unfolding is_extent_def by (auto simp: count_list_pos)

lemma extent_count_update:
  fixes c c' :: "int \<Rightarrow> int"
  assumes c': "\<And>z. c' z = c z - (if old = z then 1 else 0) + (if new = z then 1 else 0)"
    and nn: "\<And>z. 0 \<le> c z" and o: "0 < c old"
    and lo: "0 < c lo" and hi: "0 < c hi" and b: "\<And>z. 0 < c z \<Longrightarrow> lo \<le> z \<and> z \<le> hi"
    and u: "upd1 old new (lo, hi, c lo, c hi) = Some (lo', hi', nlo', nhi')"
  shows "0 < c' lo' \<and> 0 < c' hi' \<and> (\<forall>z. 0 < c' z \<longrightarrow> lo' \<le> z \<and> z \<le> hi')
         \<and> nlo' = c' lo' \<and> nhi' = c' hi'"
proof -
  from b o have ob: "lo \<le> old" "old \<le> hi" by auto
  have z0: "c z = 0" if "z < lo \<or> hi < z" for z
    using b [of z] nn [of z] that by (cases "0 < c z") auto
  consider "new < old" | "old < new" | "new = old" by linarith
  then show ?thesis
  proof cases
    case 1
    with u have nn1: "\<not> (old = hi \<and> c hi = 1)" by (auto simp: upd1_def)
    have hi': "hi' = hi" and nhi': "nhi' = (if old = hi then c hi - 1 else c hi)"
      using u 1 nn1 by (auto simp: upd1_def Let_def split: if_splits)
    have lo': "lo' = (if new < lo then new else lo)"
      and nlo': "nlo' = (if new < lo then 1 else if new = lo then c lo + 1 else c lo)"
      using u 1 nn1 by (auto simp: upd1_def Let_def split: if_splits)
    have chi: "c' hi = (if old = hi then c hi - 1 else c hi)"
      using c' [of hi] 1 ob by auto
    have chipos: "0 < c' hi" using chi nn1 hi by (auto split: if_splits)
    have clo: "c' lo' = nlo'"
      unfolding lo' nlo' using c' [of new] c' [of lo] 1 ob z0 [of new] by auto
    have clopos: "0 < c' lo'" using clo nlo' lo by (auto split: if_splits)
    have bnd: "lo' \<le> z \<and> z \<le> hi'" if "0 < c' z" for z
    proof (cases "z = new")
      case True
      then show ?thesis unfolding lo' hi' using 1 ob by auto
    next
      case False
      with that c' [of z] have "0 < c z" by (auto split: if_splits)
      from b [OF this] show ?thesis unfolding lo' hi' by auto
    qed
    show ?thesis using chipos clopos bnd clo chi nhi' hi' by auto
  next
    case 2
    with u have nn1: "\<not> (old = lo \<and> c lo = 1)" by (auto simp: upd1_def)
    have lo': "lo' = lo" and nlo': "nlo' = (if old = lo then c lo - 1 else c lo)"
      using u 2 nn1 by (auto simp: upd1_def Let_def split: if_splits)
    have hi': "hi' = (if new > hi then new else hi)"
      and nhi': "nhi' = (if new > hi then 1 else if new = hi then c hi + 1 else c hi)"
      using u 2 nn1 by (auto simp: upd1_def Let_def split: if_splits)
    have clo: "c' lo = (if old = lo then c lo - 1 else c lo)"
      using c' [of lo] 2 ob by auto
    have clopos: "0 < c' lo" using clo nn1 lo by (auto split: if_splits)
    have chi: "c' hi' = nhi'"
      unfolding hi' nhi' using c' [of new] c' [of hi] 2 ob z0 [of new] by auto
    have chipos: "0 < c' hi'" using chi nhi' hi by (auto split: if_splits)
    have bnd: "lo' \<le> z \<and> z \<le> hi'" if "0 < c' z" for z
    proof (cases "z = new")
      case True
      then show ?thesis unfolding lo' hi' using 2 ob by auto
    next
      case False
      with that c' [of z] have "0 < c z" by (auto split: if_splits)
      from b [OF this] show ?thesis unfolding lo' hi' by auto
    qed
    show ?thesis using chipos clopos bnd clo chi nlo' lo' by auto
  next
    case 3
    with u have "lo' = lo" "hi' = hi" "nlo' = c lo" "nhi' = c hi" by (auto simp: upd1_def)
    moreover from 3 c' have "c' z = c z" for z by auto
    ultimately show ?thesis using lo hi b by auto
  qed
qed

lemma is_extent_upd1:
  assumes e: "is_extent zs p" and i: "i < length zs" and u: "upd1 (zs ! i) new p = Some q"
  shows "is_extent (zs[i := new]) q"
proof -
  obtain lo hi nlo nhi where p: "p = (lo, hi, nlo, nhi)" by (cases p)
  obtain lo' hi' nlo' nhi' where q: "q = (lo', hi', nlo', nhi')" by (cases q)
  let ?c = "\<lambda>z. int (count_list zs z)" and ?c' = "\<lambda>z. int (count_list (zs[i := new]) z)"
  from e have h: "0 < ?c lo" "0 < ?c hi" "\<And>z. 0 < ?c z \<Longrightarrow> lo \<le> z \<and> z \<le> hi"
    "nlo = ?c lo" "nhi = ?c hi"
    unfolding p is_extent_count by auto
  have o: "0 < ?c (zs ! i)" using i by (simp add: count_list_pos)
  have c': "?c' z = ?c z - (if zs ! i = z then 1 else 0) + (if new = z then 1 else 0)" for z
    using count_list_update [OF i] by simp
  have u': "upd1 (zs ! i) new (lo, hi, ?c lo, ?c hi) = Some (lo', hi', nlo', nhi')"
    using u unfolding p q h(4,5) .
  have "0 < ?c' lo' \<and> 0 < ?c' hi' \<and> (\<forall>z. 0 < ?c' z \<longrightarrow> lo' \<le> z \<and> z \<le> hi')
         \<and> nlo' = ?c' lo' \<and> nhi' = ?c' hi'"
    by (rule extent_count_update [where c = ?c and old = "zs ! i" and new = new and lo = lo and hi = hi])
       (use c' o h u' in auto)
  then show ?thesis unfolding q is_extent_count by simp
qed

lemma bb_scan_x_parts:
  "xpart (bb_scan_x z ce) = scan1 z (xpart ce) \<and> ypart (bb_scan_x z ce) = ypart ce"
  by (cases ce) (auto simp: bb_scan_x_def scan1_def xpart_def ypart_def Let_def)

lemma bb_scan_y_parts:
  "ypart (bb_scan_y z ce) = scan1 z (ypart ce) \<and> xpart (bb_scan_y z ce) = xpart ce"
  by (cases ce) (auto simp: bb_scan_y_def scan1_def xpart_def ypart_def Let_def)

lemma fold_bb_scan_pin:
  assumes "is_extent xs (xpart ce)" and "is_extent ys (ypart ce)"
  shows "is_extent (xs @ map (\<lambda>p. clip_x ctx (pin_x ctx locs p)) ps)
           (xpart (fold (bb_scan_pin ctx locs) ps ce))
         \<and> is_extent (ys @ map (\<lambda>p. clip_y ctx (pin_y ctx locs p)) ps)
           (ypart (fold (bb_scan_pin ctx locs) ps ce))"
  using assms
proof (induction ps arbitrary: xs ys ce)
  case Nil
  then show ?case by simp
next
  case (Cons p ps)
  let ?ce = "bb_scan_pin ctx locs p ce"
  have x: "is_extent (xs @ [clip_x ctx (pin_x ctx locs p)]) (xpart ?ce)"
    using is_extent_scan1 [OF Cons.prems(1)]
    by (simp add: bb_scan_pin_def Let_def bb_scan_x_parts bb_scan_y_parts)
  have y: "is_extent (ys @ [clip_y ctx (pin_y ctx locs p)]) (ypart ?ce)"
    using is_extent_scan1 [OF Cons.prems(2)]
    by (simp add: bb_scan_pin_def Let_def bb_scan_x_parts bb_scan_y_parts)
  from Cons.IH [OF x y] show ?case by simp
qed

lemma get_bb_from_scratch_extent:
  "is_extent (map (\<lambda>p. clip_x ctx (pin_x ctx locs p)) (net_pins (clb_nlist ctx) net))
     (xpart (get_bb_from_scratch ctx locs net))
   \<and> is_extent (map (\<lambda>p. clip_y ctx (pin_y ctx locs p)) (net_pins (clb_nlist ctx) net))
     (ypart (get_bb_from_scratch ctx locs net))"
proof -
  let ?d = "net_driver (clb_nlist ctx) net"
  let ?ce = "(\<lparr>xmin = clip_x ctx (pin_x ctx locs ?d), xmax = clip_x ctx (pin_x ctx locs ?d),
               ymin = clip_y ctx (pin_y ctx locs ?d), ymax = clip_y ctx (pin_y ctx locs ?d)\<rparr>,
              \<lparr>xmin = 1, xmax = 1, ymin = 1, ymax = 1\<rparr>)"
  have x: "is_extent [clip_x ctx (pin_x ctx locs ?d)] (xpart ?ce)"
    and y: "is_extent [clip_y ctx (pin_y ctx locs ?d)] (ypart ?ce)"
    by (simp_all add: xpart_def ypart_def is_extent_single)
  from fold_bb_scan_pin [OF x y, of ctx locs "net_sinks (clb_nlist ctx) net"]
  show ?thesis by (simp add: get_bb_from_scratch_def Let_def net_pins_def)
qed

lemma parts_eq: "xpart p = xpart q \<Longrightarrow> ypart p = ypart q \<Longrightarrow> p = q"
  by (cases p; cases q) (auto simp: xpart_def ypart_def)

lemma set_coord_coord: "set_coord_new n f (set_coord_new n g s) = set_coord_new n (\<lambda>b. f (g b)) s"
  by (simp add: set_coord_new_def)

lemma set_edge_edge: "set_edge_new n f (set_edge_new n g s) = set_edge_new n (\<lambda>b. f (g b)) s"
  by (simp add: set_edge_new_def)

lemma set_coord_edge: "set_coord_new n f (set_edge_new n g s) = set_edge_new n g (set_coord_new n f s)"
  by (simp add: set_coord_new_def set_edge_new_def)

lemma curr_coord_set_edge: "curr_bb_coord src n (set_edge_new n g s) = curr_bb_coord src n s"
  by (simp add: curr_bb_coord_def set_edge_new_def split: bb_src.splits)

lemma curr_edge_set_coord: "curr_bb_edge src n (set_coord_new n g s) = curr_bb_edge src n s"
  by (simp add: curr_bb_edge_def set_coord_new_def split: bb_src.splits)

lemma curr_coord_set_coord:
  "curr_bb_coord src n (set_coord_new n f s)
     = (case src of CURR_COMMITTED \<Rightarrow> bb_coords s n | CURR_PROPOSED \<Rightarrow> f (ts_bb_coord_new s n))"
  by (simp add: curr_bb_coord_def set_coord_new_def split: bb_src.splits)

lemma curr_edge_set_edge:
  "curr_bb_edge src n (set_edge_new n f s)
     = (case src of CURR_COMMITTED \<Rightarrow> bb_num_on_edges s n | CURR_PROPOSED \<Rightarrow> f (ts_bb_edge_new s n))"
  by (simp add: curr_bb_edge_def set_edge_new_def split: bb_src.splits)

lemma setters_frame:
  "bb_coords (set_coord_new n f s) = bb_coords s"
  "bb_coords (set_edge_new n f s) = bb_coords s"
  "bb_num_on_edges (set_coord_new n f s) = bb_num_on_edges s"
  "bb_num_on_edges (set_edge_new n f s) = bb_num_on_edges s"
  "ts_bb_coord_new (set_edge_new n f s) = ts_bb_coord_new s"
  "ts_bb_edge_new (set_coord_new n f s) = ts_bb_edge_new s"
  "ts_bb_coord_new (set_coord_new n f s) = (ts_bb_coord_new s)(n := f (ts_bb_coord_new s n))"
  "ts_bb_edge_new (set_edge_new n f s) = (ts_bb_edge_new s)(n := f (ts_bb_edge_new s n))"
  "bb_updated_before (set_coord_new n f s) = bb_updated_before s"
  "bb_updated_before (set_edge_new n f s) = bb_updated_before s"
  "block_locs (set_coord_new n f s) = block_locs s"
  "block_locs (set_edge_new n f s) = block_locs s"
  by (simp_all add: set_coord_new_def set_edge_new_def)

lemma t_bb_update_order:
  "b\<lparr>xmax := a, xmin := c\<rparr> = b\<lparr>xmin := c, xmax := a\<rparr>"
  "b\<lparr>ymax := a, ymin := c\<rparr> = b\<lparr>ymin := c, ymax := a\<rparr>"
  for b :: t_bb
  by (cases b; simp)+

lemmas set_simps = t_bb_update_order setters_frame set_coord_coord set_edge_edge set_coord_edge curr_coord_set_edge
  curr_edge_set_coord curr_coord_set_coord curr_edge_set_edge

lemma update_bb_x_eq:
  "update_bb_x ctx src net xold xnew s =
     (case upd1 xold xnew (xpart (curr_bb_coord src net s, curr_bb_edge src net s)) of
        None \<Rightarrow> Inl (bb_from_scratch_into_new ctx net s)
      | Some (lo, hi, nlo, nhi) \<Rightarrow>
          Inr (set_edge_new net (\<lambda>b. b\<lparr>xmin := nlo, xmax := nhi\<rparr>)
                 (set_coord_new net (\<lambda>b. b\<lparr>xmin := lo, xmax := hi\<rparr>) s)))"
proof (cases src)
  case CURR_COMMITTED
  show ?thesis
    unfolding CURR_COMMITTED
    by (simp add: update_bb_x_def upd1_def xpart_def Let_def set_simps
          curr_bb_coord_def [of CURR_COMMITTED net s] curr_bb_edge_def [of CURR_COMMITTED net s])
next
  case CURR_PROPOSED
  show ?thesis
    unfolding CURR_PROPOSED
    by (simp add: update_bb_x_def upd1_def xpart_def Let_def set_simps
          curr_bb_coord_def [of CURR_PROPOSED net s] curr_bb_edge_def [of CURR_PROPOSED net s])
qed

lemma update_bb_y_eq:
  "update_bb_y ctx src net yold ynew s =
     (case upd1 yold ynew (ypart (curr_bb_coord src net s, curr_bb_edge src net s)) of
        None \<Rightarrow> Inl (bb_from_scratch_into_new ctx net s)
      | Some (lo, hi, nlo, nhi) \<Rightarrow>
          Inr (set_edge_new net (\<lambda>b. b\<lparr>ymin := nlo, ymax := nhi\<rparr>)
                 (set_coord_new net (\<lambda>b. b\<lparr>ymin := lo, ymax := hi\<rparr>) s)))"
proof (cases src)
  case CURR_COMMITTED
  show ?thesis
    unfolding CURR_COMMITTED
    by (simp add: update_bb_y_def upd1_def ypart_def Let_def set_simps
          curr_bb_coord_def [of CURR_COMMITTED net s] curr_bb_edge_def [of CURR_COMMITTED net s])
next
  case CURR_PROPOSED
  show ?thesis
    unfolding CURR_PROPOSED
    by (simp add: update_bb_y_def upd1_def ypart_def Let_def set_simps
          curr_bb_coord_def [of CURR_PROPOSED net s] curr_bb_edge_def [of CURR_PROPOSED net s])
qed

lemma upd1_None_iff:
  "upd1 old new (lo, hi, nlo, nhi) = None
     \<longleftrightarrow> (new < old \<and> old = hi \<and> nhi = 1) \<or> (old < new \<and> old = lo \<and> nlo = 1)"
  by (auto simp: upd1_def Let_def)

lemma scratch_into_new_props:
  "ts_bb (bb_from_scratch_into_new ctx net s) net = get_bb_from_scratch ctx (block_locs s) net"
  "bb_updated_before (bb_from_scratch_into_new ctx net s) net = GOT_FROM_SCRATCH"
  "block_locs (bb_from_scratch_into_new ctx net s) = block_locs s"
  by (simp_all add: bb_from_scratch_into_new_def ts_bb_def split: prod.splits)

lemma update_bb_result:
  fixes ctx net xold yold xnew ynew s
  defines "r \<equiv> update_bb ctx net xold yold xnew ynew s"
  assumes flag: "bb_updated_before s net \<noteq> GOT_FROM_SCRATCH"
  shows "block_locs r = block_locs s"
    and "upd1 (clip_x ctx xold) (clip_x ctx xnew) (xpart (curr_bb s net)) = None
         \<or> upd1 (clip_y ctx yold) (clip_y ctx ynew) (ypart (curr_bb s net)) = None
         \<Longrightarrow> ts_bb r net = get_bb_from_scratch ctx (block_locs s) net
             \<and> bb_updated_before r net = GOT_FROM_SCRATCH"
    and "upd1 (clip_x ctx xold) (clip_x ctx xnew) (xpart (curr_bb s net)) = Some qx
         \<Longrightarrow> upd1 (clip_y ctx yold) (clip_y ctx ynew) (ypart (curr_bb s net)) = Some qy
         \<Longrightarrow> xpart (ts_bb r net) = qx \<and> ypart (ts_bb r net) = qy
             \<and> bb_updated_before r net = UPDATED_ONCE"
proof -
  define src where "src = (if bb_updated_before s net = NOT_UPDATED_YET then CURR_COMMITTED else CURR_PROPOSED)"
  define s0 where "s0 = (if bb_updated_before s net = NOT_UPDATED_YET
      then s\<lparr>bb_updated_before := (bb_updated_before s)(net := UPDATED_ONCE)\<rparr> else s)"
  have f0: "bb_updated_before s0 net = UPDATED_ONCE"
    using flag unfolding s0_def by (cases "bb_updated_before s net") auto
  have l0: "block_locs s0 = block_locs s" unfolding s0_def by simp
  have cur: "(curr_bb_coord src net s0, curr_bb_edge src net s0) = curr_bb s net"
    unfolding src_def s0_def curr_bb_def curr_bb_coord_def curr_bb_edge_def by simp
  have r: "r = (case update_bb_x ctx src net (clip_x ctx xold) (clip_x ctx xnew) s0 of
                 Inl u \<Rightarrow> u
               | Inr u \<Rightarrow> (case update_bb_y ctx src net (clip_y ctx yold) (clip_y ctx ynew) u of
                            Inl v \<Rightarrow> v
                          | Inr v \<Rightarrow> if bb_updated_before v net = NOT_UPDATED_YET
                                     then v\<lparr>bb_updated_before := (bb_updated_before v)(net := UPDATED_ONCE)\<rparr>
                                     else v))"
    using flag unfolding r_def update_bb_def Let_def src_def s0_def by simp
  let ?ux = "upd1 (clip_x ctx xold) (clip_x ctx xnew) (xpart (curr_bb s net))"
  let ?uy = "upd1 (clip_y ctx yold) (clip_y ctx ynew) (ypart (curr_bb s net))"
  show "block_locs r = block_locs s"
    unfolding r update_bb_x_eq update_bb_y_eq
    by (auto simp: l0 scratch_into_new_props setters_frame split: option.splits sum.splits)
  have ycur: "ypart (curr_bb_coord src net (set_edge_new net f (set_coord_new net (\<lambda>b. b\<lparr>xmin := a, xmax := b'\<rparr>) s0)),
                     curr_bb_edge src net (set_edge_new net (\<lambda>b. b\<lparr>xmin := c, xmax := d\<rparr>) (set_coord_new net g s0)))
              = ypart (curr_bb s net)" for f g a b' c d
    unfolding cur [symmetric]
    by (cases src) (simp_all add: ypart_def curr_bb_coord_def curr_bb_edge_def setters_frame)
  show "ts_bb r net = get_bb_from_scratch ctx (block_locs s) net
             \<and> bb_updated_before r net = GOT_FROM_SCRATCH"
    if "?ux = None \<or> ?uy = None"
  proof (cases ?ux)
    case None
    then show ?thesis
      unfolding r update_bb_x_eq cur by (simp add: scratch_into_new_props l0)
  next
    case (Some qx)
    with that have uy: "?uy = None" by simp
    obtain a b c d where qx: "qx = (a, b, c, d)" by (cases qx)
    show ?thesis
      unfolding r update_bb_x_eq cur Some qx
      by (simp add: update_bb_y_eq ycur uy scratch_into_new_props setters_frame l0)
  qed
  show "xpart (ts_bb r net) = qx \<and> ypart (ts_bb r net) = qy
             \<and> bb_updated_before r net = UPDATED_ONCE"
    if ux: "?ux = Some qx" and uy: "?uy = Some qy"
  proof -
    obtain a b c d where qx: "qx = (a, b, c, d)" by (cases qx)
    obtain a' b' c' d' where qy: "qy = (a', b', c', d')" by (cases qy)
    show ?thesis
      unfolding r update_bb_x_eq cur ux qx
      apply (simp add: update_bb_y_eq ycur uy qy)
      apply (simp add: setters_frame f0 ts_bb_def xpart_def ypart_def)
      done
  qed
qed

lemma curr_bb_alt:
  "curr_bb s net =
     (curr_bb_coord (if bb_updated_before s net = NOT_UPDATED_YET then CURR_COMMITTED else CURR_PROPOSED) net s,
      curr_bb_edge (if bb_updated_before s net = NOT_UPDATED_YET then CURR_COMMITTED else CURR_PROPOSED) net s)"
  by (simp add: curr_bb_def curr_bb_coord_def curr_bb_edge_def)

lemma update_bb_single_pin:
  assumes flag: "bb_updated_before s net \<noteq> GOT_FROM_SCRATCH"
    and cur: "curr_bb s net = get_bb_from_scratch ctx locs_old net"
    and i: "i < length (net_pins (clb_nlist ctx) net)"
    and others: "\<And>j. j < length (net_pins (clb_nlist ctx) net) \<Longrightarrow> j \<noteq> i \<Longrightarrow>
                   pin_x ctx (block_locs s) (net_pins (clb_nlist ctx) net ! j)
                     = pin_x ctx locs_old (net_pins (clb_nlist ctx) net ! j)
                 \<and> pin_y ctx (block_locs s) (net_pins (clb_nlist ctx) net ! j)
                     = pin_y ctx locs_old (net_pins (clb_nlist ctx) net ! j)"
    and old: "pin_x ctx locs_old (net_pins (clb_nlist ctx) net ! i) = xold"
             "pin_y ctx locs_old (net_pins (clb_nlist ctx) net ! i) = yold"
    and new: "pin_x ctx (block_locs s) (net_pins (clb_nlist ctx) net ! i) = xnew"
             "pin_y ctx (block_locs s) (net_pins (clb_nlist ctx) net ! i) = ynew"
  shows "ts_bb (update_bb ctx net xold yold xnew ynew s) net
           = get_bb_from_scratch ctx (block_locs s) net"
proof -
  let ?pins = "net_pins (clb_nlist ctx) net"
  let ?r = "update_bb ctx net xold yold xnew ynew s"
  let ?xs = "\<lambda>locs. map (\<lambda>p. clip_x ctx (pin_x ctx locs p)) ?pins"
  let ?ys = "\<lambda>locs. map (\<lambda>p. clip_y ctx (pin_y ctx locs p)) ?pins"
  let ?ux = "upd1 (clip_x ctx xold) (clip_x ctx xnew) (xpart (curr_bb s net))"
  let ?uy = "upd1 (clip_y ctx yold) (clip_y ctx ynew) (ypart (curr_bb s net))"
  have xs: "?xs (block_locs s) = (?xs locs_old)[i := clip_x ctx xnew]"
    using i others new by (auto simp: list_eq_iff_nth_eq nth_list_update)
  have ys: "?ys (block_locs s) = (?ys locs_old)[i := clip_y ctx ynew]"
    using i others new by (auto simp: list_eq_iff_nth_eq nth_list_update)
  have xo: "?xs locs_old ! i = clip_x ctx xold" and yo: "?ys locs_old ! i = clip_y ctx yold"
    using i old by simp_all
  note ex_old = get_bb_from_scratch_extent [of ctx locs_old net]
  note ex_new = get_bb_from_scratch_extent [of ctx "block_locs s" net]
  show ?thesis
  proof (cases "?ux = None \<or> ?uy = None")
    case True
    from update_bb_result(2) [OF flag True] show ?thesis by simp
  next
    case False
    then obtain qx qy where ux: "?ux = Some qx" and uy: "?uy = Some qy" by auto
    from update_bb_result(3) [OF flag ux uy]
    have r: "xpart (ts_bb ?r net) = qx" "ypart (ts_bb ?r net) = qy" by simp_all
    have "is_extent ((?xs locs_old)[i := clip_x ctx xnew]) qx"
      by (rule is_extent_upd1 [OF ex_old [THEN conjunct1]]) (use i ux in \<open>simp_all add: xo cur\<close>)
    with ex_new [THEN conjunct1] have x: "qx = xpart (get_bb_from_scratch ctx (block_locs s) net)"
      unfolding xs [symmetric] by (rule is_extent_unique [rotated])
    have "is_extent ((?ys locs_old)[i := clip_y ctx ynew]) qy"
      by (rule is_extent_upd1 [OF ex_old [THEN conjunct2]]) (use i uy in \<open>simp_all add: yo cur\<close>)
    with ex_new [THEN conjunct2] have y: "qy = ypart (get_bb_from_scratch ctx (block_locs s) net)"
      unfolding ys [symmetric] by (rule is_extent_unique [rotated])
    show ?thesis by (rule parts_eq) (simp_all add: r x y)
  qed
qed

lemma update_bb_sole_extreme:
  assumes flag: "bb_updated_before s net \<noteq> GOT_FROM_SCRATCH"
    and sole: "(clip_x ctx xnew < clip_x ctx xold \<and> clip_x ctx xold = xmax (fst (curr_bb s net))
                  \<and> xmax (snd (curr_bb s net)) = 1)
             \<or> (clip_x ctx xold < clip_x ctx xnew \<and> clip_x ctx xold = xmin (fst (curr_bb s net))
                  \<and> xmin (snd (curr_bb s net)) = 1)
             \<or> (clip_y ctx ynew < clip_y ctx yold \<and> clip_y ctx yold = ymax (fst (curr_bb s net))
                  \<and> ymax (snd (curr_bb s net)) = 1)
             \<or> (clip_y ctx yold < clip_y ctx ynew \<and> clip_y ctx yold = ymin (fst (curr_bb s net))
                  \<and> ymin (snd (curr_bb s net)) = 1)"
  shows "ts_bb (update_bb ctx net xold yold xnew ynew s) net = get_bb_from_scratch ctx (block_locs s) net
       \<and> bb_updated_before (update_bb ctx net xold yold xnew ynew s) net = GOT_FROM_SCRATCH"
proof (rule update_bb_result(2) [OF flag])
  obtain c e where ce: "curr_bb s net = (c, e)" by (cases "curr_bb s net")
  from sole show "upd1 (clip_x ctx xold) (clip_x ctx xnew) (xpart (curr_bb s net)) = None
                \<or> upd1 (clip_y ctx yold) (clip_y ctx ynew) (ypart (curr_bb s net)) = None"
    unfolding ce by (auto simp: xpart_def ypart_def upd1_None_iff)
qed

lemma update_bb_got_from_scratch:
  "bb_updated_before s net = GOT_FROM_SCRATCH \<Longrightarrow> update_bb ctx net a b c d s = s"
  by (simp add: update_bb_def Let_def)

text \<open>
  Claim C2. On a net with at least \<open>SMALL_NET\<close> sinks whose current bounding box is the
  one \<^verbatim>\<open>get_bb_from_scratch\<close> computes for the placement before the move, moving the
  block of a single pin of the net makes \<^verbatim>\<open>update_net_bb\<close>, through \<^verbatim>\<open>update_bb\<close>,
  leave as proposed coordinates and edge counts those that \<^verbatim>\<open>get_bb_from_scratch\<close>
  computes for the placement after the move. When the pin leaves an extreme that it alone
  occupies, \<^verbatim>\<open>update_bb\<close> recomputes the box from scratch and marks the net
  \<open>GOT_FROM_SCRATCH\<close>, and on a net so marked every further call of \<^verbatim>\<open>update_bb\<close>
  leaves the state as it is.
\<close>

theorem update_bb_refines_scratch:
  "(SMALL_NET \<le> length (net_sinks (clb_nlist ctx) net)
      \<and> bb_updated_before s net \<noteq> GOT_FROM_SCRATCH
      \<and> curr_bb s net = get_bb_from_scratch ctx locs_old net
      \<and> i < length (net_pins (clb_nlist ctx) net)
      \<and> net_pins (clb_nlist ctx) net ! i = blk_pin
      \<and> pin_block (clb_nlist ctx) blk_pin = block_num mb
      \<and> (\<forall>j \<in> {0..<length (net_pins (clb_nlist ctx) net)}. j \<noteq> i \<longrightarrow>
            pin_block (clb_nlist ctx) (net_pins (clb_nlist ctx) net ! j) \<noteq> block_num mb)
      \<and> locs_old (block_num mb) = old_loc mb
      \<and> block_locs s = locs_old(block_num mb := new_loc mb)
    \<longrightarrow> ts_bb (update_net_bb ctx net mb blk_pin s) net = get_bb_from_scratch ctx (block_locs s) net)
   \<and> (bb_updated_before s net \<noteq> GOT_FROM_SCRATCH
      \<and> ((clip_x ctx xnew < clip_x ctx xold \<and> clip_x ctx xold = xmax (fst (curr_bb s net))
             \<and> xmax (snd (curr_bb s net)) = 1)
         \<or> (clip_x ctx xold < clip_x ctx xnew \<and> clip_x ctx xold = xmin (fst (curr_bb s net))
             \<and> xmin (snd (curr_bb s net)) = 1)
         \<or> (clip_y ctx ynew < clip_y ctx yold \<and> clip_y ctx yold = ymax (fst (curr_bb s net))
             \<and> ymax (snd (curr_bb s net)) = 1)
         \<or> (clip_y ctx yold < clip_y ctx ynew \<and> clip_y ctx yold = ymin (fst (curr_bb s net))
             \<and> ymin (snd (curr_bb s net)) = 1))
    \<longrightarrow> ts_bb (update_bb ctx net xold yold xnew ynew s) net = get_bb_from_scratch ctx (block_locs s) net
        \<and> bb_updated_before (update_bb ctx net xold yold xnew ynew s) net = GOT_FROM_SCRATCH
        \<and> update_bb ctx net a b c d (update_bb ctx net xold yold xnew ynew s)
            = update_bb ctx net xold yold xnew ynew s)
   \<and> (bb_updated_before s net = GOT_FROM_SCRATCH \<longrightarrow> update_bb ctx net a b c d s = s)"
proof (intro conjI impI)
  assume h: "SMALL_NET \<le> length (net_sinks (clb_nlist ctx) net)
      \<and> bb_updated_before s net \<noteq> GOT_FROM_SCRATCH
      \<and> curr_bb s net = get_bb_from_scratch ctx locs_old net
      \<and> i < length (net_pins (clb_nlist ctx) net)
      \<and> net_pins (clb_nlist ctx) net ! i = blk_pin
      \<and> pin_block (clb_nlist ctx) blk_pin = block_num mb
      \<and> (\<forall>j \<in> {0..<length (net_pins (clb_nlist ctx) net)}. j \<noteq> i \<longrightarrow>
            pin_block (clb_nlist ctx) (net_pins (clb_nlist ctx) net ! j) \<noteq> block_num mb)
      \<and> locs_old (block_num mb) = old_loc mb
      \<and> block_locs s = locs_old(block_num mb := new_loc mb)"
  let ?pins = "net_pins (clb_nlist ctx) net"
  from h have large: "\<not> length (net_sinks (clb_nlist ctx) net) < SMALL_NET" by simp
  have "ts_bb (update_bb ctx net
          (loc_x (old_loc mb) + pin_width_offset ctx blk_pin)
          (loc_y (old_loc mb) + pin_height_offset ctx blk_pin)
          (loc_x (new_loc mb) + pin_width_offset ctx blk_pin)
          (loc_y (new_loc mb) + pin_height_offset ctx blk_pin) s) net
        = get_bb_from_scratch ctx (block_locs s) net"
  proof (rule update_bb_single_pin [where i = i and locs_old = locs_old])
    show "bb_updated_before s net \<noteq> GOT_FROM_SCRATCH" using h by simp
    show "curr_bb s net = get_bb_from_scratch ctx locs_old net" using h by simp
    show "i < length ?pins" using h by simp
    show "pin_x ctx (block_locs s) (?pins ! j) = pin_x ctx locs_old (?pins ! j)
        \<and> pin_y ctx (block_locs s) (?pins ! j) = pin_y ctx locs_old (?pins ! j)"
      if "j < length ?pins" "j \<noteq> i" for j
      using h that by (simp add: pin_x_def pin_y_def)
  qed (use h in \<open>simp_all add: pin_x_def pin_y_def\<close>)
  with large show "ts_bb (update_net_bb ctx net mb blk_pin s) net
                     = get_bb_from_scratch ctx (block_locs s) net"
    by (simp add: update_net_bb_def)
next
  assume h: "bb_updated_before s net = GOT_FROM_SCRATCH"
  then show "update_bb ctx net a b c d s = s" by (rule update_bb_got_from_scratch)
next
  let ?r = "update_bb ctx net xold yold xnew ynew s"
  assume h: "bb_updated_before s net \<noteq> GOT_FROM_SCRATCH
      \<and> ((clip_x ctx xnew < clip_x ctx xold \<and> clip_x ctx xold = xmax (fst (curr_bb s net))
             \<and> xmax (snd (curr_bb s net)) = 1)
         \<or> (clip_x ctx xold < clip_x ctx xnew \<and> clip_x ctx xold = xmin (fst (curr_bb s net))
             \<and> xmin (snd (curr_bb s net)) = 1)
         \<or> (clip_y ctx ynew < clip_y ctx yold \<and> clip_y ctx yold = ymax (fst (curr_bb s net))
             \<and> ymax (snd (curr_bb s net)) = 1)
         \<or> (clip_y ctx yold < clip_y ctx ynew \<and> clip_y ctx yold = ymin (fst (curr_bb s net))
             \<and> ymin (snd (curr_bb s net)) = 1))"
  note r = update_bb_sole_extreme [OF h [THEN conjunct1] h [THEN conjunct2]]
  from r show "ts_bb ?r net = get_bb_from_scratch ctx (block_locs s) net" by simp
  from r show "bb_updated_before ?r net = GOT_FROM_SCRATCH" by simp
  from r show "update_bb ctx net a b c d ?r = ?r" by (simp add: update_bb_got_from_scratch)
qed

theorem update_bb_refines_scratch_witness:
  "ts_bb (update_net_bb (demo_ctx True) 0 (move_of 1 (at_xy 3 3) (at_xy 7 7)) 1
            (demo_state\<lparr>block_locs := demo_locs(1 := at_xy 7 7)\<rparr>)) 0
     = get_bb_from_scratch (demo_ctx True) (demo_locs(1 := at_xy 7 7)) 0
   \<and> get_bb_from_scratch (demo_ctx True) (demo_locs(1 := at_xy 7 7)) 0
     = (bb_of 1 7 1 7, bb_of 1 1 1 1)
   \<and> ts_bb (update_bb (demo_ctx True) 0 1 1 4 4 (demo_state\<lparr>block_locs := demo_locs(0 := at_xy 4 4)\<rparr>)) 0
     = get_bb_from_scratch (demo_ctx True) (demo_locs(0 := at_xy 4 4)) 0
   \<and> get_bb_from_scratch (demo_ctx True) (demo_locs(0 := at_xy 4 4)) 0
     = (bb_of 2 5 2 5, bb_of 1 2 1 2)
   \<and> bb_updated_before
       (update_bb (demo_ctx True) 0 1 1 4 4 (demo_state\<lparr>block_locs := demo_locs(0 := at_xy 4 4)\<rparr>)) 0
     = GOT_FROM_SCRATCH"
proof -
  let ?ctx = "demo_ctx True"
  let ?mb = "move_of 1 (at_xy 3 3) (at_xy 7 7)"
  let ?s = "demo_state\<lparr>block_locs := demo_locs(1 := at_xy 7 7)\<rparr>"
  let ?s' = "demo_state\<lparr>block_locs := demo_locs(0 := at_xy 4 4)\<rparr>"
  have pins: "net_pins (clb_nlist ?ctx) 0 = [0, 1, 2, 3, 4]" by code_simp
  have a1: "SMALL_NET \<le> length (net_sinks (clb_nlist ?ctx) 0)" by code_simp
  have a2: "bb_updated_before ?s 0 \<noteq> GOT_FROM_SCRATCH" by (simp add: demo_state_def)
  have a3: "curr_bb ?s 0 = get_bb_from_scratch ?ctx demo_locs 0" by code_simp
  have a4: "(1::nat) < length (net_pins (clb_nlist ?ctx) 0)" by (simp add: pins)
  have a5: "net_pins (clb_nlist ?ctx) 0 ! 1 = 1" by (simp add: pins)
  have a6: "pin_block (clb_nlist ?ctx) 1 = block_num ?mb" by code_simp
  have a7: "\<forall>j \<in> {0..<length (net_pins (clb_nlist ?ctx) 0)}. j \<noteq> 1 \<longrightarrow>
              pin_block (clb_nlist ?ctx) (net_pins (clb_nlist ?ctx) 0 ! j) \<noteq> block_num ?mb"
    by code_simp
  have a8: "demo_locs (block_num ?mb) = old_loc ?mb" by code_simp
  have a9: "block_locs ?s = demo_locs(block_num ?mb := new_loc ?mb)" by (simp add: move_of_def)
  have b1: "bb_updated_before ?s' 0 \<noteq> GOT_FROM_SCRATCH" by (simp add: demo_state_def)
  have b2: "clip_x ?ctx 1 < clip_x ?ctx 4 \<and> clip_x ?ctx 1 = xmin (fst (curr_bb ?s' 0))
             \<and> xmin (snd (curr_bb ?s' 0)) = 1" by code_simp
  note w = update_bb_refines_scratch [of ?ctx 0 ?s demo_locs 1 1 ?mb]
  note w' = update_bb_refines_scratch [of ?ctx 0 ?s' _ _ _ _ 4 1 4 1]
  have c1: "ts_bb (update_net_bb ?ctx 0 ?mb 1 ?s) 0 = get_bb_from_scratch ?ctx (block_locs ?s) 0"
    by (rule w [THEN conjunct1, rule_format]) (intro conjI a1 a2 a3 a4 a5 a6 a7 a8 a9)
  have c2: "ts_bb (update_bb ?ctx 0 1 1 4 4 ?s') 0 = get_bb_from_scratch ?ctx (block_locs ?s') 0
          \<and> bb_updated_before (update_bb ?ctx 0 1 1 4 4 ?s') 0 = GOT_FROM_SCRATCH"
    using w' [THEN conjunct2, THEN conjunct1, rule_format, OF conjI [OF b1 disjI2 [OF disjI1 [OF b2]]]]
    by simp
  have v1: "get_bb_from_scratch ?ctx (demo_locs(1 := at_xy 7 7)) 0 = (bb_of 1 7 1 7, bb_of 1 1 1 1)"
    by code_simp
  have v2: "get_bb_from_scratch ?ctx (demo_locs(0 := at_xy 4 4)) 0 = (bb_of 2 5 2 5, bb_of 1 2 1 2)"
    by code_simp
  from c1 c2 v1 v2 show ?thesis by simp
qed

section \<open>The quench\<close>


lemma try_swap_trial_aux:
  assumes R: "R = (if o1 = ABORT
                   then Inr (ABORTED, clear_move_blocks (clear_move_blocks s0), process_outcome env ABORTED e2)
                   else (case find_affected_nets_and_update_costs ctx (place_algorithm opts) (apply_move_blocks s0) of
                           Inl err \<Rightarrow> Inl err
                         | Inr (s1, n, bb, td) \<Rightarrow>
                             (case assess_swap env (swap_delta_c opts prev bb td) temp e2 of
                                (mo, e3) \<Rightarrow>
                                  Inr (mo,
                                       clear_move_blocks
                                         (if mo = ACCEPTED
                                          then try_swap_accepted ctx opts n (swap_delta_c opts prev bb td) bb td s1
                                          else try_swap_rejected ctx opts n s1),
                                       process_outcome env mo e3))))"
    and D: "D = (if o1 = ABORT then Inr (Fin 0)
                 else (case find_affected_nets_and_update_costs ctx (place_algorithm opts) (apply_move_blocks s0) of
                         Inl err \<Rightarrow> Inl err
                       | Inr (s1, n, bb, td) \<Rightarrow> Inr (swap_delta_c opts prev bb td)))"
    and res: "R = Inr (res, s', e')"
    and c0: "costs s0 = costs s"
  shows "\<exists>d. D = Inr d
            \<and> (res = ACCEPTED \<longrightarrow> cost (costs s') = cost (costs s) + d)
            \<and> (res \<noteq> ACCEPTED \<longrightarrow> cost (costs s') = cost (costs s))
            \<and> ((res = ABORTED \<and> d = Fin 0) \<or> (\<exists>e1. res = fst (assess_swap env d temp e1)))"
proof (cases "o1 = ABORT")
  case True
  with R res have "res = ABORTED" "s' = clear_move_blocks (clear_move_blocks s0)" by simp_all
  with True D c0 show ?thesis by (simp add: clear_move_blocks_def)
next
  case False
  with R res obtain s1 n bb td where
    fa: "find_affected_nets_and_update_costs ctx (place_algorithm opts) (apply_move_blocks s0)
           = Inr (s1, n, bb, td)"
    by (auto split: sum.splits)
  let ?d = "swap_delta_c opts prev bb td"
  obtain mo e3 where as: "assess_swap env ?d temp e2 = (mo, e3)" by (cases "assess_swap env ?d temp e2")
  from R res False fa as have r: "res = mo"
    and s': "s' = clear_move_blocks (if mo = ACCEPTED then try_swap_accepted ctx opts n ?d bb td s1
                                      else try_swap_rejected ctx opts n s1)"
    by simp_all
  have c1: "costs s1 = costs s"
    using costs_find_affected_nets [OF fa] c0 by (simp add: apply_move_blocks_def)
  have d: "D = Inr ?d" using D False fa by simp
  have a: "res = ACCEPTED \<longrightarrow> cost (costs s') = cost (costs s) + ?d"
    using r s' c1 by (simp add: clear_move_blocks_def cost_try_swap_accepted)
  have b: "res \<noteq> ACCEPTED \<longrightarrow> cost (costs s') = cost (costs s)"
    using r s' c1 by (simp add: clear_move_blocks_def cost_try_swap_rejected)
  have o: "\<exists>e1. res = fst (assess_swap env ?d temp e1)"
    using r as by (intro exI [of _ e2]) simp
  show ?thesis using d a b o by blast
qed

lemma try_swap_trial:
  assumes "try_swap ctx opts env temp prev rlim (s, e) = Inr (res, s', e')"
  shows "\<exists>d. try_swap_delta_c ctx opts env prev rlim (s, e) = Inr d
            \<and> (res = ACCEPTED \<longrightarrow> cost (costs s') = cost (costs s) + d)
            \<and> (res \<noteq> ACCEPTED \<longrightarrow> cost (costs s') = cost (costs s))
            \<and> ((res = ABORTED \<and> d = Fin 0) \<or> (\<exists>e1. res = fst (assess_swap env d temp e1)))"
proof (cases "Fin 0 < rlim_escape_fraction opts")
  case esc: True
  obtain u ea where f: "frand env e = (u, ea)" by (cases "frand env e")
  show ?thesis
  proof (cases "u < rlim_escape_fraction opts")
    case True
    obtain o1 mbs e2 where p: "propose_move env ea (block_locs s) Rlim_infinity = ((o1, mbs), e2)"
      by (cases "propose_move env ea (block_locs s) Rlim_infinity") auto
    show ?thesis
      by (rule try_swap_trial_aux [where ?o1.0 = o1 and ?e2.0 = e2 and prev = prev
              and ?s0.0 = "s\<lparr>blocks_affected := (blocks_affected s)\<lparr>moved_blocks := mbs\<rparr>\<rparr>", OF _ _ assms])
         (simp_all add: try_swap_def try_swap_delta_c_def Let_def esc f True p split: sum.splits prod.splits)
  next
    case False
    obtain o1 mbs e2 where p: "propose_move env ea (block_locs s) (Rlim rlim) = ((o1, mbs), e2)"
      by (cases "propose_move env ea (block_locs s) (Rlim rlim)") auto
    show ?thesis
      by (rule try_swap_trial_aux [where ?o1.0 = o1 and ?e2.0 = e2 and prev = prev
              and ?s0.0 = "s\<lparr>blocks_affected := (blocks_affected s)\<lparr>moved_blocks := mbs\<rparr>\<rparr>", OF _ _ assms])
         (simp_all add: try_swap_def try_swap_delta_c_def Let_def esc f False p split: sum.splits prod.splits)
  qed
next
  case False
  obtain o1 mbs e2 where p: "propose_move env e (block_locs s) (Rlim rlim) = ((o1, mbs), e2)"
    by (cases "propose_move env e (block_locs s) (Rlim rlim)") auto
  show ?thesis
    by (rule try_swap_trial_aux [where ?o1.0 = o1 and ?e2.0 = e2 and prev = prev
            and ?s0.0 = "s\<lparr>blocks_affected := (blocks_affected s)\<lparr>moved_blocks := mbs\<rparr>\<rparr>", OF _ _ assms])
       (simp_all add: try_swap_def try_swap_delta_c_def Let_def False p split: sum.splits prod.splits)
qed

lemma try_swap_trial_quench:
  assumes "try_swap ctx opts env (Fin 0) prev rlim (s, e) = Inr (res, s', e')"
  shows "\<not> isl (try_swap_delta_c ctx opts env prev rlim (s, e))
       \<and> (res = ACCEPTED \<longrightarrow>
             projr (try_swap_delta_c ctx opts env prev rlim (s, e)) \<le> Fin 0
           \<and> cost (costs s') = cost (costs s) + projr (try_swap_delta_c ctx opts env prev rlim (s, e)))
       \<and> (\<not> projr (try_swap_delta_c ctx opts env prev rlim (s, e)) \<le> Fin 0 \<longrightarrow> res = REJECTED)
       \<and> (res \<noteq> ACCEPTED \<longrightarrow> cost (costs s') = cost (costs s))"
proof -
  from try_swap_trial [OF assms] obtain d where
    d: "try_swap_delta_c ctx opts env prev rlim (s, e) = Inr d"
    and a: "res = ACCEPTED \<longrightarrow> cost (costs s') = cost (costs s) + d"
    and r: "res \<noteq> ACCEPTED \<longrightarrow> cost (costs s') = cost (costs s)"
    and o: "(res = ABORTED \<and> d = Fin 0) \<or> (\<exists>e1. res = fst (assess_swap env d (Fin 0) e1))"
    by blast
  from o have 1: "res = ACCEPTED \<longrightarrow> d \<le> Fin 0" and 2: "\<not> d \<le> Fin 0 \<longrightarrow> res = REJECTED"
    by (auto simp: assess_swap_zero_temp split: if_splits)
  show ?thesis unfolding d using a r 1 2 by simp
qed



lemma cost_not_above_refl: "cost_not_above s s"
  by (simp add: cost_not_above_def)

lemma cost_not_above_trans:
  "cost_not_above s2 s1 \<Longrightarrow> cost_not_above s1 s0 \<Longrightarrow> cost_not_above s2 s0"
  unfolding cost_not_above_def by (elim disjE exE conjE) (auto intro: order_trans)

lemma cost_not_above_eq: "cost (costs s') = cost (costs s) \<Longrightarrow> cost_not_above s' s"
  by (simp add: cost_not_above_def)

lemma try_swap_quench_not_above:
  assumes "try_swap ctx opts env (Fin 0) prev rlim (s, e) = Inr (res, s', e')"
  shows "cost_not_above s' s"
proof (cases "res = ACCEPTED")
  case True
  let ?d = "projr (try_swap_delta_c ctx opts env prev rlim (s, e))"
  from try_swap_trial_quench [OF assms] True
  have d: "?d \<le> Fin 0" and c: "cost (costs s') = cost (costs s) + ?d" by simp_all
  from d obtain r where r: "?d = Fin r" "r \<le> 0" by (auto simp: fp_le_zero_iff)
  show ?thesis
  proof (cases "cost (costs s)")
    case (Fin c0)
    with c r show ?thesis by (simp add: cost_not_above_def)
  next
    case NaN
    with c r show ?thesis by (simp add: cost_not_above_def)
  qed
next
  case False
  with try_swap_trial_quench [OF assms] show ?thesis by (simp add: cost_not_above_def)
qed

lemma costs_update_td_costs_pin:
  "update_td_costs_pin ctx p s = Inr s' \<Longrightarrow> costs s' = costs s"
  by (auto simp: update_td_costs_pin_def Let_def split: if_splits sum.splits)

lemma costs_update_td_costs:
  assumes "update_td_costs ctx ps s = Inr (s', tc)"
  shows "costs s' = costs s"
proof -
  from assms have f: "foldM_err (update_td_costs_pin ctx) ps s = Inr s'"
    by (auto simp: update_td_costs_def split: sum.splits)
  show ?thesis
    by (rule foldM_err_inv [OF f, where P = "\<lambda>u. costs u = costs s"])
       (auto dest: costs_update_td_costs_pin)
qed

lemma recompute_criticalities_cost:
  assumes "recompute_criticalities upd ce L = Inr L'"
  shows "cost (costs (loop_state L')) = cost (costs (loop_state L))
       \<and> loop_moves_since_cost_recompute L' = loop_moves_since_cost_recompute L"
  using assms
  by (auto simp: recompute_criticalities_def Let_def split: prod.splits sum.splits
           dest!: costs_update_td_costs)

lemma recompute_costs_from_scratch_cost:
  assumes "recompute_costs_from_scratch ctx opts s = Inr s'"
  shows "cost (costs s') = (if place_algorithm opts = PATH_TIMING_DRIVEN_PLACE
                            then cost (costs s) else recompute_bb_cost ctx s)"
  using assms
  by (auto simp: recompute_costs_from_scratch_def Let_def
           split: if_splits sum.splits prod.splits dest!: comp_td_costs_result)

lemma inner_loop_cost_recompute_cost:
  assumes "inner_loop_cost_recompute ctx opts (s, m) = Inr (s', m')"
  shows "(m + 1 \<le> MAX_MOVES_BEFORE_RECOMPUTE \<longrightarrow> s' = s \<and> m' = m + 1)
       \<and> (place_algorithm opts = PATH_TIMING_DRIVEN_PLACE \<longrightarrow> cost (costs s') = cost (costs s))
       \<and> (MAX_MOVES_BEFORE_RECOMPUTE < m + 1 \<and> place_algorithm opts \<noteq> PATH_TIMING_DRIVEN_PLACE
            \<longrightarrow> cost (costs s') = recompute_bb_cost ctx s \<and> m' = 0)"
  using assms
  by (auto simp: inner_loop_cost_recompute_def Let_def split: if_splits sum.splits
           dest!: recompute_costs_from_scratch_cost)

lemma placement_inner_iteration_cost:
  assumes it: "placement_inner_iteration opts env upd temp prev rlim move_lim ce irl i L = Inr L'"
  shows "\<exists>res s1 e1.
           try_swap (loop_ctx L) opts env temp prev rlim (loop_state L, loop_env L) = Inr (res, s1, e1)
         \<and> (place_algorithm opts = PATH_TIMING_DRIVEN_PLACE
              \<or> loop_moves_since_cost_recompute L + 1 \<le> MAX_MOVES_BEFORE_RECOMPUTE
            \<longrightarrow> cost (costs (loop_state L')) = cost (costs s1))
         \<and> (place_algorithm opts \<noteq> PATH_TIMING_DRIVEN_PLACE
              \<and> loop_moves_since_cost_recompute L + 1 \<le> MAX_MOVES_BEFORE_RECOMPUTE
            \<longrightarrow> loop_moves_since_cost_recompute L' = loop_moves_since_cost_recompute L + 1)
         \<and> (place_algorithm opts \<noteq> PATH_TIMING_DRIVEN_PLACE
              \<and> MAX_MOVES_BEFORE_RECOMPUTE < loop_moves_since_cost_recompute L + 1
            \<longrightarrow> cost (costs (loop_state L')) = recompute_bb_cost (loop_ctx L) s1
                \<and> loop_moves_since_cost_recompute L' = 0)"
proof -
  let ?m = "loop_moves_since_cost_recompute L"
  from it obtain res s1 e1 where
    ts: "try_swap (loop_ctx L) opts env temp prev rlim (loop_state L, loop_env L) = Inr (res, s1, e1)"
    by (auto simp: placement_inner_iteration_def split: sum.splits)
  define L1 where "L1 = L\<lparr>loop_state := s1, loop_env := e1\<rparr>"
  define L2 where "L2 = (if res = ACCEPTED
                    then L1\<lparr>loop_stats :=
                           (loop_stats L1)
                             \<lparr>success_sum := success_sum (loop_stats L1) + 1,
                              av_cost := av_cost (loop_stats L1) + cost (costs s1),
                              av_bb_cost := av_bb_cost (loop_stats L1) + bb_cost (costs s1),
                              av_timing_cost := av_timing_cost (loop_stats L1) + timing_cost (costs s1),
                              sum_of_squares :=
                                sum_of_squares (loop_stats L1) + cost (costs s1) * cost (costs s1)\<rparr>\<rparr>
                    else L1)"
  define T where "T = (if place_algorithm opts = PATH_TIMING_DRIVEN_PLACE then
                      (case (if irl \<le> loop_inner_crit_iter_count L2 \<and> i \<noteq> move_lim - 1
                             then recompute_criticalities upd ce (L2\<lparr>loop_inner_crit_iter_count := 0\<rparr>)
                             else Inr L2) of
                         Inl err \<Rightarrow> Inl err
                       | Inr L \<Rightarrow>
                           Inr (L\<lparr>loop_inner_crit_iter_count := loop_inner_crit_iter_count L + 1\<rparr>))
                    else Inr L2)"
  have it': "(case T of
                Inl err \<Rightarrow> Inl err
              | Inr L \<Rightarrow>
                  (case inner_loop_cost_recompute (loop_ctx L) opts
                          (loop_state L, loop_moves_since_cost_recompute L) of
                     Inl err \<Rightarrow> Inl err
                   | Inr (s, m) \<Rightarrow> Inr (L\<lparr>loop_state := s, loop_moves_since_cost_recompute := m\<rparr>))) = Inr L'"
    using it unfolding placement_inner_iteration_def ts T_def L2_def L1_def Let_def by simp
  then obtain L3 where T: "T = Inr L3" by (cases T) simp_all
  have L2: "loop_state L2 = s1" "loop_moves_since_cost_recompute L2 = ?m" "loop_ctx L2 = loop_ctx L"
    unfolding L2_def L1_def by simp_all
  have L3: "cost (costs (loop_state L3)) = cost (costs s1)"
           "loop_moves_since_cost_recompute L3 = ?m"
           "place_algorithm opts \<noteq> PATH_TIMING_DRIVEN_PLACE \<longrightarrow> loop_state L3 = s1 \<and> loop_ctx L3 = loop_ctx L"
    using T L2 unfolding T_def
    by (auto split: if_splits sum.splits dest!: recompute_criticalities_cost)
  from it' T obtain s4 m4 where
    rc: "inner_loop_cost_recompute (loop_ctx L3) opts (loop_state L3, ?m) = Inr (s4, m4)"
    and L': "L' = L3\<lparr>loop_state := s4, loop_moves_since_cost_recompute := m4\<rparr>"
    by (auto simp: L3 split: sum.splits)
  note c = inner_loop_cost_recompute_cost [OF rc]
  have "loop_state L' = s4" "loop_moves_since_cost_recompute L' = m4" unfolding L' by simp_all
  with c L3 ts show ?thesis by (intro exI [of _ res] exI [of _ s1] exI [of _ e1]) auto
qed

lemma placement_inner_iteration_quench:
  assumes it: "placement_inner_iteration opts env upd (Fin 0) prev rlim move_lim ce irl i L = Inr L'"
    and ok: "place_algorithm opts = PATH_TIMING_DRIVEN_PLACE
              \<or> loop_moves_since_cost_recompute L + 1 \<le> MAX_MOVES_BEFORE_RECOMPUTE"
  shows "cost_not_above (loop_state L') (loop_state L)"
proof -
  from placement_inner_iteration_cost [OF it] ok obtain res s1 e1 where
    ts: "try_swap (loop_ctx L) opts env (Fin 0) prev rlim (loop_state L, loop_env L) = Inr (res, s1, e1)"
    and c: "cost (costs (loop_state L')) = cost (costs s1)"
    by blast
  from try_swap_quench_not_above [OF ts] c show ?thesis
    by (simp add: cost_not_above_def)
qed

lemma placement_inner_iterations_quench:
  assumes "foldM_err (placement_inner_iteration opts env upd (Fin 0) prev rlim move_lim ce irl) is L
             = Inr L'"
    and "place_algorithm opts = PATH_TIMING_DRIVEN_PLACE
           \<or> loop_moves_since_cost_recompute L + int (length is) \<le> MAX_MOVES_BEFORE_RECOMPUTE"
  shows "cost_not_above (loop_state L') (loop_state L)"
  using assms
proof (induction "is" arbitrary: L)
  case Nil
  then show ?case by (simp add: cost_not_above_refl)
next
  case (Cons i "is")
  from Cons.prems(1) obtain L1 where
    it: "placement_inner_iteration opts env upd (Fin 0) prev rlim move_lim ce irl i L = Inr L1"
    and rest: "foldM_err (placement_inner_iteration opts env upd (Fin 0) prev rlim move_lim ce irl) is L1
                 = Inr L'"
    by (auto split: sum.splits)
  from Cons.prems(2) have ok: "place_algorithm opts = PATH_TIMING_DRIVEN_PLACE
              \<or> loop_moves_since_cost_recompute L + 1 \<le> MAX_MOVES_BEFORE_RECOMPUTE"
    by auto
  note one = placement_inner_iteration_quench [OF it ok]
  have ok1: "place_algorithm opts = PATH_TIMING_DRIVEN_PLACE
           \<or> loop_moves_since_cost_recompute L1 + int (length is) \<le> MAX_MOVES_BEFORE_RECOMPUTE"
    using Cons.prems(2) placement_inner_iteration_cost [OF it] by auto
  from Cons.IH [OF rest ok1] one show ?case by (rule cost_not_above_trans)
qed

lemma placement_inner_loop_quench:
  assumes lp: "placement_inner_loop opts env upd (Fin 0) prev rlim move_lim ce irl L = Inr L'"
    and ok: "place_algorithm opts = PATH_TIMING_DRIVEN_PLACE
           \<or> loop_moves_since_cost_recompute L + max 0 move_lim \<le> MAX_MOVES_BEFORE_RECOMPUTE"
  shows "cost_not_above (loop_state L') (loop_state L)"
proof -
  let ?L0 = "L\<lparr>loop_stats := \<lparr>av_cost = Fin 0, av_bb_cost = Fin 0, av_timing_cost = Fin 0,
                                 sum_of_squares = Fin 0, success_sum = 0\<rparr>,
               loop_inner_crit_iter_count := 1\<rparr>"
  from lp have f: "foldM_err (placement_inner_iteration opts env upd (Fin 0) prev rlim move_lim ce irl)
                     (map int [0..<nat move_lim]) ?L0 = Inr L'"
    by (simp add: placement_inner_loop_def)
  have "cost_not_above (loop_state L') (loop_state ?L0)"
    by (rule placement_inner_iterations_quench [OF f]) (use ok in \<open>auto simp: max_def\<close>)
  then show ?thesis by simp
qed

text \<open>
  Claim C9, as stated: over a quench the cost is non-increasing move over move, and
  \<open>costs.cost\<close> changes only when a move is accepted. In the inner loop the cost is also
  written at the end of an iteration, by \<^verbatim>\<open>recompute_costs_from_scratch\<close> under
  bounding-box placement: in a quench of one trial that starts 500,000 moves after the last
  recomputation, the move is aborted, no move is accepted, and the cost goes up from 17.5
  to 17.536.
\<close>

theorem quench_cost_counterexample:
  "\<not> isl (demo_quench True BOUNDING_BOX_PLACE (\<lambda>i. (ABORT, [])) 1 demo_low_state 500000)
   \<and> fst (projr (try_swap (demo_ctx True) (demo_opts BOUNDING_BOX_PLACE)
                    (scripted_env (Fin 0) (\<lambda>i. (ABORT, []))) (Fin 0) demo_prev_inverse_costs (Fin 3)
                    (demo_low_state, 0))) = ABORTED
   \<and> success_sum (loop_stats (projr
         (demo_quench True BOUNDING_BOX_PLACE (\<lambda>i. (ABORT, [])) 1 demo_low_state 500000))) = 0
   \<and> cost (costs demo_low_state) = Fin 17.5
   \<and> cost (costs (loop_state (projr
         (demo_quench True BOUNDING_BOX_PLACE (\<lambda>i. (ABORT, [])) 1 demo_low_state 500000)))) = Fin 17.536
   \<and> cost (costs demo_low_state)
       < cost (costs (loop_state (projr
           (demo_quench True BOUNDING_BOX_PLACE (\<lambda>i. (ABORT, [])) 1 demo_low_state 500000))))"
proof -
  let ?Q = "demo_quench True BOUNDING_BOX_PLACE (\<lambda>i. (ABORT, [])) 1 demo_low_state 500000"
  have 1: "\<not> isl ?Q" by code_simp
  have 2: "fst (projr (try_swap (demo_ctx True) (demo_opts BOUNDING_BOX_PLACE)
                    (scripted_env (Fin 0) (\<lambda>i. (ABORT, []))) (Fin 0) demo_prev_inverse_costs (Fin 3)
                    (demo_low_state, 0))) = ABORTED" by code_simp
  have 3: "success_sum (loop_stats (projr ?Q)) = 0" by code_simp
  have 4: "cost (costs demo_low_state) = Fin 17.5" by (simp add: demo_low_state_def)
  have 5: "cost (costs (loop_state (projr ?Q))) = Fin 17.536" by code_simp
  have 6: "cost (costs demo_low_state) < cost (costs (loop_state (projr ?Q)))"
    unfolding 4 5 by simp
  show ?thesis by (intro conjI 1 2 3 4 5 6)
qed

text \<open>
  Claim C9, amended. In a trial at temperature 0 the move is accepted only if the
  \<open>delta_c\<close> of the trial is \<open>\<le> 0\<close>, and then \<open>costs.cost\<close> becomes
  \<open>costs.cost + delta_c\<close>; a move whose \<open>delta_c\<close> is not \<open>\<le> 0\<close> is rejected; a
  rejected or aborted move leaves \<open>costs.cost\<close> unchanged; so the cost after the trial is
  not above the cost before. An iteration of the inner loop changes the cost after the
  trial only when the counter of the moves exceeds 500,000 under bounding-box placement:
  then the cost becomes the recomputed bounding-box cost. Hence over a quench the cost
  does not rise under timing-driven placement, and under bounding-box placement as long as
  the counter does not exceed 500,000 during the quench.
\<close>

theorem quench_cost:
  "(try_swap ctx opts env (Fin 0) prev rlim (s, e) = Inr (res, s', e') \<longrightarrow>
       \<not> isl (try_swap_delta_c ctx opts env prev rlim (s, e))
     \<and> (res = ACCEPTED \<longrightarrow>
           projr (try_swap_delta_c ctx opts env prev rlim (s, e)) \<le> Fin 0
         \<and> cost (costs s') = cost (costs s) + projr (try_swap_delta_c ctx opts env prev rlim (s, e)))
     \<and> (\<not> projr (try_swap_delta_c ctx opts env prev rlim (s, e)) \<le> Fin 0 \<longrightarrow> res = REJECTED)
     \<and> (res \<noteq> ACCEPTED \<longrightarrow> cost (costs s') = cost (costs s))
     \<and> cost_not_above s' s)
   \<and> (placement_inner_iteration opts env upd (Fin 0) prev rlim move_lim ce irl i L = Inr L1 \<longrightarrow>
       (\<exists>res1 s1 e1.
           try_swap (loop_ctx L) opts env (Fin 0) prev rlim (loop_state L, loop_env L) = Inr (res1, s1, e1)
         \<and> (place_algorithm opts = PATH_TIMING_DRIVEN_PLACE
              \<or> loop_moves_since_cost_recompute L + 1 \<le> MAX_MOVES_BEFORE_RECOMPUTE
            \<longrightarrow> cost (costs (loop_state L1)) = cost (costs s1))
         \<and> (place_algorithm opts \<noteq> PATH_TIMING_DRIVEN_PLACE
              \<and> MAX_MOVES_BEFORE_RECOMPUTE < loop_moves_since_cost_recompute L + 1
            \<longrightarrow> cost (costs (loop_state L1)) = recompute_bb_cost (loop_ctx L) s1)))
   \<and> (placement_inner_loop opts env upd (Fin 0) prev rlim move_lim ce irl L = Inr L'
       \<and> (place_algorithm opts = PATH_TIMING_DRIVEN_PLACE
            \<or> loop_moves_since_cost_recompute L + max 0 move_lim \<le> MAX_MOVES_BEFORE_RECOMPUTE)
       \<longrightarrow> cost_not_above (loop_state L') (loop_state L))"
proof (intro conjI impI)
  assume t: "try_swap ctx opts env (Fin 0) prev rlim (s, e) = Inr (res, s', e')"
  note q = try_swap_trial_quench [OF t]
  from q show "\<not> isl (try_swap_delta_c ctx opts env prev rlim (s, e))" by simp
  from q show "res \<noteq> ACCEPTED \<Longrightarrow> cost (costs s') = cost (costs s)" by simp
  from q show "\<not> projr (try_swap_delta_c ctx opts env prev rlim (s, e)) \<le> Fin 0 \<Longrightarrow> res = REJECTED"
    by simp
  from q show "res = ACCEPTED \<Longrightarrow> projr (try_swap_delta_c ctx opts env prev rlim (s, e)) \<le> Fin 0"
    by simp
  from q show "res = ACCEPTED \<Longrightarrow>
      cost (costs s') = cost (costs s) + projr (try_swap_delta_c ctx opts env prev rlim (s, e))"
    by simp
  show "cost_not_above s' s" by (rule try_swap_quench_not_above [OF t])
next
  assume it: "placement_inner_iteration opts env upd (Fin 0) prev rlim move_lim ce irl i L = Inr L1"
  from placement_inner_iteration_cost [OF it]
  show "\<exists>res1 s1 e1.
           try_swap (loop_ctx L) opts env (Fin 0) prev rlim (loop_state L, loop_env L) = Inr (res1, s1, e1)
         \<and> (place_algorithm opts = PATH_TIMING_DRIVEN_PLACE
              \<or> loop_moves_since_cost_recompute L + 1 \<le> MAX_MOVES_BEFORE_RECOMPUTE
            \<longrightarrow> cost (costs (loop_state L1)) = cost (costs s1))
         \<and> (place_algorithm opts \<noteq> PATH_TIMING_DRIVEN_PLACE
              \<and> MAX_MOVES_BEFORE_RECOMPUTE < loop_moves_since_cost_recompute L + 1
            \<longrightarrow> cost (costs (loop_state L1)) = recompute_bb_cost (loop_ctx L) s1)"
    by blast
next
  assume a: "placement_inner_loop opts env upd (Fin 0) prev rlim move_lim ce irl L = Inr L'
       \<and> (place_algorithm opts = PATH_TIMING_DRIVEN_PLACE
            \<or> loop_moves_since_cost_recompute L + max 0 move_lim \<le> MAX_MOVES_BEFORE_RECOMPUTE)"
  show "cost_not_above (loop_state L') (loop_state L)"
    by (rule placement_inner_loop_quench [OF a [THEN conjunct1] a [THEN conjunct2]])
qed

theorem quench_cost_witness:
  "fst (projr (demo_trial False PATH_TIMING_DRIVEN_PLACE (Fin 0) 2 (at_xy 5 5) (at_xy 3 3))) = ACCEPTED
   \<and> cost_not_above (fst (snd (projr
          (demo_trial False PATH_TIMING_DRIVEN_PLACE (Fin 0) 2 (at_xy 5 5) (at_xy 3 3))))) demo_state
   \<and> cost (costs (fst (snd (projr
          (demo_trial False PATH_TIMING_DRIVEN_PLACE (Fin 0) 2 (at_xy 5 5) (at_xy 3 3))))))
       = Fin 1 + projr (try_swap_delta_c (demo_ctx False) (demo_opts PATH_TIMING_DRIVEN_PLACE)
                          (scripted_env (Fin 0) (\<lambda>i. (VALID, [move_of 2 (at_xy 5 5) (at_xy 3 3)])))
                          demo_prev_inverse_costs (Fin 3) (demo_state, 0))
   \<and> fst (projr (demo_trial False PATH_TIMING_DRIVEN_PLACE (Fin 0) 1 (at_xy 3 3) (at_xy 7 7))) = REJECTED
   \<and> cost (costs (fst (snd (projr
          (demo_trial False PATH_TIMING_DRIVEN_PLACE (Fin 0) 1 (at_xy 3 3) (at_xy 7 7)))))) = Fin 1
   \<and> cost_not_above
        (loop_state (projr (demo_quench False PATH_TIMING_DRIVEN_PLACE demo_two_moves 2 demo_state 0)))
        demo_state
   \<and> cost (costs (loop_state (projr
        (demo_quench False PATH_TIMING_DRIVEN_PLACE demo_two_moves 2 demo_state 0))))
       = Fin (112557 / 142480)
   \<and> cost_not_above
        (loop_state (projr (demo_quench True BOUNDING_BOX_PLACE demo_two_moves 2 demo_low_state 0)))
        demo_low_state"
proof -
  let ?A = "demo_trial False PATH_TIMING_DRIVEN_PLACE (Fin 0) 2 (at_xy 5 5) (at_xy 3 3)"
  let ?R = "demo_trial False PATH_TIMING_DRIVEN_PLACE (Fin 0) 1 (at_xy 3 3) (at_xy 7 7)"
  let ?T = "demo_quench False PATH_TIMING_DRIVEN_PLACE demo_two_moves 2 demo_state 0"
  let ?B = "demo_quench True BOUNDING_BOX_PLACE demo_two_moves 2 demo_low_state 0"
  have a: "\<not> isl ?A" by code_simp
  have r: "\<not> isl ?R" by code_simp
  have ra: "fst (projr ?A) = ACCEPTED" by code_simp
  have rr: "fst (projr ?R) = REJECTED" by code_simp
  have c0: "cost (costs demo_state) = Fin 1" by (simp add: demo_state_def)
  note qa = quench_cost [THEN conjunct1, rule_format, OF Inr_projr [OF a, unfolded demo_trial_def]]
  note qr = quench_cost [THEN conjunct1, rule_format, OF Inr_projr [OF r, unfolded demo_trial_def]]
  from qa have 1: "cost_not_above (fst (snd (projr ?A))) demo_state"
    unfolding demo_trial_def by simp
  from qa ra c0 have 2: "cost (costs (fst (snd (projr ?A))))
       = Fin 1 + projr (try_swap_delta_c (demo_ctx False) (demo_opts PATH_TIMING_DRIVEN_PLACE)
                          (scripted_env (Fin 0) (\<lambda>i. (VALID, [move_of 2 (at_xy 5 5) (at_xy 3 3)])))
                          demo_prev_inverse_costs (Fin 3) (demo_state, 0))"
    unfolding demo_trial_def by simp
  from qr rr c0 have 3: "cost (costs (fst (snd (projr ?R)))) = Fin 1"
    unfolding demo_trial_def by simp
  have t: "\<not> isl ?T" by code_simp
  have b: "\<not> isl ?B" by code_simp
  have pt: "?T = Inr (projr ?T)" using t by (cases ?T) simp_all
  have pb: "?B = Inr (projr ?B)" using b by (cases ?B) simp_all
  have at: "place_algorithm (demo_opts PATH_TIMING_DRIVEN_PLACE) = PATH_TIMING_DRIVEN_PLACE"
    by (simp add: demo_opts_def)
  have mb: "loop_moves_since_cost_recompute (demo_loop True demo_low_state 0) + max 0 2
              \<le> MAX_MOVES_BEFORE_RECOMPUTE"
    by (simp add: demo_loop_def MAX_MOVES_BEFORE_RECOMPUTE_def)
  have ls: "loop_state (demo_loop safe u m) = u" for safe u m by (simp add: demo_loop_def)
  have 4: "cost_not_above (loop_state (projr ?T)) demo_state"
    using quench_cost [THEN conjunct2, THEN conjunct2, rule_format,
            OF conjI [OF pt [unfolded demo_quench_def] disjI1 [OF at]]]
    unfolding demo_quench_def by (simp only: ls)
  have 5: "cost (costs (loop_state (projr ?T))) = Fin (112557 / 142480)" by code_simp
  have 6: "cost_not_above (loop_state (projr ?B)) demo_low_state"
    using quench_cost [THEN conjunct2, THEN conjunct2, rule_format,
            OF conjI [OF pb [unfolded demo_quench_def] disjI2 [OF mb]]]
    unfolding demo_quench_def by (simp only: ls)
  show ?thesis by (intro conjI ra 1 2 rr 3 4 5 6)
qed

end
